theory Spec2Isabelle
  imports Complex_Main "HOL-Library.Word"
begin

section \<open>Data model of \<^verbatim>\<open>src/pasp/clearn.c\<close>\<close>

text \<open>
  The file works on a \<^verbatim>\<open>program_t\<close> with two arrays: the probabilistic facts
  \<^verbatim>\<open>PF[0..PF_n)\<close> and the annotated disjunctions \<^verbatim>\<open>AD[0..AD_n)\<close>. A C array
  together with its element count is one HOL list: \<^verbatim>\<open>PF_n\<close> is \<open>length (PF P)\<close>,
  \<^verbatim>\<open>AD_n\<close> is \<open>length (AD P)\<close>, and the outcome count \<^verbatim>\<open>AD[i].n\<close> is the length of
  the outcome array \<^verbatim>\<open>AD[i].P\<close>.

  The probabilities are C doubles. The arithmetic type is left open (\<open>'a\<close>): the loops
  only use \<open>0\<close>, \<open>+\<close>, \<open>*\<close> and \<open>/\<close> of that type, and the two conversions of the
  code (from \<^verbatim>\<open>int\<close> and from \<^verbatim>\<open>size_t\<close>) are parameters, so that nothing proved
  about the loops depends on an algebraic law that rounding would break.
\<close>

type_synonym addr = nat
type_synonym handle = nat
type_synonym u16 = "16 word"

record 'a prob_fact_t =
  pf_p :: 'a
  pf_learnable :: bool
  pf_self :: handle

record 'a annot_disj_t =
  ad_P :: "'a list"
  ad_learnable :: bool
  ad_self :: handle

record 'a program_t =
  PF :: "'a prob_fact_t list"
  AD :: "'a annot_disj_t list"

text \<open>
  A pointer to a heap array is the address returned by \<^verbatim>\<open>malloc\<close> (\<open>None\<close> is
  \<^verbatim>\<open>NULL\<close>) together with the elements written to it. The index arrays are filled once
  and never written again, so the elements travel with the pointer.
\<close>

type_synonym 'b array = "addr option \<times> 'b list"

record indices_t =
  I_n :: nat
  I_m :: nat
  I_F :: "u16 array"
  I_A :: "u16 array"

record parameters_t =
  W_n :: nat
  W_m :: nat
  W_F :: "addr option"
  W_A :: "(addr option) array"
  W_I_F :: "u16 array"
  W_I_A :: "u16 array"

datatype pyexc =
  PyExc_MemoryError | PyExc_ValueError | PyExc_AttributeError | PyExc_TypeError
  | PyExc_ImportError

datatype phase = Solve | Reset | Accumulate | Normalize | Publish

text \<open>
  Everything the file reads or writes outside its arguments:
  \<^item> \<open>live\<close>: the blocks obtained from \<^verbatim>\<open>malloc\<close> and not yet freed, with their size in
    bytes; \<open>nmalloc\<close> counts the calls of \<^verbatim>\<open>malloc\<close> and numbers the blocks, so that
    no address is handed out twice;
  \<^item> \<open>raised\<close>: the calls of \<^verbatim>\<open>PyErr_SetString\<close>, oldest first;
  \<^item> \<open>py_p\<close>, \<open>py_P\<close>: the attribute \<^verbatim>\<open>p\<close> of the Python object behind a fact's
    \<^verbatim>\<open>self\<close> and the list \<^verbatim>\<open>P\<close> of the Python object behind a disjunction's
    \<^verbatim>\<open>self\<close>; \<open>npycalls\<close> counts the fallible calls of the Python C API;
  \<^item> \<open>nsolve\<close>: the number of calls of the inference primitive so far;
  \<^item> \<open>trace\<close>: the phases of \<^verbatim>\<open>learn_fixpoint\<close> entered so far (a ghost field).
\<close>

record 'a world =
  live :: "addr \<rightharpoonup> nat"
  nmalloc :: nat
  raised :: "(pyexc \<times> string) list"
  py_p :: "handle \<Rightarrow> 'a"
  py_P :: "handle \<Rightarrow> 'a list"
  npycalls :: nat
  nsolve :: nat
  trace :: "phase list"

definition sizeof_uint16 :: nat where "sizeof_uint16 = 2"
definition sizeof_double :: nat where "sizeof_double = 8"
definition sizeof_pointer :: nat where "sizeof_pointer = 8"

section \<open>The allocator and the error indicator\<close>

text \<open>
  Whether a call of \<^verbatim>\<open>malloc\<close> succeeds is decided by the environment: \<open>ok k\<close> tells
  whether the call number \<open>k\<close> returns a block. (\<^verbatim>\<open>malloc(0)\<close> may return
  \<^verbatim>\<open>NULL\<close>; that is one of the outcomes \<open>ok\<close> ranges over.) Sizes are natural
  numbers: every count multiplied here counts elements of an array that already exists
  in memory with larger elements, so the products stay below \<^verbatim>\<open>SIZE_MAX\<close>.
\<close>

definition malloc :: "(nat \<Rightarrow> bool) \<Rightarrow> nat \<Rightarrow> 'a world \<Rightarrow> addr option \<times> 'a world" where
  "malloc ok sz s =
     (if ok (nmalloc s)
      then (Some (nmalloc s),
            s\<lparr>live := (live s)(nmalloc s \<mapsto> sz), nmalloc := Suc (nmalloc s)\<rparr>)
      else (None, s\<lparr>nmalloc := Suc (nmalloc s)\<rparr>))"

definition free :: "addr option \<Rightarrow> 'a world \<Rightarrow> 'a world" where
  "free p s = (case p of None \<Rightarrow> s | Some a \<Rightarrow> s\<lparr>live := (live s)(a := None)\<rparr>)"

definition PyErr_SetString :: "pyexc \<Rightarrow> string \<Rightarrow> 'a world \<Rightarrow> 'a world" where
  "PyErr_SetString e msg s = s\<lparr>raised := raised s @ [(e, msg)]\<rparr>"

section \<open>\<^verbatim>\<open>init_indices\<close>\<close>

text \<open>
  The counting loop \<^verbatim>\<open>for (i = 0; i < k; ++i) if (X[i].learnable) ++n;\<close> and the
  filling loop \<^verbatim>\<open>for (i = j = 0; i < k; ++i) if (X[i].learnable) I[j++] = i;\<close>.
  The loop counter is a \<^verbatim>\<open>size_t\<close>, the array element a \<^verbatim>\<open>uint16_t\<close>: the store
  \<^verbatim>\<open>I[j++] = i\<close> keeps the low 16 bits of \<open>i\<close> (\<open>of_nat\<close> into \<open>16 word\<close>).
\<close>

fun count_loop :: "('e \<Rightarrow> bool) \<Rightarrow> 'e list \<Rightarrow> nat \<Rightarrow> nat" where
  "count_loop f [] n = n"
| "count_loop f (x # xs) n = count_loop f xs (if f x then Suc n else n)"

fun fill_loop :: "('e \<Rightarrow> bool) \<Rightarrow> 'e list \<Rightarrow> nat \<Rightarrow> nat \<Rightarrow> u16 list \<Rightarrow> u16 list" where
  "fill_loop f [] i j buf = buf"
| "fill_loop f (x # xs) i j buf =
     (if f x then fill_loop f xs (Suc i) (Suc j) (buf[j := of_nat i])
      else fill_loop f xs (Suc i) j buf)"

text \<open>
  One of the two halves of \<^verbatim>\<open>init_indices\<close>: count, allocate when the count is not
  zero, fill. The result is \<open>None\<close> when \<^verbatim>\<open>malloc\<close> returned \<^verbatim>\<open>NULL\<close> (the
  \<^verbatim>\<open>goto cleanup\<close>). The fresh block is not initialised by \<^verbatim>\<open>malloc\<close>; the model
  starts it with zeros, and the filling loop writes every slot.
\<close>

definition build_index ::
  "(nat \<Rightarrow> bool) \<Rightarrow> ('e \<Rightarrow> bool) \<Rightarrow> 'e list \<Rightarrow> 'a world \<Rightarrow> (nat \<times> u16 array) option \<times> 'a world"
where
  "build_index ok f xs s =
     (let n = count_loop f xs 0 in
      if n \<noteq> 0 then
        (case malloc ok (n * sizeof_uint16) s of
           (None, s') \<Rightarrow> (None, s')
         | (Some a, s') \<Rightarrow> (Some (n, (Some a, fill_loop f xs 0 0 (replicate n 0))), s'))
      else (Some (n, (None, [])), s))"

definition init_indices ::
  "(nat \<Rightarrow> bool) \<Rightarrow> 'a program_t \<Rightarrow> 'a world \<Rightarrow> indices_t option \<times> 'a world"
where
  "init_indices ok P s =
     (case build_index ok pf_learnable (PF P) s of
        (None, s1) \<Rightarrow>
          (None, free None (free None
             (PyErr_SetString PyExc_MemoryError ''could not allocate memory in init_indices!'' s1)))
      | (Some (n, IF), s1) \<Rightarrow>
          (case build_index ok ad_learnable (AD P) s1 of
             (None, s2) \<Rightarrow>
               (None, free None (free (fst IF)
                  (PyErr_SetString PyExc_MemoryError ''could not allocate memory in init_indices!'' s2)))
           | (Some (m, IA), s2) \<Rightarrow>
               (Some \<lparr>I_n = n, I_m = m, I_F = IF, I_A = IA\<rparr>, s2)))"

definition free_indices_contents :: "indices_t \<Rightarrow> 'a world \<Rightarrow> 'a world" where
  "free_indices_contents I s = free (fst (I_A I)) (free (fst (I_F I)) s)"

section \<open>\<^verbatim>\<open>init_parameters\<close> and the destructors\<close>

text \<open>
  The loop \<^verbatim>\<open>for (i = 0; i < m; ++i) { c = P->AD[I_A[i]].n; A[i] = malloc(c*sizeof(double)); ... }\<close>
  runs over the entries \<^verbatim>\<open>I_A[0..m)\<close> in order; \<open>A\<close> holds the row pointers stored so far,
  \<^verbatim>\<open>A[0..i)\<close>. When a row cannot be allocated, the inner loop frees \<^verbatim>\<open>A[0..i)\<close>
  and the function leaves through \<^verbatim>\<open>cleanup\<close> (result \<open>None\<close>).
\<close>

fun alloc_rows ::
  "(nat \<Rightarrow> bool) \<Rightarrow> 'a program_t \<Rightarrow> u16 list \<Rightarrow> addr option list \<Rightarrow> 'a world
     \<Rightarrow> addr option list option \<times> 'a world"
where
  "alloc_rows ok P [] A s = (Some A, s)"
| "alloc_rows ok P (k # ks) A s =
     (let c = length (ad_P (AD P ! unat k)) in
      case malloc ok (c * sizeof_double) s of
        (None, s') \<Rightarrow> (None, fold free A s')
      | (Some a, s') \<Rightarrow> alloc_rows ok P ks (A @ [Some a]) s')"

definition init_parameters_cleanup ::
  "addr option \<Rightarrow> addr option \<Rightarrow> addr option \<Rightarrow> addr option \<Rightarrow> 'a world \<Rightarrow> 'a world"
where
  "init_parameters_cleanup pIF pIA pF pA s =
     free pA (free pF (free pIA (free pIF
       (PyErr_SetString PyExc_MemoryError ''could not allocate memory in init_parameters!'' s))))"

definition init_parameters ::
  "(nat \<Rightarrow> bool) \<Rightarrow> 'a program_t \<Rightarrow> 'a world \<Rightarrow> parameters_t option \<times> 'a world"
where
  "init_parameters ok P s =
     (case init_indices ok P s of
        (None, s0) \<Rightarrow> (None, s0)
      | (Some I, s0) \<Rightarrow>
          (let n = I_n I; m = I_m I; IF = I_F I; IA = I_A I in
           case malloc ok (n * (2 * sizeof_double)) s0 of
             (None, s1) \<Rightarrow> (None, init_parameters_cleanup (fst IF) (fst IA) None None s1)
           | (Some F, s1) \<Rightarrow>
               (case malloc ok (m * sizeof_pointer) s1 of
                  (None, s2) \<Rightarrow>
                    (None, init_parameters_cleanup (fst IF) (fst IA) (Some F) None s2)
                | (Some A, s2) \<Rightarrow>
                    (case alloc_rows ok P (take m (snd IA)) [] s2 of
                       (None, s3) \<Rightarrow>
                         (None, init_parameters_cleanup (fst IF) (fst IA) (Some F) (Some A) s3)
                     | (Some rows, s3) \<Rightarrow>
                         (Some \<lparr>W_n = n, W_m = m, W_F = Some F, W_A = (Some A, rows),
                                W_I_F = IF, W_I_A = IA\<rparr>, s3)))))"

definition free_parameters_contents :: "parameters_t \<Rightarrow> 'a world \<Rightarrow> 'a world" where
  "free_parameters_contents W s =
     free (fst (W_I_A W)) (free (fst (W_I_F W)) (free (fst (W_A W))
       (fold free (take (W_m W) (snd (W_A W))) (free (W_F W) s))))"

section \<open>\<^verbatim>\<open>update_program_parameters\<close>\<close>

text \<open>
  The fallible calls of the Python C API (\<^verbatim>\<open>PyFloat_FromDouble\<close>,
  \<^verbatim>\<open>PyObject_SetAttrString\<close>, \<^verbatim>\<open>PyObject_GetAttrString\<close>, \<^verbatim>\<open>PyList_SetItem\<close>) succeed
  or fail as the environment decides: \<open>ok k\<close> tells whether the call number \<open>k\<close>
  succeeds. \<^verbatim>\<open>PyList_SetItem\<close> also fails when the index is outside the Python list.
  Reference counts are not modelled.
\<close>

definition py_call :: "(nat \<Rightarrow> bool) \<Rightarrow> 'a world \<Rightarrow> bool \<times> 'a world" where
  "py_call ok s = (ok (npycalls s), s\<lparr>npycalls := Suc (npycalls s)\<rparr>)"

text \<open>A \<^verbatim>\<open>for\<close> loop whose body may \<^verbatim>\<open>return false\<close>.\<close>

fun for_each :: "('i \<Rightarrow> 's \<Rightarrow> bool \<times> 's) \<Rightarrow> 'i list \<Rightarrow> 's \<Rightarrow> bool \<times> 's" where
  "for_each body [] s = (True, s)"
| "for_each body (i # is) s =
     (case body i s of (False, s') \<Rightarrow> (False, s') | (True, s') \<Rightarrow> for_each body is s')"

definition publish_fact :: "(nat \<Rightarrow> bool) \<Rightarrow> 'a prob_fact_t \<Rightarrow> 'a world \<Rightarrow> bool \<times> 'a world" where
  "publish_fact ok pf s =
     (case py_call ok s of
        (False, s1) \<Rightarrow>
          (False, PyErr_SetString PyExc_TypeError
                    ''could not create a Python double from C double!'' s1)
      | (True, s1) \<Rightarrow>
          (case py_call ok s1 of
             (False, s2) \<Rightarrow>
               (False, PyErr_SetString PyExc_AttributeError ''could not update PF.p!'' s2)
           | (True, s2) \<Rightarrow> (True, s2\<lparr>py_p := (py_p s2)(pf_self pf := pf_p pf)\<rparr>)))"

definition publish_outcome ::
  "(nat \<Rightarrow> bool) \<Rightarrow> 'a annot_disj_t \<Rightarrow> nat \<Rightarrow> 'a world \<Rightarrow> bool \<times> 'a world"
where
  "publish_outcome ok ad j s =
     (case py_call ok s of
        (False, s1) \<Rightarrow>
          (False, PyErr_SetString PyExc_TypeError
                    ''could not create a Python double from C double!'' s1)
      | (True, s1) \<Rightarrow>
          (case py_call ok s1 of
             (False, s2) \<Rightarrow> (False, s2)
           | (True, s2) \<Rightarrow>
               (if j < length (py_P s2 (ad_self ad))
                then (True, s2\<lparr>py_P := (py_P s2)
                               (ad_self ad := (py_P s2 (ad_self ad))[j := ad_P ad ! j])\<rparr>)
                else (False, s2))))"

definition publish_disj :: "(nat \<Rightarrow> bool) \<Rightarrow> 'a annot_disj_t \<Rightarrow> 'a world \<Rightarrow> bool \<times> 'a world" where
  "publish_disj ok ad s =
     (case py_call ok s of
        (False, s1) \<Rightarrow>
          (False, PyErr_SetString PyExc_AttributeError ''could not retrieve AD.P!'' s1)
      | (True, s1) \<Rightarrow> for_each (publish_outcome ok ad) [0..<length (ad_P ad)] s1)"

definition update_program_parameters ::
  "(nat \<Rightarrow> bool) \<Rightarrow> 'a program_t \<Rightarrow> indices_t \<Rightarrow> 'a world \<Rightarrow> bool \<times> 'a world"
where
  "update_program_parameters ok P I s =
     (case for_each (\<lambda>i. publish_fact ok (PF P ! unat (snd (I_F I) ! i))) [0..<I_n I] s of
        (False, s') \<Rightarrow> (False, s')
      | (True, s') \<Rightarrow>
          for_each (\<lambda>i. publish_disj ok (AD P ! unat (snd (I_A I) ! i))) [0..<I_m I] s')"

section \<open>\<^verbatim>\<open>learn_fixpoint\<close>\<close>

text \<open>
  A NumPy array as far as \<^verbatim>\<open>learn_fixpoint\<close> looks at it: its dimensions
  (\<^verbatim>\<open>PyArray_NDIM\<close> is their number, \<^verbatim>\<open>PyArray_SIZE\<close> their product) and, for the
  repeat counts, the C \<^verbatim>\<open>int\<close> elements read through \<^verbatim>\<open>PyArray_GETPTR1\<close>.
\<close>

record PyArrayObject =
  dims :: "nat list"
  ints :: "32 word list"

definition PyArray_NDIM :: "PyArrayObject \<Rightarrow> nat" where
  "PyArray_NDIM a = length (dims a)"

definition PyArray_SIZE :: "PyArrayObject \<Rightarrow> nat" where
  "PyArray_SIZE a = prod_list (dims a)"

text \<open>
  \<^verbatim>\<open>(int) *((int*) PyArray_GETPTR1(obs_counts, i))\<close>. The loops read it for
  \<open>i < O.n\<close>; after the validation the vector has \<^verbatim>\<open>obs_dims[0]\<close> elements.
\<close>

definition GETPTR1_int :: "PyArrayObject \<Rightarrow> nat \<Rightarrow> 32 word" where
  "GETPTR1_int a i = ints a ! i"

record observations_t =
  O_n :: nat

text \<open>
  What the inference primitive leaves in \<^verbatim>\<open>Q[0].P[i_o]\<close> for one observation: the pairs
  \<^verbatim>\<open>F[i_pf][0..1]\<close>, the rows \<^verbatim>\<open>A[i_ad][j]\<close> and the probability \<^verbatim>\<open>o\<close> of the
  observation.
\<close>

record 'a prob_obs_storage_t =
  po_F :: "('a \<times> 'a) list"
  po_A :: "'a list list"
  po_o :: 'a

text \<open>
  The collaborators of \<^verbatim>\<open>learn_fixpoint\<close> whose code is in other files, as parameters:
  \<^item> \<open>malloc_ok\<close>, \<open>py_ok\<close>: the outcomes of the allocator and of the Python C API;
  \<^item> \<open>import_array_ok\<close>: whether NumPy's \<^verbatim>\<open>import_array()\<close> succeeds;
  \<^item> \<open>init_observations\<close>: the observation adapter, \<open>None\<close> when it returns false;
  \<^item> \<open>init_prob_storage_seq\<close>: allocates the workers' storage, \<open>None\<close> when it returns
    \<open>0\<close> workers; its blocks and those of \<open>init_observations\<close> are not part of \<open>live\<close>;
  \<^item> \<open>prob_obs_reuse\<close>: the inference primitive; its first argument is the number of its
    earlier calls, and \<open>None\<close> is the return value false. It reads the program and
    writes the storage;
  \<^item> \<open>double_of_int\<close>, \<open>double_of_size\<close>: the conversions of a C \<^verbatim>\<open>int\<close> and of a
    \<^verbatim>\<open>size_t\<close> to \<^verbatim>\<open>double\<close>.
\<close>

record 'a env =
  malloc_ok :: "nat \<Rightarrow> bool"
  py_ok :: "nat \<Rightarrow> bool"
  import_array_ok :: bool
  init_observations :: "PyArrayObject \<Rightarrow> PyArrayObject \<Rightarrow> observations_t option"
  init_prob_storage_seq ::
    "'a program_t \<Rightarrow> indices_t \<Rightarrow> observations_t \<Rightarrow> 'a prob_obs_storage_t list option"
  prob_obs_reuse ::
    "nat \<Rightarrow> 'a program_t \<Rightarrow> observations_t \<Rightarrow> bool \<Rightarrow> 'a prob_obs_storage_t list
       \<Rightarrow> 'a prob_obs_storage_t list option"
  double_of_int :: "int \<Rightarrow> 'a"
  double_of_size :: "nat \<Rightarrow> 'a"

text \<open>\<^verbatim>\<open>P->PF[k].p = f(P->PF[k].p)\<close> and \<^verbatim>\<open>P->AD[k].P[j] = f(P->AD[k].P[j])\<close>.\<close>

definition modify_pf :: "nat \<Rightarrow> ('a \<Rightarrow> 'a) \<Rightarrow> 'a program_t \<Rightarrow> 'a program_t" where
  "modify_pf k f P = P\<lparr>PF := (PF P)[k := (PF P ! k)\<lparr>pf_p := f (pf_p (PF P ! k))\<rparr>]\<rparr>"

definition modify_ad :: "nat \<Rightarrow> nat \<Rightarrow> ('a \<Rightarrow> 'a) \<Rightarrow> 'a program_t \<Rightarrow> 'a program_t" where
  "modify_ad k j f P =
     P\<lparr>AD := (AD P)[k := (AD P ! k)\<lparr>ad_P := (ad_P (AD P ! k))[j := f (ad_P (AD P ! k) ! j)]\<rparr>]\<rparr>"

text \<open>
  The two loop shapes that occur three times each in the body of the iteration:
  \<^verbatim>\<open>for (i_pf = 0; i_pf < I.n; ++i_pf) P->PF[I.F[i_pf]].p = g(i_pf, P->PF[I.F[i_pf]].p);\<close> and
  \<^verbatim>\<open>for (i_ad = 0; i_ad < I.m; ++i_ad) { AD = &P->AD[I.A[i_ad]];
       for (j = 0; j < AD->n; ++j) AD->P[j] = g(i_ad, j, AD->P[j]); }\<close>
\<close>

definition for_facts :: "indices_t \<Rightarrow> (nat \<Rightarrow> 'a \<Rightarrow> 'a) \<Rightarrow> 'a program_t \<Rightarrow> 'a program_t" where
  "for_facts I g P =
     fold (\<lambda>i_pf P. modify_pf (unat (snd (I_F I) ! i_pf)) (g i_pf) P) [0..<I_n I] P"

definition for_disjs ::
  "indices_t \<Rightarrow> (nat \<Rightarrow> nat \<Rightarrow> 'a \<Rightarrow> 'a) \<Rightarrow> 'a program_t \<Rightarrow> 'a program_t"
where
  "for_disjs I g P =
     fold (\<lambda>i_ad P.
             (let k = unat (snd (I_A I) ! i_ad) in
              fold (\<lambda>j P. modify_ad k j (g i_ad j) P) [0..<length (ad_P (AD P ! k))] P))
          [0..<I_m I] P"

definition reset_parameters :: "indices_t \<Rightarrow> 'a::zero program_t \<Rightarrow> 'a program_t" where
  "reset_parameters I P = for_disjs I (\<lambda>i_ad j p. 0) (for_facts I (\<lambda>i_pf p. 0) P)"

text \<open>The body of the loop over the observations, for the observation \<open>i_o\<close>.\<close>

definition update_observation ::
  "'a::{plus,times,inverse} env \<Rightarrow> indices_t \<Rightarrow> PyArrayObject \<Rightarrow> 'a prob_obs_storage_t list
     \<Rightarrow> nat \<Rightarrow> 'a program_t \<Rightarrow> 'a program_t"
where
  "update_observation E I obs_counts Q i_o P =
     (let W = Q ! i_o;
          c = sint (GETPTR1_int obs_counts i_o)
      in for_disjs I (\<lambda>i_ad j p. p + double_of_int E c * (po_A W ! i_ad ! j / po_o W))
           (for_facts I (\<lambda>i_pf p. p + double_of_int E c * (snd (po_F W ! i_pf) / po_o W)) P))"

definition update_parameters ::
  "'a::{plus,times,inverse} env \<Rightarrow> indices_t \<Rightarrow> observations_t \<Rightarrow> PyArrayObject
     \<Rightarrow> 'a prob_obs_storage_t list \<Rightarrow> 'a program_t \<Rightarrow> 'a program_t"
where
  "update_parameters E I Obs obs_counts Q P =
     fold (update_observation E I obs_counts Q) [0..<O_n Obs] P"

definition divide_parameters ::
  "'a::inverse env \<Rightarrow> indices_t \<Rightarrow> 64 word \<Rightarrow> 'a program_t \<Rightarrow> 'a program_t"
where
  "divide_parameters E I N P =
     for_disjs I (\<lambda>i_ad j p. p / double_of_size E (unat N))
       (for_facts I (\<lambda>i_pf p. p / double_of_size E (unat N)) P)"

text \<open>One pass of the loop body after the call of the inference primitive.\<close>

definition learning_rule ::
  "'a::{zero,plus,times,inverse} env \<Rightarrow> indices_t \<Rightarrow> observations_t \<Rightarrow> PyArrayObject
     \<Rightarrow> 64 word \<Rightarrow> 'a prob_obs_storage_t list \<Rightarrow> 'a program_t \<Rightarrow> 'a program_t"
where
  "learning_rule E I Obs obs_counts N Q P =
     divide_parameters E I N (update_parameters E I Obs obs_counts Q (reset_parameters I P))"

text \<open>
  \<^verbatim>\<open>for (i = 0; i < O.n; ++i) N += (int) *((int*) PyArray_GETPTR1(obs_counts, i));\<close>
  with \<open>N\<close> a \<^verbatim>\<open>size_t\<close>: the \<^verbatim>\<open>int\<close> is converted to 64 bits and the sum wraps.
\<close>

definition compute_N :: "PyArrayObject \<Rightarrow> observations_t \<Rightarrow> 64 word" where
  "compute_N obs_counts Obs =
     fold (\<lambda>i N. N + word_of_int (sint (GETPTR1_int obs_counts i))) [0..<O_n Obs] 0"

text \<open>
  The loop \<^verbatim>\<open>for (i = 0; i < niters; ++i)\<close>; the body does not read \<open>i\<close>, the
  argument counts the passes that remain. The result is false when the inference
  primitive failed (\<^verbatim>\<open>goto cleanup\<close>).
\<close>

fun iterations ::
  "'a::{zero,plus,times,inverse} env \<Rightarrow> indices_t \<Rightarrow> observations_t \<Rightarrow> PyArrayObject
     \<Rightarrow> bool \<Rightarrow> 64 word \<Rightarrow> nat \<Rightarrow> 'a prob_obs_storage_t list \<Rightarrow> 'a program_t \<Rightarrow> 'a world
     \<Rightarrow> bool \<times> 'a program_t \<times> 'a world"
where
  "iterations E I Obs obs_counts lstable_sat N 0 Q P s = (True, P, s)"
| "iterations E I Obs obs_counts lstable_sat N (Suc k) Q P s =
     (case prob_obs_reuse E (nsolve s) P Obs lstable_sat Q of
        None \<Rightarrow> (False, P, s\<lparr>nsolve := Suc (nsolve s), trace := trace s @ [Solve]\<rparr>)
      | Some Q' \<Rightarrow>
          iterations E I Obs obs_counts lstable_sat N k Q'
            (learning_rule E I Obs obs_counts N Q' P)
            (s\<lparr>nsolve := Suc (nsolve s),
               trace := trace s @ [Solve, Reset, Accumulate, Normalize]\<rparr>))"

text \<open>
  The label \<^verbatim>\<open>cleanup\<close>. The workers' storage is released by
  \<^verbatim>\<open>free_prob_storage_contents\<close>, whose blocks are not part of \<open>live\<close>.
\<close>

definition learn_fixpoint_cleanup :: "indices_t \<Rightarrow> 'a world \<Rightarrow> 'a world" where
  "learn_fixpoint_cleanup I s = free_indices_contents I s"

definition indices_zero :: indices_t where
  "indices_zero = \<lparr>I_n = 0, I_m = 0, I_F = (None, []), I_A = (None, [])\<rparr>"

definition learn_fixpoint ::
  "'a::{zero,plus,times,inverse} env \<Rightarrow> 'a program_t \<Rightarrow> PyArrayObject \<Rightarrow> PyArrayObject
     \<Rightarrow> PyArrayObject \<Rightarrow> nat \<Rightarrow> bool \<Rightarrow> 'a world \<Rightarrow> bool \<times> 'a program_t \<times> 'a world"
where
  "learn_fixpoint E P obs obs_counts atoms niters lstable_sat s =
     (if \<not> import_array_ok E then
        (False, P,
         PyErr_SetString PyExc_ImportError ''numpy.core.multiarray failed to import'' s)
      else
        let obs_dims = dims obs; atoms_n = PyArray_SIZE atoms in
        if PyArray_NDIM obs \<noteq> 2 \<or> PyArray_NDIM obs_counts \<noteq> 1 \<or> PyArray_NDIM atoms \<noteq> 1 \<or>
           atoms_n \<noteq> obs_dims ! 1 \<or> PyArray_SIZE obs_counts \<noteq> obs_dims ! 0
        then
          (False, P,
           learn_fixpoint_cleanup indices_zero
             (PyErr_SetString PyExc_ValueError
                ''unexpected size dimension for obs, obs_counts and/or atoms in learn_fixpoint!'' s))
        else
          (case init_observations E obs atoms of
             None \<Rightarrow> (False, P, learn_fixpoint_cleanup indices_zero s)
           | Some Obs \<Rightarrow>
               (case init_indices (malloc_ok E) P s of
                  (None, s1) \<Rightarrow> (False, P, learn_fixpoint_cleanup indices_zero s1)
                | (Some I, s1) \<Rightarrow>
                    if I_n I = 0 \<and> I_m I = 0 then
                      (False, P,
                       PyErr_SetString PyExc_ValueError ''program is not learnable!'' s1)
                    else
                      (case init_prob_storage_seq E P I Obs of
                         None \<Rightarrow> (False, P, learn_fixpoint_cleanup I s1)
                       | Some Q \<Rightarrow>
                           (let N = compute_N obs_counts Obs in
                            case iterations E I Obs obs_counts lstable_sat N niters Q P s1 of
                              (False, P', s2) \<Rightarrow> (False, P', learn_fixpoint_cleanup I s2)
                            | (True, P', s2) \<Rightarrow>
                                (case update_program_parameters (py_ok E) P' I
                                        (s2\<lparr>trace := trace s2 @ [Publish]\<rparr>) of
                                   (False, s3) \<Rightarrow>
                                     (False, P',
                                      learn_fixpoint_cleanup I
                                        (PyErr_SetString PyExc_AttributeError
                                           ''could not update program parameters!'' s3))
                                 | (True, s3) \<Rightarrow> (True, P', s3)))))))"

section \<open>Notions used in the statements\<close>

text \<open>The positions of the flagged elements of a list, counted from \<open>i\<close>.\<close>

fun positions :: "('e \<Rightarrow> bool) \<Rightarrow> 'e list \<Rightarrow> nat \<Rightarrow> nat list" where
  "positions f [] i = []"
| "positions f (x # xs) i = (if f x then i # positions f xs (Suc i) else positions f xs (Suc i))"

text \<open>The allocator invariant: no block is live at a number not handed out yet.\<close>

definition heap_wf :: "'a world \<Rightarrow> bool" where
  "heap_wf s = (\<forall>a. nmalloc s \<le> a \<longrightarrow> live s a = None)"

text \<open>
  \<open>frame KF KA P P'\<close>: the program \<open>P'\<close> differs from \<open>P\<close> at most in the
  probabilities of the facts at the positions \<open>KF\<close> and in the outcome probabilities of
  the disjunctions at the positions \<open>KA\<close>.
\<close>

definition frame :: "nat set \<Rightarrow> nat set \<Rightarrow> 'a program_t \<Rightarrow> 'a program_t \<Rightarrow> bool" where
  "frame KF KA P P' =
     (length (PF P') = length (PF P) \<and> length (AD P') = length (AD P) \<and>
      (\<forall>k. k \<notin> KF \<longrightarrow> PF P' ! k = PF P ! k) \<and>
      (\<forall>k. k \<notin> KA \<longrightarrow> AD P' ! k = AD P ! k) \<and>
      (\<forall>k. pf_learnable (PF P' ! k) = pf_learnable (PF P ! k) \<and>
           pf_self (PF P' ! k) = pf_self (PF P ! k)) \<and>
      (\<forall>k. ad_learnable (AD P' ! k) = ad_learnable (AD P ! k) \<and>
           ad_self (AD P' ! k) = ad_self (AD P ! k)))"

text \<open>
  \<open>niters\<close> full passes, spelled out: \<open>Ps\<close> are the programs before the first pass
  and after each pass, \<open>Qs\<close> the storage before the first call of the inference
  primitive and after each call. Pass \<open>j\<close> calls the inference primitive (its call
  number \<open>c + j\<close>) on the program left by the pass before and on the storage left by
  the call before, and then resets, accumulates and divides with the storage it was
  given back.
\<close>

definition full_passes ::
  "'a::{zero,plus,times,inverse} env \<Rightarrow> indices_t \<Rightarrow> observations_t \<Rightarrow> PyArrayObject \<Rightarrow> bool
     \<Rightarrow> 64 word \<Rightarrow> nat \<Rightarrow> nat \<Rightarrow> 'a program_t list \<Rightarrow> 'a prob_obs_storage_t list list
     \<Rightarrow> bool"
where
  "full_passes E I Obs obs_counts lstable_sat N niters c Ps Qs =
     (length Ps = Suc niters \<and> length Qs = Suc niters \<and>
      (\<forall>j. j < niters \<longrightarrow>
         prob_obs_reuse E (c + j) (Ps ! j) Obs lstable_sat (Qs ! j) = Some (Qs ! Suc j) \<and>
         Ps ! Suc j =
           divide_parameters E I N
             (update_parameters E I Obs obs_counts (Qs ! Suc j) (reset_parameters I (Ps ! j)))))"

section \<open>Concrete inputs\<close>

definition world0 :: "real world" where
  "world0 = \<lparr>live = Map.empty, nmalloc = 0, raised = [], py_p = (\<lambda>h. 0), py_P = (\<lambda>h. []),
             npycalls = 0, nsolve = 0, trace = []\<rparr>"

text \<open>An environment outcome that never fails, and one that fails at the call \<open>f\<close> only.\<close>

definition always :: "nat \<Rightarrow> bool" where
  "always k = True"

definition all_but :: "nat \<Rightarrow> nat \<Rightarrow> bool" where
  "all_but f k = (k \<noteq> f)"

text \<open>Three facts (the last two learnable) and three disjunctions (the first and last learnable).\<close>

definition small_program :: "real program_t" where
  "small_program =
     \<lparr>PF = [\<lparr>pf_p = 1/2, pf_learnable = False, pf_self = 0\<rparr>,
            \<lparr>pf_p = 1/2, pf_learnable = True, pf_self = 1\<rparr>,
            \<lparr>pf_p = 1/4, pf_learnable = True, pf_self = 2\<rparr>],
      AD = [\<lparr>ad_P = [1/2, 1/2], ad_learnable = True, ad_self = 3\<rparr>,
            \<lparr>ad_P = [1], ad_learnable = False, ad_self = 4\<rparr>,
            \<lparr>ad_P = [1/5, 3/10, 1/2], ad_learnable = True, ad_self = 5\<rparr>]\<rparr>"

text \<open>
  A program with \<open>k + 1\<close> facts and no disjunction: only the last fact, at position
  \<open>k\<close>, is learnable.
\<close>

definition fixed_fact :: "real prob_fact_t" where
  "fixed_fact = \<lparr>pf_p = 1/2, pf_learnable = False, pf_self = 0\<rparr>"

definition free_fact :: "real prob_fact_t" where
  "free_fact = \<lparr>pf_p = 1/2, pf_learnable = True, pf_self = 1\<rparr>"

definition long_program :: "nat \<Rightarrow> real program_t" where
  "long_program k = \<lparr>PF = replicate k fixed_fact @ [free_fact], AD = []\<rparr>"

text \<open>
  The scenario of the specification: one learnable fact, two observations over one atom
  with repeat counts 3 and 1, and an inference primitive that always succeeds and
  leaves \<open>P(t=1,O) = 0.9, P(O) = 1\<close> for the first observation and
  \<open>P(t=1,O) = 0.1, P(O) = 1\<close> for the second. The arithmetic is that of the reals.
\<close>

definition scenario_program :: "real program_t" where
  "scenario_program = \<lparr>PF = [\<lparr>pf_p = 1/2, pf_learnable = True, pf_self = 0\<rparr>], AD = []\<rparr>"

definition scenario_obs :: PyArrayObject where
  "scenario_obs = \<lparr>dims = [2, 1], ints = []\<rparr>"

definition scenario_counts :: PyArrayObject where
  "scenario_counts = \<lparr>dims = [2], ints = [3, 1]\<rparr>"

definition scenario_atoms :: PyArrayObject where
  "scenario_atoms = \<lparr>dims = [1], ints = []\<rparr>"

definition scenario_storage :: "real prob_obs_storage_t list" where
  "scenario_storage =
     [\<lparr>po_F = [(1/10, 9/10)], po_A = [], po_o = 1\<rparr>,
      \<lparr>po_F = [(9/10, 1/10)], po_A = [], po_o = 1\<rparr>]"

definition rows_of :: "PyArrayObject \<Rightarrow> PyArrayObject \<Rightarrow> observations_t option" where
  "rows_of obs atoms = Some \<lparr>O_n = hd (dims obs)\<rparr>"

definition empty_storage ::
  "real program_t \<Rightarrow> indices_t \<Rightarrow> observations_t \<Rightarrow> real prob_obs_storage_t list option"
where
  "empty_storage P I Obs = Some []"

definition scenario_solver ::
  "nat \<Rightarrow> real program_t \<Rightarrow> observations_t \<Rightarrow> bool \<Rightarrow> real prob_obs_storage_t list
     \<Rightarrow> real prob_obs_storage_t list option"
where
  "scenario_solver k P Obs lstable_sat Q = Some scenario_storage"

definition scenario_env :: "real env" where
  "scenario_env =
     \<lparr>malloc_ok = always, py_ok = always, import_array_ok = True,
      init_observations = rows_of, init_prob_storage_seq = empty_storage,
      prob_obs_reuse = scenario_solver, double_of_int = of_int, double_of_size = of_nat\<rparr>"

text \<open>An atom vector whose length is not the column count of \<open>scenario_obs\<close>.\<close>

definition long_atoms :: PyArrayObject where
  "long_atoms = \<lparr>dims = [2], ints = []\<rparr>"

text \<open>A program without learnable entries.\<close>

definition fixed_program :: "real program_t" where
  "fixed_program =
     \<lparr>PF = [\<lparr>pf_p = 1/2, pf_learnable = False, pf_self = 0\<rparr>],
      AD = [\<lparr>ad_P = [1/2, 1/2], ad_learnable = False, ad_self = 1\<rparr>]\<rparr>"

text \<open>The scenario with an inference primitive that fails.\<close>

definition no_solver ::
  "nat \<Rightarrow> real program_t \<Rightarrow> observations_t \<Rightarrow> bool \<Rightarrow> real prob_obs_storage_t list
     \<Rightarrow> real prob_obs_storage_t list option"
where
  "no_solver k P Obs lstable_sat Q = None"

definition stalled_env :: "real env" where
  "stalled_env = scenario_env\<lparr>prob_obs_reuse := no_solver\<rparr>"

text \<open>
  Two learnable facts, the same two observations, and a Python C API whose fourth call
  fails: the call of \<^verbatim>\<open>PyObject_SetAttrString\<close> for the second fact.
\<close>

definition two_fact_program :: "real program_t" where
  "two_fact_program =
     \<lparr>PF = [\<lparr>pf_p = 1/2, pf_learnable = True, pf_self = 0\<rparr>,
            \<lparr>pf_p = 1/2, pf_learnable = True, pf_self = 1\<rparr>],
      AD = []\<rparr>"

definition two_fact_storage :: "real prob_obs_storage_t list" where
  "two_fact_storage =
     [\<lparr>po_F = [(1/10, 9/10), (1/2, 1/2)], po_A = [], po_o = 1\<rparr>,
      \<lparr>po_F = [(9/10, 1/10), (1/2, 1/2)], po_A = [], po_o = 1\<rparr>]"

definition two_fact_solver ::
  "nat \<Rightarrow> real program_t \<Rightarrow> observations_t \<Rightarrow> bool \<Rightarrow> real prob_obs_storage_t list
     \<Rightarrow> real prob_obs_storage_t list option"
where
  "two_fact_solver k P Obs lstable_sat Q = Some two_fact_storage"

definition publish_failing_env :: "real env" where
  "publish_failing_env = scenario_env\<lparr>py_ok := all_but 3, prob_obs_reuse := two_fact_solver\<rparr>"

text \<open>
  The scenario with an inference primitive that reads the program: for both
  observations it leaves \<open>P(t=1,O)\<close> at half of the current probability of the fact,
  with \<open>P(O) = 1\<close>, so that every pass halves the probability.
\<close>

definition halving_solver ::
  "nat \<Rightarrow> real program_t \<Rightarrow> observations_t \<Rightarrow> bool \<Rightarrow> real prob_obs_storage_t list
     \<Rightarrow> real prob_obs_storage_t list option"
where
  "halving_solver k P Obs lstable_sat Q =
     Some [\<lparr>po_F = [(1 - pf_p (PF P ! 0) / 2, pf_p (PF P ! 0) / 2)], po_A = [], po_o = 1\<rparr>,
           \<lparr>po_F = [(1 - pf_p (PF P ! 0) / 2, pf_p (PF P ! 0) / 2)], po_A = [], po_o = 1\<rparr>]"

definition halving_env :: "real env" where
  "halving_env = scenario_env\<lparr>prob_obs_reuse := halving_solver\<rparr>"


text \<open>
  A fixed disjunction and a learnable disjunction with three outcomes, two observations
  for which the inference primitive leaves values that sum to \<open>P(O)\<close> (\<open>1/2\<close> for the
  first observation, \<open>1\<close> for the second), and repeat counts that are both zero.
\<close>

definition disj_program :: "real program_t" where
  "disj_program =
     \<lparr>PF = [],
      AD = [\<lparr>ad_P = [1], ad_learnable = False, ad_self = 0\<rparr>,
            \<lparr>ad_P = [1/2, 1/4, 1/4], ad_learnable = True, ad_self = 1\<rparr>]\<rparr>"

definition disj_storage :: "real prob_obs_storage_t list" where
  "disj_storage =
     [\<lparr>po_F = [], po_A = [[1/4, 1/8, 1/8]], po_o = 1/2\<rparr>,
      \<lparr>po_F = [], po_A = [[1/10, 1/10, 4/5]], po_o = 1\<rparr>]"

definition disj_solver ::
  "nat \<Rightarrow> real program_t \<Rightarrow> observations_t \<Rightarrow> bool \<Rightarrow> real prob_obs_storage_t list
     \<Rightarrow> real prob_obs_storage_t list option"
where
  "disj_solver k P Obs lstable_sat Q = Some disj_storage"

definition disj_env :: "real env" where
  "disj_env = scenario_env\<lparr>prob_obs_reuse := disj_solver\<rparr>"

definition zero_counts :: PyArrayObject where
  "zero_counts = \<lparr>dims = [2], ints = [0, 0]\<rparr>"

text \<open>A world in which the Python list of the learnable disjunction has its three entries.\<close>

definition disj_world :: "real world" where
  "disj_world = world0\<lparr>py_P := (\<lambda>h. if h = 1 then [1/2, 1/4, 1/4] else [])\<rparr>"
lemma count_loop_eq: "count_loop f xs n = n + length (filter f xs)"
  by (induction xs arbitrary: n) auto

lemma length_positions: "length (positions f xs i) = length (filter f xs)"
  by (induction xs arbitrary: i) auto

lemma fill_loop_eq:
  "length buf = j + length (filter f xs) \<Longrightarrow>
   fill_loop f xs i j buf = take j buf @ map of_nat (positions f xs i)"
proof (induction xs arbitrary: i j buf)
  case Nil
  then show ?case by simp
next
  case (Cons x xs)
  show ?case
  proof (cases "f x")
    case True
    with Cons.prems have len: "length (buf[j := of_nat i]) = Suc j + length (filter f xs)"
      by simp
    have "j < length buf" using Cons.prems True by simp
    then have "take (Suc j) (buf[j := of_nat i]) = take j buf @ [of_nat i]"
      by (simp add: take_Suc_conv_app_nth)
    with Cons.IH [OF len] True show ?thesis by simp
  next
    case False
    with Cons.prems have "length buf = j + length (filter f xs)" by simp
    from Cons.IH [OF this] False show ?thesis by simp
  qed
qed

lemma positions_shift: "positions f xs i = map (\<lambda>k. k + i) (positions f xs 0)"
proof (induction xs arbitrary: i)
  case Nil
  then show ?case by simp
next
  case (Cons x xs)
  have a: "positions f xs (Suc i) = map (\<lambda>k. k + Suc i) (positions f xs 0)"
    by (rule Cons.IH)
  have b: "positions f xs (Suc 0) = map (\<lambda>k. k + Suc 0) (positions f xs 0)"
    by (rule Cons.IH)
  show ?case by (simp add: a b o_def)
qed

lemma positions_filter: "positions f xs 0 = filter (\<lambda>k. f (xs ! k)) [0..<length xs]"
proof (induction xs)
  case Nil
  then show ?case by simp
next
  case (Cons x xs)
  have u: "[0..<length (x # xs)] = 0 # map Suc [0..<length xs]"
    by (simp add: upt_conv_Cons map_Suc_upt del: upt_Suc)
  have s: "positions f xs (Suc 0) = map Suc (positions f xs 0)"
    using positions_shift [of f xs "Suc 0"] by simp
  show ?case
    unfolding u by (simp add: s Cons.IH filter_map o_def)
qed

lemma positions_bound: "k \<in> set (positions f xs 0) \<Longrightarrow> k < length xs"
  by (simp add: positions_filter)

lemma unat_u16_positions:
  assumes "length xs \<le> 65536"
  shows "map unat (map of_nat (positions f xs 0) :: u16 list) = positions f xs 0"
proof -
  have "unat (of_nat k :: u16) = k" if "k \<in> set (positions f xs 0)" for k
  proof -
    from that have "k < length xs" by (rule positions_bound)
    with assms have "k < 65536" by simp
    then show ?thesis by (simp add: unat_of_nat)
  qed
  then show ?thesis by (simp add: map_idI)
qed

lemma build_index_Some:
  assumes "build_index ok f xs s = (Some (n, IX), s')"
  shows "n = length (filter f xs) \<and> snd IX = map of_nat (positions f xs 0)"
proof -
  have "fill_loop f xs 0 0 (replicate (length (filter f xs)) 0) = map of_nat (positions f xs 0)"
    by (simp add: fill_loop_eq)
  moreover have "length (filter f xs) = 0 \<Longrightarrow> positions f xs 0 = []"
    using length_positions [of f xs 0] by simp
  ultimately show ?thesis
    using assms
    by (auto simp: build_index_def Let_def count_loop_eq split: if_splits prod.splits option.splits)
qed

section \<open>The allocator\<close>

lemma malloc_None:
  "malloc ok sz s = (None, s') \<Longrightarrow> s' = s\<lparr>nmalloc := Suc (nmalloc s)\<rparr>"
  by (auto simp: malloc_def split: if_splits)

lemma malloc_Some:
  "malloc ok sz s = (Some a, s') \<Longrightarrow>
   a = nmalloc s \<and> s' = s\<lparr>live := (live s)(a \<mapsto> sz), nmalloc := Suc (nmalloc s)\<rparr>"
  by (auto simp: malloc_def split: if_splits)

lemma live_free: "live (free p s) = (\<lambda>a. if p = Some a then None else live s a)"
  by (cases p) (auto simp: free_def)

lemma nmalloc_free [simp]: "nmalloc (free p s) = nmalloc s"
  by (cases p) (simp_all add: free_def)

lemma raised_free [simp]: "raised (free p s) = raised s"
  by (cases p) (simp_all add: free_def)

lemma free_None [simp]: "free None s = s"
  by (simp add: free_def)

lemma live_fold_free:
  "live (fold free ps s) = (\<lambda>a. if Some a \<in> set ps then None else live s a)"
  by (induction ps arbitrary: s) (auto simp: live_free)

lemma nmalloc_fold_free [simp]: "nmalloc (fold free ps s) = nmalloc s"
  by (induction ps arbitrary: s) simp_all

lemma raised_fold_free [simp]: "raised (fold free ps s) = raised s"
  by (induction ps arbitrary: s) simp_all

section \<open>The index set\<close>

lemma build_index_live:
  assumes "build_index ok f xs s = (r, s')"
  shows "raised s' = raised s \<and> nmalloc s \<le> nmalloc s' \<and>
         (\<forall>a. a < nmalloc s \<longrightarrow> live s' a = live s a)"
  using assms
  by (auto simp: build_index_def Let_def malloc_def split: if_splits)

lemma build_index_None:
  assumes "build_index ok f xs s = (None, s')"
  shows "live s' = live s \<and> nmalloc s' = Suc (nmalloc s)"
  using assms
  by (auto simp: build_index_def Let_def malloc_def split: if_splits)

lemma build_index_ptr:
  assumes "build_index ok f xs s = (Some (n, IX), s')"
  shows "(fst IX = None \<and> live s' = live s \<and> nmalloc s' = nmalloc s) \<or>
         (fst IX = Some (nmalloc s) \<and> live s' = (live s)(nmalloc s \<mapsto> n * sizeof_uint16) \<and>
          nmalloc s' = Suc (nmalloc s))"
  using assms
  by (auto simp: build_index_def Let_def malloc_def split: if_splits)

lemma init_indices_Some:
  assumes "init_indices ok P s = (Some I, s')"
  shows "I_n I = length (filter pf_learnable (PF P)) \<and>
         I_m I = length (filter ad_learnable (AD P)) \<and>
         snd (I_F I) = map of_nat (positions pf_learnable (PF P) 0) \<and>
         snd (I_A I) = map of_nat (positions ad_learnable (AD P) 0)"
  using assms
  by (auto simp: init_indices_def split: prod.splits option.splits dest!: build_index_Some)

lemma init_indices_wf:
  assumes "init_indices ok P s = (Some I, s')"
    and "length (PF P) \<le> 65536" and "length (AD P) \<le> 65536"
  shows "map unat (snd (I_F I)) = filter (\<lambda>i. pf_learnable (PF P ! i)) [0..<length (PF P)] \<and>
         map unat (snd (I_A I)) = filter (\<lambda>i. ad_learnable (AD P ! i)) [0..<length (AD P)] \<and>
         sorted_wrt (<) (map unat (snd (I_F I))) \<and> sorted_wrt (<) (map unat (snd (I_A I))) \<and>
         distinct (map unat (snd (I_F I))) \<and> distinct (map unat (snd (I_A I))) \<and>
         (\<forall>k \<in> set (snd (I_F I)). unat k < length (PF P)) \<and>
         (\<forall>k \<in> set (snd (I_A I)). unat k < length (AD P)) \<and>
         I_n I = length (snd (I_F I)) \<and> I_m I = length (snd (I_A I)) \<and>
         I_n I = length (filter pf_learnable (PF P)) \<and>
         I_m I = length (filter ad_learnable (AD P))"
proof -
  note S = init_indices_Some [OF assms(1)]
  have F: "map unat (snd (I_F I)) = filter (\<lambda>i. pf_learnable (PF P ! i)) [0..<length (PF P)]"
    using S unat_u16_positions [OF assms(2), of pf_learnable]
    by (simp add: positions_filter)
  have A: "map unat (snd (I_A I)) = filter (\<lambda>i. ad_learnable (AD P ! i)) [0..<length (AD P)]"
    using S unat_u16_positions [OF assms(3), of ad_learnable]
    by (simp add: positions_filter)
  have bF: "\<forall>k \<in> set (snd (I_F I)). unat k < length (PF P)"
  proof
    fix k assume "k \<in> set (snd (I_F I))"
    then have "unat k \<in> set (map unat (snd (I_F I)))" by simp
    then show "unat k < length (PF P)" unfolding F by simp
  qed
  have bA: "\<forall>k \<in> set (snd (I_A I)). unat k < length (AD P)"
  proof
    fix k assume "k \<in> set (snd (I_A I))"
    then have "unat k \<in> set (map unat (snd (I_A I)))" by simp
    then show "unat k < length (AD P)" unfolding A by simp
  qed
  have lF: "I_n I = length (snd (I_F I))" and lA: "I_m I = length (snd (I_A I))"
    using S by (simp_all add: length_positions)
  have cF: "I_n I = length (filter pf_learnable (PF P))"
    and cA: "I_m I = length (filter ad_learnable (AD P))"
    using S by simp_all
  have sF: "sorted_wrt (<) (map unat (snd (I_F I)))" and dF: "distinct (map unat (snd (I_F I)))"
    unfolding F by (simp_all add: sorted_wrt_filter)
  have sA: "sorted_wrt (<) (map unat (snd (I_A I)))" and dA: "distinct (map unat (snd (I_A I)))"
    unfolding A by (simp_all add: sorted_wrt_filter)
  from F A sF sA dF dA bF bA lF lA cF cA show ?thesis
    by (intro conjI)
qed

text \<open>
  C2 (as amended). When \<^verbatim>\<open>init_indices\<close> returns true for a program with at most
  65536 facts and at most 65536 disjunctions, the fact index array holds exactly the
  positions of the learnable facts and the disjunction index array exactly the
  positions of the learnable disjunctions, each in ascending order: strictly increasing
  (so without duplicates), every value a valid position of its collection, and the
  stored lengths \<open>n\<close> and \<open>m\<close> equal to the number of learnable entries.
\<close>

theorem init_indices_positions:
  assumes "init_indices ok P s = (Some I, s')"
    and "length (PF P) \<le> 65536" and "length (AD P) \<le> 65536"
  shows "map unat (snd (I_F I)) = filter (\<lambda>i. pf_learnable (PF P ! i)) [0..<length (PF P)] \<and>
         map unat (snd (I_A I)) = filter (\<lambda>i. ad_learnable (AD P ! i)) [0..<length (AD P)] \<and>
         sorted_wrt (<) (map unat (snd (I_F I))) \<and> sorted_wrt (<) (map unat (snd (I_A I))) \<and>
         distinct (map unat (snd (I_F I))) \<and> distinct (map unat (snd (I_A I))) \<and>
         (\<forall>k \<in> set (snd (I_F I)). unat k < length (PF P)) \<and>
         (\<forall>k \<in> set (snd (I_A I)). unat k < length (AD P)) \<and>
         I_n I = length (snd (I_F I)) \<and> I_m I = length (snd (I_A I)) \<and>
         I_n I = length (filter pf_learnable (PF P)) \<and>
         I_m I = length (filter ad_learnable (AD P))"
  using init_indices_wf [OF assms] .

theorem init_indices_positions_witness:
  "init_indices always small_program world0 =
     (Some \<lparr>I_n = 2, I_m = 2, I_F = (Some 0, [1, 2]), I_A = (Some 1, [0, 2])\<rparr>,
      world0\<lparr>live := [0 \<mapsto> 4, 1 \<mapsto> 4], nmalloc := 2\<rparr>) \<and>
   length (PF small_program) \<le> 65536 \<and> length (AD small_program) \<le> 65536 \<and>
   map unat [1, 2 :: u16] =
     filter (\<lambda>i. pf_learnable (PF small_program ! i)) [0..<length (PF small_program)] \<and>
   map unat [0, 2 :: u16] =
     filter (\<lambda>i. ad_learnable (AD small_program ! i)) [0..<length (AD small_program)]"
proof -
  have run: "init_indices always small_program world0 =
     (Some \<lparr>I_n = 2, I_m = 2, I_F = (Some 0, [1, 2]), I_A = (Some 1, [0, 2])\<rparr>,
      world0\<lparr>live := [0 \<mapsto> 4, 1 \<mapsto> 4], nmalloc := 2\<rparr>)"
    by (simp add: init_indices_def build_index_def malloc_def always_def small_program_def
        world0_def sizeof_uint16_def)
  have len: "length (PF small_program) \<le> 65536" "length (AD small_program) \<le> 65536"
    by (simp_all add: small_program_def)
  show ?thesis
    using init_indices_positions [OF run len] run len by simp
qed

lemma count_loop_skip:
  "\<not> f x \<Longrightarrow> count_loop f (replicate k x @ xs) n = count_loop f xs n"
  by (induction k) simp_all

lemma fill_loop_skip:
  "\<not> f x \<Longrightarrow> fill_loop f (replicate k x @ xs) i j buf = fill_loop f xs (i + k) j buf"
  by (induction k arbitrary: i) simp_all

lemma init_indices_long_program:
  "init_indices always (long_program k) s =
     (Some \<lparr>I_n = Suc 0, I_m = 0, I_F = (Some (nmalloc s), [of_nat k]), I_A = (None, [])\<rparr>,
      s\<lparr>live := (live s)(nmalloc s \<mapsto> 2), nmalloc := Suc (nmalloc s)\<rparr>)"
  by (simp add: init_indices_def build_index_def malloc_def always_def long_program_def
      sizeof_uint16_def count_loop_skip fill_loop_skip fixed_fact_def free_fact_def)

lemma long_program_nth:
  "length (PF (long_program k)) = Suc k \<and>
   pf_learnable (PF (long_program k) ! k) \<and>
   (0 < k \<longrightarrow> \<not> pf_learnable (PF (long_program k) ! 0))"
  by (simp add: long_program_def nth_append fixed_fact_def free_fact_def)

text \<open>
  C2 as stated fails for a program with 65537 facts of which only the last one, at
  position 65536, is learnable: \<^verbatim>\<open>init_indices\<close> returns true and the fact index array
  holds the single value 0, the position of a fact that is not learnable, and not 65536.
\<close>

theorem init_indices_positions_counterexample:
  "fst (init_indices always (long_program 65536) world0) =
     Some \<lparr>I_n = 1, I_m = 0, I_F = (Some 0, [0]), I_A = (None, [])\<rparr> \<and>
   length (PF (long_program 65536)) = 65537 \<and>
   pf_learnable (PF (long_program 65536) ! 65536) \<and>
   \<not> pf_learnable (PF (long_program 65536) ! 0)"
proof -
  have "(of_nat 65536 :: u16) = 0" by simp
  then show ?thesis
    using init_indices_long_program [of 65536 world0] long_program_nth [of 65536]
    by (simp add: world0_def)
qed

section \<open>Allocation and rollback in \<^verbatim>\<open>init_indices\<close> and \<^verbatim>\<open>init_parameters\<close>\<close>

lemma heap_wf_fresh: "heap_wf s \<Longrightarrow> nmalloc s \<le> a \<Longrightarrow> live s a = None"
  by (simp add: heap_wf_def)

lemma heap_wf_malloc: "heap_wf s \<Longrightarrow> malloc ok sz s = (r, s') \<Longrightarrow> heap_wf s'"
  by (auto simp: heap_wf_def malloc_def split: if_splits)

lemma heap_wf_free: "heap_wf s \<Longrightarrow> heap_wf (free p s)"
  by (cases p) (auto simp: heap_wf_def free_def split: if_splits)

lemma heap_wf_fold_free: "heap_wf s \<Longrightarrow> heap_wf (fold free ps s)"
  by (induction ps arbitrary: s) (simp_all add: heap_wf_free)

lemma heap_wf_raise: "heap_wf (PyErr_SetString e msg s) = heap_wf s"
  by (simp add: heap_wf_def PyErr_SetString_def)

lemma live_raise [simp]: "live (PyErr_SetString e msg s) = live s"
  by (simp add: PyErr_SetString_def)

lemma nmalloc_raise [simp]: "nmalloc (PyErr_SetString e msg s) = nmalloc s"
  by (simp add: PyErr_SetString_def)

lemma raised_raise [simp]: "raised (PyErr_SetString e msg s) = raised s @ [(e, msg)]"
  by (simp add: PyErr_SetString_def)

lemma build_index_wf:
  "heap_wf s \<Longrightarrow> build_index ok f xs s = (r, s') \<Longrightarrow> heap_wf s'"
  by (auto simp: build_index_def Let_def split: if_splits prod.splits option.splits
      dest: heap_wf_malloc)

lemma build_index_undo:
  assumes "heap_wf s" and "build_index ok f xs s = (Some (n, IX), s')"
  shows "live (free (fst IX) s') = live s"
proof -
  from build_index_ptr [OF assms(2)] show ?thesis
  proof
    assume "fst IX = None \<and> live s' = live s \<and> nmalloc s' = nmalloc s"
    then show ?thesis by simp
  next
    assume h: "fst IX = Some (nmalloc s) \<and>
      live s' = (live s)(nmalloc s \<mapsto> n * sizeof_uint16) \<and> nmalloc s' = Suc (nmalloc s)"
    have "live s (nmalloc s) = None" using assms(1) by (simp add: heap_wf_fresh)
    with h show ?thesis by (auto simp: live_free fun_eq_iff)
  qed
qed

lemma init_indices_None:
  assumes "heap_wf s" and "init_indices ok P s = (None, s')"
  shows "live s' = live s \<and> heap_wf s' \<and>
         raised s' = raised s @ [(PyExc_MemoryError, ''could not allocate memory in init_indices!'')]"
proof (cases "build_index ok pf_learnable (PF P) s")
  case (Pair r s1)
  note b1 = Pair
  show ?thesis
  proof (cases r)
    case None
    with b1 assms show ?thesis
      using build_index_None [of ok pf_learnable "PF P" s s1]
        build_index_live [of ok pf_learnable "PF P" s None s1]
        build_index_wf [of s ok pf_learnable "PF P" None s1]
      by (auto simp: init_indices_def heap_wf_raise)
  next
    case (Some nIF)
    obtain n IF where nIF: "nIF = (n, IF)" by (cases nIF)
    obtain r2 s2 where b2: "build_index ok ad_learnable (AD P) s1 = (r2, s2)"
      by (cases "build_index ok ad_learnable (AD P) s1")
    from assms(2) b1 Some nIF b2 have r2: "r2 = None"
      by (auto simp: init_indices_def split: option.splits)
    have wf1: "heap_wf s1" using build_index_wf assms(1) b1 by blast
    have wf2: "heap_wf s2" using build_index_wf wf1 b2 by blast
    have l2: "live s2 = live s1" and r12: "raised s2 = raised s1"
      using build_index_None [of ok ad_learnable "AD P" s1 s2] b2 r2
        build_index_live [of ok ad_learnable "AD P" s1 None s2] by simp_all
    have r01: "raised s1 = raised s"
      using build_index_live [OF b1] by simp
    have undo: "live (free (fst IF) s1) = live s"
      using build_index_undo [OF assms(1)] b1 Some nIF by simp
    have s': "s' = free (fst IF)
        (PyErr_SetString PyExc_MemoryError ''could not allocate memory in init_indices!'' s2)"
      using assms(2) b1 Some nIF b2 r2 by (simp add: init_indices_def)
    have "live s' = live (free (fst IF) s1)"
      unfolding s' by (simp add: live_free l2 cong: if_cong)
    moreover have "heap_wf s'"
      unfolding s' by (simp add: heap_wf_free heap_wf_raise wf2)
    moreover have "raised s' = raised s @ [(PyExc_MemoryError, ''could not allocate memory in init_indices!'')]"
      unfolding s' by (simp add: r12 r01)
    ultimately show ?thesis using undo by simp
  qed
qed

lemma init_indices_Some_heap:
  assumes "heap_wf s" and "init_indices ok P s = (Some I, s')"
  shows "heap_wf s' \<and> raised s' = raised s \<and> nmalloc s \<le> nmalloc s' \<and>
         (\<forall>a. a < nmalloc s \<longrightarrow> live s' a = live s a) \<and>
         live (free (fst (I_A I)) (free (fst (I_F I)) s')) = live s"
proof -
  obtain r1 s1 where b1: "build_index ok pf_learnable (PF P) s = (r1, s1)"
    by (cases "build_index ok pf_learnable (PF P) s")
  obtain r2 s2 where b2: "build_index ok ad_learnable (AD P) s1 = (r2, s2)"
    by (cases "build_index ok ad_learnable (AD P) s1")
  from assms(2) b1 b2 obtain n IF m IA where
    r1: "r1 = Some (n, IF)" and r2: "r2 = Some (m, IA)" and
    I: "I = \<lparr>I_n = n, I_m = m, I_F = IF, I_A = IA\<rparr>" and s': "s' = s2"
    by (auto simp: init_indices_def split: option.splits prod.splits)
  have wf1: "heap_wf s1" using build_index_wf assms(1) b1 by blast
  have wf2: "heap_wf s2" using build_index_wf wf1 b2 by blast
  note f1 = build_index_live [OF b1] and f2 = build_index_live [OF b2]
  have u1: "live (free (fst IF) s1) = live s"
    using build_index_undo [OF assms(1)] b1 r1 by simp
  have u2: "live (free (fst IA) s2) = live s1"
    using build_index_undo [OF wf1] b2 r2 by simp
  have "live (free (fst IA) (free (fst IF) s2)) = live (free (fst IF) (free (fst IA) s2))"
    by (auto simp: live_free)
  also have "\<dots> = live (free (fst IF) s1)"
    using u2 by (simp add: live_free cong: if_cong)
  finally have undo: "live (free (fst IA) (free (fst IF) s2)) = live s"
    using u1 by simp
  show ?thesis
    using wf2 f1 f2 undo by (simp add: s' I)
qed

lemma alloc_rows_None:
  assumes "heap_wf s" and "alloc_rows ok P ks A s = (None, s')"
  shows "heap_wf s' \<and> raised s' = raised s \<and>
         live s' = (\<lambda>a. if Some a \<in> set A then None else live s a)"
  using assms
proof (induction ks arbitrary: A s)
  case Nil
  then show ?case by simp
next
  case (Cons k ks)
  obtain r s1 where m: "malloc ok (length (ad_P (AD P ! unat k)) * sizeof_double) s = (r, s1)"
    by (cases "malloc ok (length (ad_P (AD P ! unat k)) * sizeof_double) s")
  have wf1: "heap_wf s1" using heap_wf_malloc Cons.prems(1) m by blast
  show ?case
  proof (cases r)
    case None
    with m Cons.prems(2) have s': "s' = fold free A s1" by simp
    from m None have s1: "s1 = s\<lparr>nmalloc := Suc (nmalloc s)\<rparr>" by (simp add: malloc_None)
    show ?thesis
      unfolding s' using wf1 by (simp add: heap_wf_fold_free live_fold_free s1 cong: if_cong)
  next
    case (Some a)
    with m Cons.prems(2) have rec: "alloc_rows ok P ks (A @ [Some a]) s1 = (None, s')" by simp
    from m Some have a: "a = nmalloc s"
      and s1: "s1 = s\<lparr>live := (live s)(a \<mapsto> length (ad_P (AD P ! unat k)) * sizeof_double),
                       nmalloc := Suc (nmalloc s)\<rparr>"
      using malloc_Some by blast+
    have fresh: "live s a = None" using Cons.prems(1) a by (simp add: heap_wf_fresh)
    from Cons.IH [OF wf1 rec] have
      "heap_wf s'" "raised s' = raised s1"
      "live s' = (\<lambda>x. if Some x \<in> set (A @ [Some a]) then None else live s1 x)"
      by simp_all
    then show ?thesis using fresh by (auto simp: s1 fun_eq_iff)
  qed
qed

lemma alloc_rows_Some:
  assumes "alloc_rows ok P ks A s = (Some rows, s')"
  shows "take (length A) rows = A \<and> length rows = length A + length ks \<and>
         nmalloc s \<le> nmalloc s' \<and> raised s' = raised s \<and>
         (\<forall>a. a < nmalloc s \<longrightarrow> live s' a = live s a) \<and>
         (\<forall>i. i < length ks \<longrightarrow>
            (\<exists>a. rows ! (length A + i) = Some a \<and>
                 live s' a = Some (length (ad_P (AD P ! unat (ks ! i))) * sizeof_double)))"
  using assms
proof (induction ks arbitrary: A s)
  case Nil
  then show ?case by simp
next
  case (Cons k ks)
  let ?sz = "length (ad_P (AD P ! unat k)) * sizeof_double"
  obtain r s1 where m: "malloc ok ?sz s = (r, s1)"
    by (cases "malloc ok ?sz s")
  with Cons.prems obtain a where r: "r = Some a"
    and rec: "alloc_rows ok P ks (A @ [Some a]) s1 = (Some rows, s')"
    by (cases r) auto
  from m r have a: "a = nmalloc s"
    and s1: "s1 = s\<lparr>live := (live s)(a \<mapsto> ?sz), nmalloc := Suc (nmalloc s)\<rparr>"
    using malloc_Some by blast+
  note IH = Cons.IH [OF rec]
  from IH have tk: "take (Suc (length A)) rows = A @ [Some a]"
    and len: "length rows = Suc (length A) + length ks"
    and nm: "nmalloc s1 \<le> nmalloc s'" and rs: "raised s' = raised s1"
    and fr: "\<forall>b. b < nmalloc s1 \<longrightarrow> live s' b = live s1 b"
    and rw: "\<forall>i. i < length ks \<longrightarrow>
            (\<exists>b. rows ! (Suc (length A) + i) = Some b \<and>
                 live s' b = Some (length (ad_P (AD P ! unat (ks ! i))) * sizeof_double))"
    by simp_all
  have t1: "take (length A) rows = A"
  proof -
    have "take (length A) rows = take (length A) (take (Suc (length A)) rows)"
      by (simp add: min_def)
    then show ?thesis by (simp add: tk)
  qed
  have at: "rows ! length A = Some a"
  proof -
    have "rows ! length A = take (Suc (length A)) rows ! length A" by simp
    then show ?thesis by (simp add: tk)
  qed
  have la: "live s' a = Some ?sz" using fr by (simp add: s1 a)
  have rows: "\<exists>b. rows ! (length A + i) = Some b \<and>
                 live s' b = Some (length (ad_P (AD P ! unat ((k # ks) ! i))) * sizeof_double)"
    if "i < length (k # ks)" for i
  proof (cases i)
    case 0
    then show ?thesis using at la by simp
  next
    case (Suc i')
    with that have "i' < length ks" by simp
    with rw show ?thesis by (simp add: Suc)
  qed
  have frame: "\<forall>b. b < nmalloc s \<longrightarrow> live s' b = live s b"
    using fr by (simp add: s1 a)
  show ?case
    using t1 len nm rs frame rows by (simp add: s1)
qed

lemma live_free_at: "live (free p s) a = (if p = Some a then None else live s a)"
  by (simp add: live_free)

lemma init_parameters_cleanup_live:
  "live (init_parameters_cleanup pIF pIA pF pA s) a =
     (if pA = Some a \<or> pF = Some a \<or> pIA = Some a \<or> pIF = Some a then None else live s a)"
  by (simp add: init_parameters_cleanup_def live_free_at)

lemma init_parameters_cleanup_raised:
  "raised (init_parameters_cleanup pIF pIA pF pA s) =
     raised s @ [(PyExc_MemoryError, ''could not allocate memory in init_parameters!'')]"
  by (simp add: init_parameters_cleanup_def)

lemma init_parameters_None:
  assumes wf: "heap_wf s" and run: "init_parameters ok P s = (None, s')"
  shows "live s' = live s \<and> (\<exists>msg. raised s' = raised s @ [(PyExc_MemoryError, msg)])"
proof -
  obtain r0 s0 where i0: "init_indices ok P s = (r0, s0)"
    by (cases "init_indices ok P s")
  show ?thesis
  proof (cases r0)
    case None
    with i0 run have "s' = s0" by (simp add: init_parameters_def)
    with init_indices_None [OF wf] i0 None show ?thesis by simp
  next
    case (Some I)
    note h = init_indices_Some_heap [OF wf i0 [unfolded Some]]
    from h have wf0: "heap_wf s0" and r0: "raised s0 = raised s"
      and n0: "nmalloc s \<le> nmalloc s0" by simp_all
    from h have "live (free (fst (I_A I)) (free (fst (I_F I)) s0)) = live s" by simp
    then have pt: "live (free (fst (I_A I)) (free (fst (I_F I)) s0)) a = live s a" for a
      by simp
    have undo1: "live s a = None" if "fst (I_A I) = Some a \<or> fst (I_F I) = Some a" for a
      using pt [of a] that
      by (cases "fst (I_A I) = Some a"; cases "fst (I_F I) = Some a"; simp add: live_free_at)
    have undo2: "live s0 a = live s a" if "fst (I_A I) \<noteq> Some a" "fst (I_F I) \<noteq> Some a" for a
      using pt [of a] that by (simp add: live_free_at)
    have fresh: "live s a = None" if "nmalloc s0 \<le> a" for a
      using that n0 wf by (simp add: heap_wf_fresh)
    obtain r1 s1 where m1: "malloc ok (I_n I * (2 * sizeof_double)) s0 = (r1, s1)"
      by (cases "malloc ok (I_n I * (2 * sizeof_double)) s0")
    show ?thesis
    proof (cases r1)
      case None
      from m1 None have s1: "s1 = s0\<lparr>nmalloc := Suc (nmalloc s0)\<rparr>" by (simp add: malloc_None)
      from run i0 Some m1 None
      have s': "s' = init_parameters_cleanup (fst (I_F I)) (fst (I_A I)) None None s1"
        by (simp add: init_parameters_def Let_def)
      have "live s' a = live s a" for a
        using undo1 [of a] undo2 [of a] by (auto simp: s' init_parameters_cleanup_live s1)
      then show ?thesis
        by (auto simp: fun_eq_iff s' init_parameters_cleanup_raised s1 r0)
    next
      case (Some F)
      note F = this
      from m1 F have Fa: "F = nmalloc s0"
        and s1: "s1 = s0\<lparr>live := (live s0)(F \<mapsto> I_n I * (2 * sizeof_double)),
                        nmalloc := Suc (nmalloc s0)\<rparr>"
        using malloc_Some by blast+
      have wf1: "heap_wf s1" using heap_wf_malloc wf0 m1 by blast
      obtain r2 s2 where m2: "malloc ok (I_m I * sizeof_pointer) s1 = (r2, s2)"
        by (cases "malloc ok (I_m I * sizeof_pointer) s1")
      show ?thesis
      proof (cases r2)
        case None
        from m2 None have s2: "s2 = s1\<lparr>nmalloc := Suc (nmalloc s1)\<rparr>" by (simp add: malloc_None)
        from run i0 \<open>r0 = Some I\<close> m1 F m2 None
        have s': "s' = init_parameters_cleanup (fst (I_F I)) (fst (I_A I)) (Some F) None s2"
          by (simp add: init_parameters_def Let_def)
        have "live s' a = live s a" for a
          using undo1 [of a] undo2 [of a] fresh [of a]
          by (auto simp: s' init_parameters_cleanup_live s2 s1 Fa)
        then show ?thesis
          by (auto simp: fun_eq_iff s' init_parameters_cleanup_raised s2 s1 r0)
      next
        case (Some A)
        note A = this
        from m2 A have Aa: "A = nmalloc s1"
          and s2: "s2 = s1\<lparr>live := (live s1)(A \<mapsto> I_m I * sizeof_pointer),
                          nmalloc := Suc (nmalloc s1)\<rparr>"
          using malloc_Some by blast+
        have wf2: "heap_wf s2" using heap_wf_malloc wf1 m2 by blast
        obtain r3 s3 where a3: "alloc_rows ok P (take (I_m I) (snd (I_A I))) [] s2 = (r3, s3)"
          by (cases "alloc_rows ok P (take (I_m I) (snd (I_A I))) [] s2")
        from run i0 \<open>r0 = Some I\<close> m1 F m2 A a3 have r3: "r3 = None"
          and s': "s' = init_parameters_cleanup (fst (I_F I)) (fst (I_A I)) (Some F) (Some A) s3"
          by (auto simp: init_parameters_def Let_def split: option.splits)
        from alloc_rows_None [OF wf2 a3 [unfolded r3]]
        have l3: "live s3 = live s2" and rs3: "raised s3 = raised s2" by simp_all
        have "live s' a = live s a" for a
          using undo1 [of a] undo2 [of a] fresh [of a]
          by (auto simp: s' init_parameters_cleanup_live l3 s2 s1 Fa Aa)
        then show ?thesis
          by (auto simp: fun_eq_iff s' init_parameters_cleanup_raised rs3 s2 s1 r0)
      qed
    qed
  qed
qed

text \<open>
  C6. Whenever \<^verbatim>\<open>init_parameters\<close> returns false (after a failure of any of its
  allocations or of \<^verbatim>\<open>init_indices\<close>), the blocks that are live are exactly those
  that were live before the call: every block the call obtained has been freed, no
  structure is returned, and exactly one error has been raised, a \<^verbatim>\<open>MemoryError\<close>.
  The same holds for \<^verbatim>\<open>init_indices\<close>: when it returns false, both index arrays have
  been freed and one \<^verbatim>\<open>MemoryError\<close> has been raised.
\<close>

theorem allocation_failure_rollback:
  assumes "heap_wf s"
  shows "(init_parameters ok P s = (None, s') \<longrightarrow>
            live s' = live s \<and> (\<exists>msg. raised s' = raised s @ [(PyExc_MemoryError, msg)])) \<and>
         (init_indices ok P s = (None, s'') \<longrightarrow>
            live s'' = live s \<and> (\<exists>msg. raised s'' = raised s @ [(PyExc_MemoryError, msg)]))"
  using init_parameters_None [OF assms] init_indices_None [OF assms] by blast


lemma init_parameters_Some:
  assumes run: "init_parameters ok P s = (Some W, s')"
  obtains I s0 F A s1 s2 rows where
    "init_indices ok P s = (Some I, s0)"
    "malloc ok (I_n I * (2 * sizeof_double)) s0 = (Some F, s1)"
    "malloc ok (I_m I * sizeof_pointer) s1 = (Some A, s2)"
    "alloc_rows ok P (take (I_m I) (snd (I_A I))) [] s2 = (Some rows, s')"
    "W = \<lparr>W_n = I_n I, W_m = I_m I, W_F = Some F, W_A = (Some A, rows),
          W_I_F = I_F I, W_I_A = I_A I\<rparr>"
proof -
  obtain r0 s0 where i0: "init_indices ok P s = (r0, s0)"
    by (cases "init_indices ok P s")
  from run i0 obtain I where r0: "r0 = Some I"
    by (cases r0) (simp_all add: init_parameters_def)
  obtain r1 s1 where m1: "malloc ok (I_n I * (2 * sizeof_double)) s0 = (r1, s1)"
    by (cases "malloc ok (I_n I * (2 * sizeof_double)) s0")
  from run i0 r0 m1 obtain F where r1: "r1 = Some F"
    by (cases r1) (simp_all add: init_parameters_def Let_def)
  obtain r2 s2 where m2: "malloc ok (I_m I * sizeof_pointer) s1 = (r2, s2)"
    by (cases "malloc ok (I_m I * sizeof_pointer) s1")
  from run i0 r0 m1 r1 m2 obtain A where r2: "r2 = Some A"
    by (cases r2) (simp_all add: init_parameters_def Let_def)
  obtain r3 s3 where a3: "alloc_rows ok P (take (I_m I) (snd (I_A I))) [] s2 = (r3, s3)"
    by (cases "alloc_rows ok P (take (I_m I) (snd (I_A I))) [] s2")
  from run i0 r0 m1 r1 m2 r2 a3 obtain rows where r3: "r3 = Some rows"
    by (cases r3) (simp_all add: init_parameters_def Let_def)
  from run i0 r0 m1 r1 m2 r2 a3 r3
  have "W = \<lparr>W_n = I_n I, W_m = I_m I, W_F = Some F, W_A = (Some A, rows),
          W_I_F = I_F I, W_I_A = I_A I\<rparr>" and "s3 = s'"
    by (simp_all add: init_parameters_def Let_def)
  with that i0 r0 m1 r1 m2 r2 a3 r3 show thesis by blast
qed

text \<open>
  C7. After a successful \<^verbatim>\<open>init_parameters\<close>: the dense pair array is a live block
  with room for exactly \<open>n\<close> pairs of doubles, where \<open>n\<close> is the length of the fact
  index array; the ragged array has \<open>m\<close> rows, where \<open>m\<close> is the length of the
  disjunction index array; and its row \<open>i\<close> is a live block with room for exactly as
  many doubles as the disjunction at position \<^verbatim>\<open>I_A[i]\<close> has outcomes.
\<close>

theorem init_parameters_shape:
  assumes "init_parameters ok P s = (Some W, s')"
  shows "W_n W = length (snd (W_I_F W)) \<and>
         (\<exists>F. W_F W = Some F \<and> live s' F = Some (W_n W * (2 * sizeof_double))) \<and>
         W_m W = length (snd (W_I_A W)) \<and>
         length (snd (W_A W)) = W_m W \<and>
         (\<forall>i. i < W_m W \<longrightarrow>
            (\<exists>a. snd (W_A W) ! i = Some a \<and>
                 live s' a =
                   Some (length (ad_P (AD P ! unat (snd (W_I_A W) ! i))) * sizeof_double)))"
proof -
  from assms obtain I s0 F A s1 s2 rows where
    i0: "init_indices ok P s = (Some I, s0)" and
    m1: "malloc ok (I_n I * (2 * sizeof_double)) s0 = (Some F, s1)" and
    m2: "malloc ok (I_m I * sizeof_pointer) s1 = (Some A, s2)" and
    a3: "alloc_rows ok P (take (I_m I) (snd (I_A I))) [] s2 = (Some rows, s')" and
    W: "W = \<lparr>W_n = I_n I, W_m = I_m I, W_F = Some F, W_A = (Some A, rows),
             W_I_F = I_F I, W_I_A = I_A I\<rparr>"
    by (rule init_parameters_Some)
  note S = init_indices_Some [OF i0]
  have n: "I_n I = length (snd (I_F I))" and m: "I_m I = length (snd (I_A I))"
    using S by (simp_all add: length_positions)
  from malloc_Some [OF m1] have Fa: "F = nmalloc s0"
    and s1: "s1 = s0\<lparr>live := (live s0)(F \<mapsto> I_n I * (2 * sizeof_double)),
                    nmalloc := Suc (nmalloc s0)\<rparr>"
    by blast+
  from malloc_Some [OF m2] have Aa: "A = nmalloc s1"
    and s2: "s2 = s1\<lparr>live := (live s1)(A \<mapsto> I_m I * sizeof_pointer),
                    nmalloc := Suc (nmalloc s1)\<rparr>"
    by blast+
  note R = alloc_rows_Some [OF a3]
  have F2: "F < nmalloc s2"
    by (simp add: s2 s1 Fa)
  have l2: "live s2 F = Some (I_n I * (2 * sizeof_double))"
    by (simp add: s2 s1 Fa Aa)
  from R have fr: "\<forall>a. a < nmalloc s2 \<longrightarrow> live s' a = live s2 a"
    and lr: "length rows = length ([] :: addr option list) + length (take (I_m I) (snd (I_A I)))"
    and rw: "\<forall>i. i < length (take (I_m I) (snd (I_A I))) \<longrightarrow>
            (\<exists>a. rows ! (length ([] :: addr option list) + i) = Some a \<and>
                 live s' a = Some (length (ad_P (AD P ! unat (take (I_m I) (snd (I_A I)) ! i))) *
                                   sizeof_double))"
    by blast+
  have liveF: "live s' F = Some (I_n I * (2 * sizeof_double))"
    using fr F2 l2 by simp
  have len: "length rows = I_m I"
    using lr by (simp add: m [symmetric])
  have row: "\<forall>i. i < I_m I \<longrightarrow> (\<exists>a. rows ! i = Some a \<and>
                 live s' a = Some (length (ad_P (AD P ! unat (snd (I_A I) ! i))) * sizeof_double))"
  proof (intro allI impI)
    fix i assume i: "i < I_m I"
    then have "i < length (take (I_m I) (snd (I_A I)))" by (simp add: m [symmetric])
    with rw obtain a where "rows ! (length ([] :: addr option list) + i) = Some a"
      "live s' a = Some (length (ad_P (AD P ! unat (take (I_m I) (snd (I_A I)) ! i))) * sizeof_double)"
      by blast
    with i show "\<exists>a. rows ! i = Some a \<and>
                 live s' a = Some (length (ad_P (AD P ! unat (snd (I_A I) ! i))) * sizeof_double)"
      by simp
  qed
  have W1: "W_n W = I_n I" "W_m W = I_m I" "W_F W = Some F" "snd (W_A W) = rows"
    "W_I_F W = I_F I" "W_I_A W = I_A I"
    by (simp_all add: W)
  show ?thesis
    unfolding W1 using n m liveF len row by blast
qed

lemma heap_wf_world0: "heap_wf world0"
  by (simp add: heap_wf_def world0_def)

lemma init_indices_small:
  "init_indices ok small_program s =
     (if ok (nmalloc s) then
        if ok (Suc (nmalloc s)) then
          (Some \<lparr>I_n = 2, I_m = 2, I_F = (Some (nmalloc s), [1, 2]),
                 I_A = (Some (Suc (nmalloc s)), [0, 2])\<rparr>,
           s\<lparr>live := (live s)(nmalloc s \<mapsto> 4, Suc (nmalloc s) \<mapsto> 4),
             nmalloc := Suc (Suc (nmalloc s))\<rparr>)
        else
          (None, s\<lparr>live := (live s)(nmalloc s := None), nmalloc := Suc (Suc (nmalloc s)),
                   raised := raised s @
                     [(PyExc_MemoryError, ''could not allocate memory in init_indices!'')]\<rparr>)
      else
        (None, s\<lparr>nmalloc := Suc (nmalloc s),
                 raised := raised s @
                   [(PyExc_MemoryError, ''could not allocate memory in init_indices!'')]\<rparr>))"
  by (simp add: init_indices_def build_index_def malloc_def small_program_def
      sizeof_uint16_def free_def PyErr_SetString_def)

lemma small_program_rows:
  "length (ad_P (AD small_program ! 0)) = 2"
  "length (ad_P (AD small_program ! 2)) = 3"
  by (simp_all add: small_program_def)

lemma init_parameters_small_fails:
  "fst (init_parameters (all_but 5) small_program world0) = None"
  by (simp add: init_parameters_def init_indices_small all_but_def world0_def malloc_def
      small_program_rows sizeof_double_def sizeof_pointer_def)

lemma init_indices_small_fails:
  "fst (init_indices (all_but 1) small_program world0) = None"
  by (simp add: init_indices_small all_but_def world0_def)

theorem allocation_failure_rollback_witness:
  "heap_wf world0 \<and>
   fst (init_parameters (all_but 5) small_program world0) = None \<and>
   live (snd (init_parameters (all_but 5) small_program world0)) = live world0 \<and>
   (\<exists>msg. raised (snd (init_parameters (all_but 5) small_program world0)) =
            raised world0 @ [(PyExc_MemoryError, msg)]) \<and>
   fst (init_indices (all_but 1) small_program world0) = None \<and>
   live (snd (init_indices (all_but 1) small_program world0)) = live world0 \<and>
   (\<exists>msg. raised (snd (init_indices (all_but 1) small_program world0)) =
            raised world0 @ [(PyExc_MemoryError, msg)])"
proof -
  have p: "init_parameters (all_but 5) small_program world0 =
             (None, snd (init_parameters (all_but 5) small_program world0))"
    using init_parameters_small_fails by (simp add: prod_eq_iff)
  have i: "init_indices (all_but 1) small_program world0 =
             (None, snd (init_indices (all_but 1) small_program world0))"
    using init_indices_small_fails by (simp add: prod_eq_iff)
  from allocation_failure_rollback [OF heap_wf_world0, of "all_but 5" small_program
      "snd (init_parameters (all_but 5) small_program world0)"] p
  have a: "live (snd (init_parameters (all_but 5) small_program world0)) = live world0 \<and>
        (\<exists>msg. raised (snd (init_parameters (all_but 5) small_program world0)) =
            raised world0 @ [(PyExc_MemoryError, msg)])"
    by simp
  from allocation_failure_rollback [OF heap_wf_world0, of "all_but 1" small_program _
      "snd (init_indices (all_but 1) small_program world0)"] i
  have b: "live (snd (init_indices (all_but 1) small_program world0)) = live world0 \<and>
        (\<exists>msg. raised (snd (init_indices (all_but 1) small_program world0)) =
            raised world0 @ [(PyExc_MemoryError, msg)])"
    by simp
  from a b heap_wf_world0 init_parameters_small_fails init_indices_small_fails
  show ?thesis by simp
qed

lemma init_parameters_small:
  "fst (init_parameters always small_program world0) =
     Some \<lparr>W_n = 2, W_m = 2, W_F = Some 2, W_A = (Some 3, [Some 4, Some 5]),
            W_I_F = (Some 0, [1, 2]), W_I_A = (Some 1, [0, 2])\<rparr>"
  "live (snd (init_parameters always small_program world0)) 2 = Some 32"
  "live (snd (init_parameters always small_program world0)) 4 = Some 16"
  "live (snd (init_parameters always small_program world0)) 5 = Some 24"
  by (simp_all add: init_parameters_def init_indices_small always_def world0_def malloc_def
      small_program_rows sizeof_double_def sizeof_pointer_def)

theorem init_parameters_shape_witness:
  "fst (init_parameters always small_program world0) =
     Some \<lparr>W_n = 2, W_m = 2, W_F = Some 2, W_A = (Some 3, [Some 4, Some 5]),
            W_I_F = (Some 0, [1, 2]), W_I_A = (Some 1, [0, 2])\<rparr> \<and>
   live (snd (init_parameters always small_program world0)) 2 = Some 32 \<and>
   live (snd (init_parameters always small_program world0)) 4 = Some 16 \<and>
   live (snd (init_parameters always small_program world0)) 5 = Some 24 \<and>
   (2::nat) = length [1, 2 :: u16] \<and>
   (\<exists>F. Some (2::nat) = Some F \<and>
        live (snd (init_parameters always small_program world0)) F =
          Some (2 * (2 * sizeof_double))) \<and>
   length (ad_P (AD small_program ! 0)) = 2 \<and>
   length (ad_P (AD small_program ! 2)) = 3"
proof -
  have run: "init_parameters always small_program world0 =
     (Some \<lparr>W_n = 2, W_m = 2, W_F = Some 2, W_A = (Some 3, [Some 4, Some 5]),
            W_I_F = (Some 0, [1, 2]), W_I_A = (Some 1, [0, 2])\<rparr>,
      snd (init_parameters always small_program world0))"
    using init_parameters_small(1) by (simp add: prod_eq_iff)
  from init_parameters_shape [OF run] have
    "\<exists>F. Some (2::nat) = Some F \<and>
        live (snd (init_parameters always small_program world0)) F =
          Some (2 * (2 * sizeof_double))"
    by simp
  with init_parameters_small small_program_rows show ?thesis by simp
qed

section \<open>What each step leaves unchanged\<close>

lemma free_fields [simp]:
  "py_p (free p s) = py_p s" "py_P (free p s) = py_P s" "npycalls (free p s) = npycalls s"
  "nsolve (free p s) = nsolve s" "trace (free p s) = trace s"
  by (cases p; simp add: free_def)+

lemma raise_fields [simp]:
  "py_p (PyErr_SetString e msg s) = py_p s" "py_P (PyErr_SetString e msg s) = py_P s"
  "npycalls (PyErr_SetString e msg s) = npycalls s"
  "nsolve (PyErr_SetString e msg s) = nsolve s" "trace (PyErr_SetString e msg s) = trace s"
  by (simp_all add: PyErr_SetString_def)

lemma malloc_fields:
  assumes "malloc ok sz s = (r, s')"
  shows "py_p s' = py_p s \<and> py_P s' = py_P s \<and> npycalls s' = npycalls s \<and>
         nsolve s' = nsolve s \<and> trace s' = trace s \<and> raised s' = raised s"
  using assms by (auto simp: malloc_def split: if_splits)

lemma build_index_fields:
  assumes "build_index ok f xs s = (r, s')"
  shows "py_p s' = py_p s \<and> py_P s' = py_P s \<and> npycalls s' = npycalls s \<and>
         nsolve s' = nsolve s \<and> trace s' = trace s"
  using assms
  by (auto simp: build_index_def Let_def split: if_splits prod.splits option.splits
      dest: malloc_fields)

lemma init_indices_fields:
  assumes "init_indices ok P s = (r, s')"
  shows "py_p s' = py_p s \<and> py_P s' = py_P s \<and> npycalls s' = npycalls s \<and>
         nsolve s' = nsolve s \<and> trace s' = trace s"
proof -
  obtain r1 s1 where b1: "build_index ok pf_learnable (PF P) s = (r1, s1)"
    by (cases "build_index ok pf_learnable (PF P) s")
  obtain r2 s2 where b2: "build_index ok ad_learnable (AD P) s1 = (r2, s2)"
    by (cases "build_index ok ad_learnable (AD P) s1")
  note f1 = build_index_fields [OF b1] and f2 = build_index_fields [OF b2]
  show ?thesis
  proof (cases r1)
    case None
    with assms b1 f1 show ?thesis by (auto simp: init_indices_def)
  next
    case (Some nIF)
    with assms b1 b2 f1 f2 show ?thesis
      by (cases r2) (auto simp: init_indices_def split: prod.splits)
  qed
qed

lemma free_indices_contents_fields [simp]:
  "py_p (free_indices_contents I s) = py_p s" "py_P (free_indices_contents I s) = py_P s"
  "npycalls (free_indices_contents I s) = npycalls s"
  "nsolve (free_indices_contents I s) = nsolve s" "trace (free_indices_contents I s) = trace s"
  "raised (free_indices_contents I s) = raised s"
  "nmalloc (free_indices_contents I s) = nmalloc s"
  by (simp_all add: free_indices_contents_def)

lemma free_indices_contents_zero [simp]: "free_indices_contents indices_zero s = s"
  by (simp add: free_indices_contents_def indices_zero_def)

lemma for_each_preserves:
  assumes step: "\<And>i s r s'. body i s = (r, s') \<Longrightarrow> f s' = f s"
    and run: "for_each body is s = (r, s')"
  shows "f s' = f s"
  using run
proof (induction "is" arbitrary: s)
  case Nil
  then show ?case by simp
next
  case (Cons i "is")
  obtain r1 s1 where b: "body i s = (r1, s1)" by (cases "body i s")
  from step [OF b] have f1: "f s1 = f s" .
  show ?case
  proof (cases r1)
    case True
    with Cons.prems b have "for_each body is s1 = (r, s')" by simp
    from Cons.IH [OF this] f1 show ?thesis by simp
  next
    case False
    with Cons.prems b have "s' = s1" by simp
    with f1 show ?thesis by simp
  qed
qed

text \<open>The fields of the world that the publishing step does not touch, as one value.\<close>

lemma publish_fact_rest:
  assumes "publish_fact ok pf s = (r, s')"
  shows "(live s', nmalloc s', nsolve s', trace s') = (live s, nmalloc s, nsolve s, trace s)"
  using assms
  by (auto simp: publish_fact_def py_call_def PyErr_SetString_def split: if_splits bool.splits)

lemma publish_outcome_rest:
  assumes "publish_outcome ok ad j s = (r, s')"
  shows "(live s', nmalloc s', nsolve s', trace s') = (live s, nmalloc s, nsolve s, trace s)"
  using assms
  by (auto simp: publish_outcome_def py_call_def PyErr_SetString_def split: if_splits bool.splits)

lemma publish_disj_rest:
  assumes "publish_disj ok ad s = (r, s')"
  shows "(live s', nmalloc s', nsolve s', trace s') = (live s, nmalloc s, nsolve s, trace s)"
proof (cases "ok (npycalls s)")
  case True
  with assms have
    "for_each (publish_outcome ok ad) [0..<length (ad_P ad)] (s\<lparr>npycalls := Suc (npycalls s)\<rparr>) = (r, s')"
    by (simp add: publish_disj_def py_call_def)
  from for_each_preserves [where f = "\<lambda>s. (live s, nmalloc s, nsolve s, trace s)",
      OF publish_outcome_rest this]
  show ?thesis by simp
next
  case False
  with assms show ?thesis
    by (auto simp: publish_disj_def py_call_def PyErr_SetString_def)
qed

lemma update_program_parameters_rest:
  assumes "update_program_parameters ok P I s = (r, s')"
  shows "(live s', nmalloc s', nsolve s', trace s') = (live s, nmalloc s, nsolve s, trace s)"
proof -
  obtain r1 s1 where a:
    "for_each (\<lambda>i. publish_fact ok (PF P ! unat (snd (I_F I) ! i))) [0..<I_n I] s = (r1, s1)"
    by (cases "for_each (\<lambda>i. publish_fact ok (PF P ! unat (snd (I_F I) ! i))) [0..<I_n I] s")
  from for_each_preserves [where f = "\<lambda>s. (live s, nmalloc s, nsolve s, trace s)"
      and body = "\<lambda>i. publish_fact ok (PF P ! unat (snd (I_F I) ! i))", OF publish_fact_rest a]
  have f1: "(live s1, nmalloc s1, nsolve s1, trace s1) = (live s, nmalloc s, nsolve s, trace s)" .
  show ?thesis
  proof (cases r1)
    case False
    with assms a have "s' = s1" by (simp add: update_program_parameters_def)
    with f1 show ?thesis by simp
  next
    case True
    with assms a have b:
      "for_each (\<lambda>i. publish_disj ok (AD P ! unat (snd (I_A I) ! i))) [0..<I_m I] s1 = (r, s')"
      by (simp add: update_program_parameters_def)
    from for_each_preserves [where f = "\<lambda>s. (live s, nmalloc s, nsolve s, trace s)"
        and body = "\<lambda>i. publish_disj ok (AD P ! unat (snd (I_A I) ! i))", OF publish_disj_rest b]
    show ?thesis using f1 by simp
  qed
qed

lemma iterations_world:
  assumes "iterations E I Obs obs_counts lst N k Q P s = (r, P', s')"
  shows "live s' = live s \<and> nmalloc s' = nmalloc s \<and> raised s' = raised s \<and>
         py_p s' = py_p s \<and> py_P s' = py_P s \<and> npycalls s' = npycalls s"
  using assms
proof (induction k arbitrary: Q P s)
  case 0
  then show ?case by simp
next
  case (Suc k)
  show ?case
  proof (cases "prob_obs_reuse E (nsolve s) P Obs lst Q")
    case None
    with Suc.prems show ?thesis by auto
  next
    case (Some Q')
    with Suc.prems have
      "iterations E I Obs obs_counts lst N k Q' (learning_rule E I Obs obs_counts N Q' P)
         (s\<lparr>nsolve := Suc (nsolve s), trace := trace s @ [Solve, Reset, Accumulate, Normalize]\<rparr>)
       = (r, P', s')"
      by simp
    from Suc.IH [OF this] show ?thesis by simp
  qed
qed

lemma iterations_True:
  assumes "iterations E I Obs obs_counts lst N k Q P s = (True, P', s')"
  shows "trace s' = trace s @ concat (replicate k [Solve, Reset, Accumulate, Normalize]) \<and>
         nsolve s' = nsolve s + k"
  using assms
proof (induction k arbitrary: Q P s)
  case 0
  then show ?case by simp
next
  case (Suc k)
  show ?case
  proof (cases "prob_obs_reuse E (nsolve s) P Obs lst Q")
    case None
    with Suc.prems show ?thesis by simp
  next
    case (Some Q')
    with Suc.prems have
      "iterations E I Obs obs_counts lst N k Q' (learning_rule E I Obs obs_counts N Q' P)
         (s\<lparr>nsolve := Suc (nsolve s), trace := trace s @ [Solve, Reset, Accumulate, Normalize]\<rparr>)
       = (True, P', s')"
      by simp
    from Suc.IH [OF this] show ?thesis by simp
  qed
qed

section \<open>The ways through \<^verbatim>\<open>learn_fixpoint\<close>\<close>

lemma learn_fixpoint_import:
  "\<not> import_array_ok E \<Longrightarrow>
   learn_fixpoint E P obs obs_counts atoms niters lst s =
     (False, P, PyErr_SetString PyExc_ImportError ''numpy.core.multiarray failed to import'' s)"
  by (simp add: learn_fixpoint_def)

lemma learn_fixpoint_shape:
  assumes "import_array_ok E"
    and "PyArray_NDIM obs \<noteq> 2 \<or> PyArray_NDIM obs_counts \<noteq> 1 \<or> PyArray_NDIM atoms \<noteq> 1 \<or>
         PyArray_SIZE atoms \<noteq> dims obs ! 1 \<or> PyArray_SIZE obs_counts \<noteq> dims obs ! 0"
  shows "learn_fixpoint E P obs obs_counts atoms niters lst s =
     (False, P, PyErr_SetString PyExc_ValueError
        ''unexpected size dimension for obs, obs_counts and/or atoms in learn_fixpoint!'' s)"
proof -
  have "learn_fixpoint E P obs obs_counts atoms niters lst s =
     (False, P, learn_fixpoint_cleanup indices_zero (PyErr_SetString PyExc_ValueError
        ''unexpected size dimension for obs, obs_counts and/or atoms in learn_fixpoint!'' s))"
    unfolding learn_fixpoint_def Let_def using assms by (simp only: if_True if_False not_True_eq_False)
  then show ?thesis by (simp add: learn_fixpoint_cleanup_def)
qed

text \<open>The part of \<^verbatim>\<open>learn_fixpoint\<close> after the validation and \<^verbatim>\<open>init_observations\<close>.\<close>

lemma learn_fixpoint_valid:
  assumes "import_array_ok E"
    and "\<not> (PyArray_NDIM obs \<noteq> 2 \<or> PyArray_NDIM obs_counts \<noteq> 1 \<or> PyArray_NDIM atoms \<noteq> 1 \<or>
         PyArray_SIZE atoms \<noteq> dims obs ! 1 \<or> PyArray_SIZE obs_counts \<noteq> dims obs ! 0)"
  shows "learn_fixpoint E P obs obs_counts atoms niters lst s =
          (case init_observations E obs atoms of
             None \<Rightarrow> (False, P, learn_fixpoint_cleanup indices_zero s)
           | Some Obs \<Rightarrow>
               (case init_indices (malloc_ok E) P s of
                  (None, s1) \<Rightarrow> (False, P, learn_fixpoint_cleanup indices_zero s1)
                | (Some I, s1) \<Rightarrow>
                    if I_n I = 0 \<and> I_m I = 0 then
                      (False, P,
                       PyErr_SetString PyExc_ValueError ''program is not learnable!'' s1)
                    else
                      (case init_prob_storage_seq E P I Obs of
                         None \<Rightarrow> (False, P, learn_fixpoint_cleanup I s1)
                       | Some Q \<Rightarrow>
                           (let N = compute_N obs_counts Obs in
                            case iterations E I Obs obs_counts lst N niters Q P s1 of
                              (False, P', s2) \<Rightarrow> (False, P', learn_fixpoint_cleanup I s2)
                            | (True, P', s2) \<Rightarrow>
                                (case update_program_parameters (py_ok E) P' I
                                        (s2\<lparr>trace := trace s2 @ [Publish]\<rparr>) of
                                   (False, s3) \<Rightarrow>
                                     (False, P',
                                      learn_fixpoint_cleanup I
                                        (PyErr_SetString PyExc_AttributeError
                                           ''could not update program parameters!'' s3))
                                 | (True, s3) \<Rightarrow> (True, P', s3))))))"
  unfolding learn_fixpoint_def Let_def using assms
  by (simp only: if_True if_False not_True_eq_False not_False_eq_True not_not)

lemma learn_fixpoint_cases:
  assumes run: "learn_fixpoint E P obs obs_counts atoms niters lst s = (r, P', s')"
  obtains
    (import_failed) "\<not> import_array_ok E" "r = False" "P' = P"
      "s' = PyErr_SetString PyExc_ImportError ''numpy.core.multiarray failed to import'' s"
  | (shape) "import_array_ok E" "r = False" "P' = P"
      "s' = PyErr_SetString PyExc_ValueError
        ''unexpected size dimension for obs, obs_counts and/or atoms in learn_fixpoint!'' s"
  | (observations) "import_array_ok E" "init_observations E obs atoms = None"
      "r = False" "P' = P" "s' = s"
  | (indices) s1 where "import_array_ok E" "init_indices (malloc_ok E) P s = (None, s1)"
      "r = False" "P' = P" "s' = s1"
  | (not_learnable) I s1 where "import_array_ok E"
      "init_indices (malloc_ok E) P s = (Some I, s1)" "I_n I = 0" "I_m I = 0"
      "r = False" "P' = P"
      "s' = PyErr_SetString PyExc_ValueError ''program is not learnable!'' s1"
  | (storage) I s1 where "import_array_ok E"
      "init_indices (malloc_ok E) P s = (Some I, s1)"
      "r = False" "P' = P" "s' = free_indices_contents I s1"
  | (solver) Obs I s1 Q s2 where "import_array_ok E"
      "init_indices (malloc_ok E) P s = (Some I, s1)"
      "iterations E I Obs obs_counts lst (compute_N obs_counts Obs) niters Q P s1 = (False, P', s2)"
      "r = False" "s' = free_indices_contents I s2"
      "init_observations E obs atoms = Some Obs"
      "init_prob_storage_seq E P I Obs = Some Q"
  | (publish) Obs I s1 Q s2 s3 where "import_array_ok E"
      "init_indices (malloc_ok E) P s = (Some I, s1)"
      "iterations E I Obs obs_counts lst (compute_N obs_counts Obs) niters Q P s1 = (True, P', s2)"
      "update_program_parameters (py_ok E) P' I (s2\<lparr>trace := trace s2 @ [Publish]\<rparr>) = (False, s3)"
      "r = False"
      "s' = free_indices_contents I
              (PyErr_SetString PyExc_AttributeError ''could not update program parameters!'' s3)"
      "init_observations E obs atoms = Some Obs"
      "init_prob_storage_seq E P I Obs = Some Q"
  | (completed) Obs I s1 Q s2 where "import_array_ok E"
      "init_indices (malloc_ok E) P s = (Some I, s1)"
      "iterations E I Obs obs_counts lst (compute_N obs_counts Obs) niters Q P s1 = (True, P', s2)"
      "update_program_parameters (py_ok E) P' I (s2\<lparr>trace := trace s2 @ [Publish]\<rparr>) = (True, s')"
      "r = True"
      "init_observations E obs atoms = Some Obs"
      "init_prob_storage_seq E P I Obs = Some Q"
proof (cases "import_array_ok E")
  case False
  with run learn_fixpoint_import [OF False, of P obs obs_counts atoms niters lst s]
  show thesis by (intro import_failed) simp_all
next
  case imp: True
  show thesis
  proof (cases "PyArray_NDIM obs \<noteq> 2 \<or> PyArray_NDIM obs_counts \<noteq> 1 \<or> PyArray_NDIM atoms \<noteq> 1 \<or>
         PyArray_SIZE atoms \<noteq> dims obs ! 1 \<or> PyArray_SIZE obs_counts \<noteq> dims obs ! 0")
    case True
    with run learn_fixpoint_shape [OF imp True, of P niters lst s]
    show thesis by (intro shape) (simp_all add: imp)
  next
    case False
    note eq = learn_fixpoint_valid [OF imp False, of P niters lst s]
    show thesis
    proof (cases "init_observations E obs atoms")
      case None
      with run eq show thesis
        by (intro observations) (simp_all add: imp learn_fixpoint_cleanup_def)
    next
      case (Some Obs)
      note obs = this
      obtain r1 s1 where ii: "init_indices (malloc_ok E) P s = (r1, s1)"
        by (cases "init_indices (malloc_ok E) P s")
      show thesis
      proof (cases r1)
        case None
        with run eq obs ii show thesis
          by (intro indices [of s1]) (simp_all add: imp learn_fixpoint_cleanup_def)
      next
        case (Some I)
        note I = this
        show thesis
        proof (cases "I_n I = 0 \<and> I_m I = 0")
          case True
          with run eq obs ii I show thesis
            by (intro not_learnable [of I s1]) (simp_all add: imp)
        next
          case nz: False
          show thesis
          proof (cases "init_prob_storage_seq E P I Obs")
            case None
            with run eq obs ii I nz show thesis
              by (intro storage [of I s1]) (simp_all add: imp learn_fixpoint_cleanup_def)
          next
            case (Some Q)
            note Q = this
            obtain r2 P2 s2 where it:
              "iterations E I Obs obs_counts lst (compute_N obs_counts Obs) niters Q P s1 = (r2, P2, s2)"
              by (cases "iterations E I Obs obs_counts lst (compute_N obs_counts Obs) niters Q P s1")
            show thesis
            proof (cases r2)
              case False
              with run eq obs ii I nz Q it show thesis
                by (intro solver [of I s1 Obs Q s2]) (simp_all add: imp learn_fixpoint_cleanup_def)
            next
              case True
              note r2 = this
              obtain r3 s3 where up:
                "update_program_parameters (py_ok E) P2 I (s2\<lparr>trace := trace s2 @ [Publish]\<rparr>) = (r3, s3)"
                by (cases "update_program_parameters (py_ok E) P2 I (s2\<lparr>trace := trace s2 @ [Publish]\<rparr>)")
              show thesis
              proof (cases r3)
                case False
                with run eq obs ii I nz Q it r2 up show thesis
                  by (intro publish [of I s1 Obs Q s2 s3]) (simp_all add: imp learn_fixpoint_cleanup_def)
              next
                case True
                with run eq obs ii I nz Q it r2 up show thesis
                  by (intro completed [of I s1 Obs Q s2]) (simp_all add: imp)
              qed
            qed
          qed
        qed
      qed
    qed
  qed
qed

section \<open>Validation, the program without learnable entries, the number of passes\<close>

lemma singleton_dims: "length xs = 1 \<Longrightarrow> xs = [prod_list xs]"
  by (cases xs) simp_all

text \<open>
  C9. When NumPy's C API is available and the dimensions are inconsistent (the
  observation matrix is not 2-D, the repeat-count vector is not 1-D or its length is not
  the number of rows of the matrix, the atom-label vector is not 1-D or its length is
  not the number of columns of the matrix), \<^verbatim>\<open>learn_fixpoint\<close> returns false, leaves
  the program as it was and changes nothing but the error indicator, which receives
  one \<^verbatim>\<open>ValueError\<close>: no allocation has been made (the allocation counter and the live
  blocks are those before the call).
\<close>

theorem learn_fixpoint_rejects_shapes:
  assumes "import_array_ok E"
    and "length (dims obs) \<noteq> 2 \<or>
         length (dims obs_counts) \<noteq> 1 \<or> dims obs_counts \<noteq> [dims obs ! 0] \<or>
         length (dims atoms) \<noteq> 1 \<or> dims atoms \<noteq> [dims obs ! 1]"
  shows "learn_fixpoint E P obs obs_counts atoms niters lstable_sat s =
           (False, P,
            s\<lparr>raised := raised s @
                 [(PyExc_ValueError,
                   ''unexpected size dimension for obs, obs_counts and/or atoms in learn_fixpoint!'')]\<rparr>)"
proof -
  have "PyArray_NDIM obs \<noteq> 2 \<or> PyArray_NDIM obs_counts \<noteq> 1 \<or> PyArray_NDIM atoms \<noteq> 1 \<or>
         PyArray_SIZE atoms \<noteq> dims obs ! 1 \<or> PyArray_SIZE obs_counts \<noteq> dims obs ! 0"
  proof (rule ccontr)
    assume "\<not> ?thesis"
    then have o: "length (dims obs) = 2" and c: "length (dims obs_counts) = 1"
      and a: "length (dims atoms) = 1" and sa: "prod_list (dims atoms) = dims obs ! 1"
      and sc: "prod_list (dims obs_counts) = dims obs ! 0"
      by (simp_all add: PyArray_NDIM_def PyArray_SIZE_def)
    from singleton_dims [OF c] sc have "dims obs_counts = [dims obs ! 0]" by simp
    moreover from singleton_dims [OF a] sa have "dims atoms = [dims obs ! 1]" by simp
    ultimately show False using assms(2) o c a by simp
  qed
  from learn_fixpoint_shape [OF assms(1) this] show ?thesis
    by (simp add: PyErr_SetString_def)
qed

theorem learn_fixpoint_rejects_shapes_witness:
  "import_array_ok scenario_env \<and>
   dims long_atoms \<noteq> [dims scenario_obs ! 1] \<and>
   learn_fixpoint scenario_env scenario_program scenario_obs scenario_counts long_atoms 1 False
       world0 =
     (False, scenario_program,
      world0\<lparr>raised := raised world0 @
                 [(PyExc_ValueError,
                   ''unexpected size dimension for obs, obs_counts and/or atoms in learn_fixpoint!'')]\<rparr>)"
proof -
  have i: "import_array_ok scenario_env" by (simp add: scenario_env_def)
  have d: "dims long_atoms \<noteq> [dims scenario_obs ! 1]"
    by (simp add: long_atoms_def scenario_obs_def)
  then have "length (dims scenario_obs) \<noteq> 2 \<or>
         length (dims scenario_counts) \<noteq> 1 \<or> dims scenario_counts \<noteq> [dims scenario_obs ! 0] \<or>
         length (dims long_atoms) \<noteq> 1 \<or> dims long_atoms \<noteq> [dims scenario_obs ! 1]"
    by simp
  from learn_fixpoint_rejects_shapes [OF i this] i d show ?thesis by simp
qed

lemma build_index_nothing:
  assumes "\<forall>x \<in> set xs. \<not> f x"
  shows "build_index ok f xs s = (Some (0, (None, [])), s)"
proof -
  from assms have "filter f xs = []" by (simp add: filter_empty_conv)
  then show ?thesis by (simp add: build_index_def count_loop_eq)
qed

lemma valid_shapes:
  assumes "dims obs = [rows, cols]" "dims obs_counts = [rows]" "dims atoms = [cols]"
  shows "\<not> (PyArray_NDIM obs \<noteq> 2 \<or> PyArray_NDIM obs_counts \<noteq> 1 \<or> PyArray_NDIM atoms \<noteq> 1 \<or>
         PyArray_SIZE atoms \<noteq> dims obs ! 1 \<or> PyArray_SIZE obs_counts \<noteq> dims obs ! 0)"
  using assms by (simp add: PyArray_NDIM_def PyArray_SIZE_def)

text \<open>
  C5. For a program without any learnable fact or disjunction (and inputs that pass the
  validation and the observation adapter, the two steps before), \<^verbatim>\<open>init_indices\<close>
  returns true with both index sequences empty and without calling the allocator, and
  it is \<^verbatim>\<open>learn_fixpoint\<close> that rejects the program: it returns false with the
  \<^verbatim>\<open>ValueError\<close> "program is not learnable!", the program is as it was, and nothing
  else has changed: no call of \<^verbatim>\<open>malloc\<close> was made and no block is left behind.
\<close>

theorem not_learnable_rejected:
  assumes "import_array_ok E"
    and "dims obs = [rows, cols]" and "dims obs_counts = [rows]" and "dims atoms = [cols]"
    and "init_observations E obs atoms = Some Obs"
    and "\<forall>pf \<in> set (PF P). \<not> pf_learnable pf"
    and "\<forall>ad \<in> set (AD P). \<not> ad_learnable ad"
  shows "init_indices (malloc_ok E) P s =
           (Some \<lparr>I_n = 0, I_m = 0, I_F = (None, []), I_A = (None, [])\<rparr>, s) \<and>
         learn_fixpoint E P obs obs_counts atoms niters lstable_sat s =
           (False, P,
            s\<lparr>raised := raised s @ [(PyExc_ValueError, ''program is not learnable!'')]\<rparr>)"
proof -
  have ii: "init_indices (malloc_ok E) P s =
           (Some \<lparr>I_n = 0, I_m = 0, I_F = (None, []), I_A = (None, [])\<rparr>, s)"
    by (simp add: init_indices_def build_index_nothing [OF assms(6)]
        build_index_nothing [OF assms(7)])
  note eq = learn_fixpoint_valid [OF assms(1) valid_shapes [OF assms(2,3,4)],
      of P niters lstable_sat s]
  show ?thesis
    by (simp add: eq assms(5) ii PyErr_SetString_def)
qed

theorem not_learnable_rejected_witness:
  "import_array_ok scenario_env \<and>
   dims scenario_obs = [2, 1] \<and> dims scenario_counts = [2] \<and> dims scenario_atoms = [1] \<and>
   init_observations scenario_env scenario_obs scenario_atoms = Some \<lparr>O_n = 2\<rparr> \<and>
   map pf_learnable (PF fixed_program) = [False] \<and>
   map ad_learnable (AD fixed_program) = [False] \<and>
   init_indices (malloc_ok scenario_env) fixed_program world0 =
     (Some \<lparr>I_n = 0, I_m = 0, I_F = (None, []), I_A = (None, [])\<rparr>, world0) \<and>
   learn_fixpoint scenario_env fixed_program scenario_obs scenario_counts scenario_atoms 1 False
       world0 =
     (False, fixed_program,
      world0\<lparr>raised := raised world0 @ [(PyExc_ValueError, ''program is not learnable!'')]\<rparr>)"
proof -
  have i: "import_array_ok scenario_env" by (simp add: scenario_env_def)
  have d: "dims scenario_obs = [2, 1]" "dims scenario_counts = [2]" "dims scenario_atoms = [1]"
    by (simp_all add: scenario_obs_def scenario_counts_def scenario_atoms_def)
  have ob: "init_observations scenario_env scenario_obs scenario_atoms = Some \<lparr>O_n = 2\<rparr>"
    by (simp add: scenario_env_def rows_of_def scenario_obs_def)
  have f: "\<forall>pf \<in> set (PF fixed_program). \<not> pf_learnable pf"
    and a: "\<forall>ad \<in> set (AD fixed_program). \<not> ad_learnable ad"
    by (simp_all add: fixed_program_def)
  have m: "map pf_learnable (PF fixed_program) = [False]"
    "map ad_learnable (AD fixed_program) = [False]"
    by (simp_all add: fixed_program_def)
  from not_learnable_rejected [OF i d ob f a, of world0 1 False] i d ob m
  show ?thesis by simp
qed

lemma learn_fixpoint_True:
  assumes "learn_fixpoint E P obs obs_counts atoms niters lst s = (True, P', s')"
  obtains Obs I s1 Q s2 where "import_array_ok E"
      "init_indices (malloc_ok E) P s = (Some I, s1)"
      "iterations E I Obs obs_counts lst (compute_N obs_counts Obs) niters Q P s1 = (True, P', s2)"
      "update_program_parameters (py_ok E) P' I (s2\<lparr>trace := trace s2 @ [Publish]\<rparr>) = (True, s')"
      "init_observations E obs atoms = Some Obs"
      "init_prob_storage_seq E P I Obs = Some Q"
  using assms by (rule learn_fixpoint_cases) simp_all

lemma full_passes_0: "full_passes E I Obs obs_counts lst N 0 c [P] [Q]"
  by (simp add: full_passes_def)

lemma full_passes_Suc:
  assumes call: "prob_obs_reuse E c P Obs lst Q = Some (Qs ! 0)"
    and pass: "Ps ! 0 = learning_rule E I Obs obs_counts N (Qs ! 0) P"
    and rest: "full_passes E I Obs obs_counts lst N k (Suc c) Ps Qs"
  shows "full_passes E I Obs obs_counts lst N (Suc k) c (P # Ps) (Q # Qs)"
proof -
  from rest have len: "length Ps = Suc k" "length Qs = Suc k"
    and step: "\<And>j. j < k \<Longrightarrow>
         prob_obs_reuse E (Suc c + j) (Ps ! j) Obs lst (Qs ! j) = Some (Qs ! Suc j) \<and>
         Ps ! Suc j =
           divide_parameters E I N
             (update_parameters E I Obs obs_counts (Qs ! Suc j) (reset_parameters I (Ps ! j)))"
    by (simp_all add: full_passes_def)
  have "prob_obs_reuse E (c + j) ((P # Ps) ! j) Obs lst ((Q # Qs) ! j) = Some ((Q # Qs) ! Suc j) \<and>
         (P # Ps) ! Suc j =
           divide_parameters E I N
             (update_parameters E I Obs obs_counts ((Q # Qs) ! Suc j)
                (reset_parameters I ((P # Ps) ! j)))"
    if "j < Suc k" for j
  proof (cases j)
    case 0
    with call pass show ?thesis by (simp add: learning_rule_def)
  next
    case (Suc j')
    with that have "j' < k" by simp
    from step [OF this] show ?thesis by (simp add: Suc)
  qed
  with len show ?thesis by (simp add: full_passes_def)
qed

lemma iterations_full_passes:
  assumes "iterations E I Obs obs_counts lst N k Q P s = (True, P', s')"
  shows "\<exists>Ps Qs. Ps ! 0 = P \<and> Qs ! 0 = Q \<and>
           full_passes E I Obs obs_counts lst N k (nsolve s) Ps Qs \<and> P' = Ps ! k"
  using assms
proof (induction k arbitrary: Q P s)
  case 0
  then have "[P] ! 0 = P \<and> [Q] ! 0 = Q \<and>
      full_passes E I Obs obs_counts lst N 0 (nsolve s) [P] [Q] \<and> P' = [P] ! 0"
    by (simp add: full_passes_0)
  then show ?case by blast
next
  case (Suc k)
  show ?case
  proof (cases "prob_obs_reuse E (nsolve s) P Obs lst Q")
    case None
    with Suc.prems show ?thesis by simp
  next
    case (Some Q')
    with Suc.prems have
      "iterations E I Obs obs_counts lst N k Q' (learning_rule E I Obs obs_counts N Q' P)
         (s\<lparr>nsolve := Suc (nsolve s), trace := trace s @ [Solve, Reset, Accumulate, Normalize]\<rparr>)
       = (True, P', s')"
      by simp
    from Suc.IH [OF this] obtain Ps Qs where
      p0: "Ps ! 0 = learning_rule E I Obs obs_counts N Q' P" and q0: "Qs ! 0 = Q'" and
      fp: "full_passes E I Obs obs_counts lst N k (Suc (nsolve s)) Ps Qs" and
      res: "P' = Ps ! k"
      by auto
    have call: "prob_obs_reuse E (nsolve s) P Obs lst Q = Some (Qs ! 0)"
      using Some q0 by simp
    have pass: "Ps ! 0 = learning_rule E I Obs obs_counts N (Qs ! 0) P"
      using p0 q0 by simp
    from full_passes_Suc [OF call pass fp] res
    have "(P # Ps) ! 0 = P \<and> (Q # Qs) ! 0 = Q \<and>
      full_passes E I Obs obs_counts lst N (Suc k) (nsolve s) (P # Ps) (Q # Qs) \<and>
      P' = (P # Ps) ! Suc k"
      by simp
    then show ?thesis by blast
  qed
qed

text \<open>
  C8. A call of \<^verbatim>\<open>learn_fixpoint\<close> that returns true has made exactly \<open>niters\<close>
  full passes, whatever the parameter values were: there are programs \<open>Ps\<close> and
  storages \<open>Qs\<close>, \<open>niters + 1\<close> of each, starting with the program given and the
  storage allocated, such that for every \<open>j < niters\<close> the inference primitive was
  called on program \<open>j\<close> and storage \<open>j\<close> and gave storage \<open>j + 1\<close>, and program
  \<open>j + 1\<close> is program \<open>j\<close> after reset, accumulation with storage \<open>j + 1\<close> and
  division by \<open>N\<close>; the program left by the call is the last one. The calls of the
  inference primitive are the calls number \<open>nsolve s\<close> to \<open>nsolve s + niters - 1\<close>, and
  the recorded phases are \<open>niters\<close> rounds of solve, reset, accumulate, normalize
  followed by one publishing step.
\<close>

theorem learn_fixpoint_passes:
  assumes "learn_fixpoint E P obs obs_counts atoms niters lstable_sat s = (True, P', s')"
  shows "(\<exists>I s1 Obs Ps Qs.
            init_indices (malloc_ok E) P s = (Some I, s1) \<and>
            init_observations E obs atoms = Some Obs \<and>
            init_prob_storage_seq E P I Obs = Some (Qs ! 0) \<and>
            Ps ! 0 = P \<and>
            full_passes E I Obs obs_counts lstable_sat (compute_N obs_counts Obs) niters
              (nsolve s) Ps Qs \<and>
            P' = Ps ! niters) \<and>
         nsolve s' = nsolve s + niters \<and>
         trace s' =
           trace s @ concat (replicate niters [Solve, Reset, Accumulate, Normalize]) @ [Publish]"
proof -
  from assms obtain Obs I s1 Q s2 where
    ii: "init_indices (malloc_ok E) P s = (Some I, s1)" and
    it: "iterations E I Obs obs_counts lstable_sat (compute_N obs_counts Obs) niters Q P s1
           = (True, P', s2)" and
    up: "update_program_parameters (py_ok E) P' I (s2\<lparr>trace := trace s2 @ [Publish]\<rparr>) = (True, s')" and
    ob: "init_observations E obs atoms = Some Obs" and
    st: "init_prob_storage_seq E P I Obs = Some Q"
    by (rule learn_fixpoint_True)
  from init_indices_fields [OF ii] have 1: "trace s1 = trace s" "nsolve s1 = nsolve s"
    by simp_all
  from iterations_True [OF it] have 2:
    "trace s2 = trace s1 @ concat (replicate niters [Solve, Reset, Accumulate, Normalize])"
    "nsolve s2 = nsolve s1 + niters"
    by simp_all
  from update_program_parameters_rest [OF up] have 3:
    "trace s' = trace s2 @ [Publish]" "nsolve s' = nsolve s2"
    by simp_all
  from iterations_full_passes [OF it] obtain Ps Qs where
    "Ps ! 0 = P" "Qs ! 0 = Q"
    "full_passes E I Obs obs_counts lstable_sat (compute_N obs_counts Obs) niters (nsolve s1) Ps Qs"
    "P' = Ps ! niters"
    by auto
  with ii ob st 1 have 4: "\<exists>I s1 Obs Ps Qs.
            init_indices (malloc_ok E) P s = (Some I, s1) \<and>
            init_observations E obs atoms = Some Obs \<and>
            init_prob_storage_seq E P I Obs = Some (Qs ! 0) \<and>
            Ps ! 0 = P \<and>
            full_passes E I Obs obs_counts lstable_sat (compute_N obs_counts Obs) niters
              (nsolve s) Ps Qs \<and>
            P' = Ps ! niters"
    by auto
  from 1 2 3 have "nsolve s' = nsolve s + niters"
    and "trace s' =
           trace s @ concat (replicate niters [Solve, Reset, Accumulate, Normalize]) @ [Publish]"
    by simp_all
  with 4 show ?thesis by (intro conjI)
qed

section \<open>The writes of the loops\<close>

lemma frame_refl: "frame KF KA P P"
  by (simp add: frame_def)

lemma frame_trans: "frame KF KA P P' \<Longrightarrow> frame KF KA P' P'' \<Longrightarrow> frame KF KA P P''"
  by (simp add: frame_def)

lemma frame_modify_pf: "k \<in> KF \<Longrightarrow> frame KF KA P (modify_pf k f P)"
proof -
  assume k: "k \<in> KF"
  have flags: "pf_learnable ((PF P)[k := (PF P ! k)\<lparr>pf_p := v\<rparr>] ! j) = pf_learnable (PF P ! j) \<and>
               pf_self ((PF P)[k := (PF P ! k)\<lparr>pf_p := v\<rparr>] ! j) = pf_self (PF P ! j)" for j v
  proof (cases "j = k \<and> k < length (PF P)")
    case True
    then show ?thesis by simp
  next
    case False
    show ?thesis
    proof (cases "j = k")
      case True
      with False have "length (PF P) \<le> k" by simp
      then show ?thesis by (simp add: True list_update_beyond)
    next
      case False
      then show ?thesis by simp
    qed
  qed
  have other: "j \<notin> KF \<Longrightarrow> (PF P)[k := x] ! j = PF P ! j" for j x
    using k by (cases "j = k") simp_all
  show ?thesis
    unfolding frame_def modify_pf_def using flags other by simp
qed

lemma frame_modify_ad: "k \<in> KA \<Longrightarrow> frame KF KA P (modify_ad k j f P)"
proof -
  assume k: "k \<in> KA"
  have flags: "ad_learnable ((AD P)[k := (AD P ! k)\<lparr>ad_P := v\<rparr>] ! i) = ad_learnable (AD P ! i) \<and>
               ad_self ((AD P)[k := (AD P ! k)\<lparr>ad_P := v\<rparr>] ! i) = ad_self (AD P ! i)" for i v
  proof (cases "i = k \<and> k < length (AD P)")
    case True
    then show ?thesis by simp
  next
    case False
    show ?thesis
    proof (cases "i = k")
      case True
      with False have "length (AD P) \<le> k" by simp
      then show ?thesis by (simp add: True list_update_beyond)
    next
      case False
      then show ?thesis by simp
    qed
  qed
  have other: "i \<notin> KA \<Longrightarrow> (AD P)[k := x] ! i = AD P ! i" for i x
    using k by (cases "i = k") simp_all
  show ?thesis
    unfolding frame_def modify_ad_def using flags other by simp
qed

lemma frame_fold:
  assumes "\<And>i P. i \<in> set is \<Longrightarrow> frame KF KA P (step i P)"
  shows "frame KF KA P (fold step is P)"
  using assms
proof (induction "is" arbitrary: P)
  case Nil
  then show ?case by (simp add: frame_refl)
next
  case (Cons i "is")
  have 1: "frame KF KA P (step i P)" using Cons.prems by simp
  have 2: "frame KF KA (step i P) (fold step is (step i P))"
    using Cons.IH Cons.prems by simp
  from frame_trans [OF 1 2] show ?case by simp
qed

text \<open>The positions named by the first \<open>n\<close> entries of an index array.\<close>

lemma frame_for_facts:
  assumes "\<forall>i. i < I_n I \<longrightarrow> unat (snd (I_F I) ! i) \<in> KF"
  shows "frame KF KA P (for_facts I g P)"
  unfolding for_facts_def
  by (rule frame_fold) (simp add: assms frame_modify_pf)

lemma frame_for_disjs:
  assumes "\<forall>i. i < I_m I \<longrightarrow> unat (snd (I_A I) ! i) \<in> KA"
  shows "frame KF KA P (for_disjs I g P)"
  unfolding for_disjs_def Let_def
proof (rule frame_fold)
  fix i P
  assume "i \<in> set [0..<I_m I]"
  then have k: "unat (snd (I_A I) ! i) \<in> KA" using assms by simp
  show "frame KF KA P
          (fold (\<lambda>j. modify_ad (unat (snd (I_A I) ! i)) j (g i j))
             [0..<length (ad_P (AD P ! unat (snd (I_A I) ! i)))] P)"
    by (rule frame_fold) (simp add: k frame_modify_ad)
qed

lemma frame_learning_rule:
  assumes "\<forall>i. i < I_n I \<longrightarrow> unat (snd (I_F I) ! i) \<in> KF"
    and "\<forall>i. i < I_m I \<longrightarrow> unat (snd (I_A I) ! i) \<in> KA"
  shows "frame KF KA P (learning_rule E I Obs obs_counts N Q P)"
proof -
  note ff = frame_for_facts [OF assms(1)] and fd = frame_for_disjs [OF assms(2)]
  have r: "frame KF KA P (reset_parameters I P)"
    unfolding reset_parameters_def by (rule frame_trans [OF ff fd])
  have u: "frame KF KA P0 (update_parameters E I Obs obs_counts Q P0)" for P0
    unfolding update_parameters_def
  proof (rule frame_fold)
    fix i P1
    show "frame KF KA P1 (update_observation E I obs_counts Q i P1)"
      unfolding update_observation_def Let_def by (rule frame_trans [OF ff fd])
  qed
  have d: "frame KF KA P0 (divide_parameters E I N P0)" for P0
    unfolding divide_parameters_def by (rule frame_trans [OF ff fd])
  show ?thesis
    unfolding learning_rule_def by (rule frame_trans [OF frame_trans [OF r u] d])
qed

lemma frame_iterations:
  assumes "\<forall>i. i < I_n I \<longrightarrow> unat (snd (I_F I) ! i) \<in> KF"
    and "\<forall>i. i < I_m I \<longrightarrow> unat (snd (I_A I) ! i) \<in> KA"
    and "iterations E I Obs obs_counts lst N k Q P s = (r, P', s')"
  shows "frame KF KA P P'"
  using assms(3)
proof (induction k arbitrary: Q P s)
  case 0
  then show ?case by (simp add: frame_refl)
next
  case (Suc k)
  show ?case
  proof (cases "prob_obs_reuse E (nsolve s) P Obs lst Q")
    case None
    with Suc.prems show ?thesis by (simp add: frame_refl)
  next
    case (Some Q')
    with Suc.prems have
      "iterations E I Obs obs_counts lst N k Q' (learning_rule E I Obs obs_counts N Q' P)
         (s\<lparr>nsolve := Suc (nsolve s), trace := trace s @ [Solve, Reset, Accumulate, Normalize]\<rparr>)
       = (r, P', s')"
      by simp
    from frame_trans [OF frame_learning_rule [OF assms(1,2)] Suc.IH [OF this]]
    show ?thesis .
  qed
qed

section \<open>The writes of the publishing step\<close>

lemma for_each_preserves_on:
  assumes step: "\<And>i s r s'. i \<in> set is \<Longrightarrow> body i s = (r, s') \<Longrightarrow> f s' = f s"
    and run: "for_each body is s = (r, s')"
  shows "f s' = f s"
  using step run
proof (induction "is" arbitrary: s)
  case Nil
  then show ?case by simp
next
  case (Cons i "is")
  obtain r1 s1 where b: "body i s = (r1, s1)" by (cases "body i s")
  have f1: "f s1 = f s" using Cons.prems(1) [of i s r1 s1] b by simp
  show ?case
  proof (cases r1)
    case True
    with Cons.prems(2) b have run': "for_each body is s1 = (r, s')" by simp
    have "f s' = f s1"
    proof (rule Cons.IH [OF _ run'])
      fix j t q t'
      assume "j \<in> set is" "body j t = (q, t')"
      then show "f t' = f t" using Cons.prems(1) [of j t q t'] by simp
    qed
    with f1 show ?thesis by simp
  next
    case False
    with Cons.prems(2) b have "s' = s1" by simp
    with f1 show ?thesis by simp
  qed
qed

lemma publish_fact_py:
  assumes "publish_fact ok pf s = (r, s')"
  shows "py_P s' = py_P s \<and> (h \<noteq> pf_self pf \<longrightarrow> py_p s' h = py_p s h)"
  using assms
  by (auto simp: publish_fact_def py_call_def PyErr_SetString_def split: if_splits bool.splits)

lemma publish_outcome_py:
  assumes "publish_outcome ok ad j s = (r, s')"
  shows "py_p s' = py_p s \<and> (h \<noteq> ad_self ad \<longrightarrow> py_P s' h = py_P s h)"
  using assms
  by (auto simp: publish_outcome_def py_call_def PyErr_SetString_def split: if_splits bool.splits)

lemma publish_disj_py:
  assumes run: "publish_disj ok ad s = (r, s')" and h: "h \<noteq> ad_self ad"
  shows "(py_p s', py_P s' h) = (py_p s, py_P s h)"
proof (cases "ok (npycalls s)")
  case True
  with run have loop:
    "for_each (publish_outcome ok ad) [0..<length (ad_P ad)] (s\<lparr>npycalls := Suc (npycalls s)\<rparr>) = (r, s')"
    by (simp add: publish_disj_def py_call_def)
  have "(py_p s', py_P s' h) =
        (py_p (s\<lparr>npycalls := Suc (npycalls s)\<rparr>), py_P (s\<lparr>npycalls := Suc (npycalls s)\<rparr>) h)"
  proof (rule for_each_preserves [where f = "\<lambda>s. (py_p s, py_P s h)", OF _ loop])
    fix j t q t'
    assume "publish_outcome ok ad j t = (q, t')"
    from publish_outcome_py [OF this, of h] h
    show "(py_p t', py_P t' h) = (py_p t, py_P t h)" by simp
  qed
  then show ?thesis by simp
next
  case False
  with run show ?thesis
    by (auto simp: publish_disj_def py_call_def PyErr_SetString_def)
qed

lemma update_program_parameters_py_p:
  assumes run: "update_program_parameters ok P I s = (r, s')"
    and h: "\<forall>i. i < I_n I \<longrightarrow> pf_self (PF P ! unat (snd (I_F I) ! i)) \<noteq> h"
  shows "py_p s' h = py_p s h"
proof -
  obtain r1 s1 where a:
    "for_each (\<lambda>i. publish_fact ok (PF P ! unat (snd (I_F I) ! i))) [0..<I_n I] s = (r1, s1)"
    by (cases "for_each (\<lambda>i. publish_fact ok (PF P ! unat (snd (I_F I) ! i))) [0..<I_n I] s")
  have f1: "py_p s1 h = py_p s h"
  proof (rule for_each_preserves_on [where f = "\<lambda>s. py_p s h", OF _ a])
    fix i t q t'
    assume i: "i \<in> set [0..<I_n I]"
      and b: "publish_fact ok (PF P ! unat (snd (I_F I) ! i)) t = (q, t')"
    from i h have "h \<noteq> pf_self (PF P ! unat (snd (I_F I) ! i))" by auto
    with publish_fact_py [OF b, of h] show "py_p t' h = py_p t h" by simp
  qed
  show ?thesis
  proof (cases r1)
    case False
    with run a have "s' = s1" by (simp add: update_program_parameters_def)
    with f1 show ?thesis by simp
  next
    case True
    with run a have b:
      "for_each (\<lambda>i. publish_disj ok (AD P ! unat (snd (I_A I) ! i))) [0..<I_m I] s1 = (r, s')"
      by (simp add: update_program_parameters_def)
    have "py_p s' = py_p s1"
    proof (rule for_each_preserves [where f = py_p, OF _ b])
      fix i t q t'
      assume c: "publish_disj ok (AD P ! unat (snd (I_A I) ! i)) t = (q, t')"
      show "py_p t' = py_p t"
      proof (cases "ok (npycalls t)")
        case True
        with c have loop: "for_each (publish_outcome ok (AD P ! unat (snd (I_A I) ! i)))
            [0..<length (ad_P (AD P ! unat (snd (I_A I) ! i)))]
            (t\<lparr>npycalls := Suc (npycalls t)\<rparr>) = (q, t')"
          by (simp add: publish_disj_def py_call_def)
        have "py_p t' = py_p (t\<lparr>npycalls := Suc (npycalls t)\<rparr>)"
        proof (rule for_each_preserves [where f = py_p, OF _ loop])
          fix j u v u'
          assume "publish_outcome ok (AD P ! unat (snd (I_A I) ! i)) j u = (v, u')"
          from publish_outcome_py [OF this] show "py_p u' = py_p u" by simp
        qed
        then show ?thesis by simp
      next
        case False
        with c show ?thesis
          by (auto simp: publish_disj_def py_call_def PyErr_SetString_def)
      qed
    qed
    with f1 show ?thesis by simp
  qed
qed

lemma update_program_parameters_py_P:
  assumes run: "update_program_parameters ok P I s = (r, s')"
    and h: "\<forall>i. i < I_m I \<longrightarrow> ad_self (AD P ! unat (snd (I_A I) ! i)) \<noteq> h"
  shows "py_P s' h = py_P s h"
proof -
  obtain r1 s1 where a:
    "for_each (\<lambda>i. publish_fact ok (PF P ! unat (snd (I_F I) ! i))) [0..<I_n I] s = (r1, s1)"
    by (cases "for_each (\<lambda>i. publish_fact ok (PF P ! unat (snd (I_F I) ! i))) [0..<I_n I] s")
  have f1: "py_P s1 = py_P s"
  proof (rule for_each_preserves [where f = py_P, OF _ a])
    fix i t q t'
    assume "publish_fact ok (PF P ! unat (snd (I_F I) ! i)) t = (q, t')"
    from publish_fact_py [OF this] show "py_P t' = py_P t" by simp
  qed
  show ?thesis
  proof (cases r1)
    case False
    with run a have "s' = s1" by (simp add: update_program_parameters_def)
    with f1 show ?thesis by simp
  next
    case True
    with run a have b:
      "for_each (\<lambda>i. publish_disj ok (AD P ! unat (snd (I_A I) ! i))) [0..<I_m I] s1 = (r, s')"
      by (simp add: update_program_parameters_def)
    have "py_P s' h = py_P s1 h"
    proof (rule for_each_preserves_on [where f = "\<lambda>s. py_P s h", OF _ b])
      fix i t q t'
      assume i: "i \<in> set [0..<I_m I]"
        and c: "publish_disj ok (AD P ! unat (snd (I_A I) ! i)) t = (q, t')"
      from i h have "h \<noteq> ad_self (AD P ! unat (snd (I_A I) ! i))" by auto
      from publish_disj_py [OF c this] show "py_P t' h = py_P t h" by simp
    qed
    with f1 show ?thesis by simp
  qed
qed

section \<open>What \<^verbatim>\<open>learn_fixpoint\<close> leaves alone\<close>

lemma index_in_filter:
  assumes "map unat ks = filter p [0..<n]" and "i < length ks"
  shows "unat (ks ! i) < n \<and> p (unat (ks ! i))"
proof -
  from assms(2) have "unat (ks ! i) \<in> set (map unat ks)"
    by (metis length_map nth_map nth_mem)
  then show ?thesis unfolding assms(1) by simp
qed

text \<open>The positions of the learnable facts and of the learnable disjunctions.\<close>

lemma init_indices_learnable:
  assumes ii: "init_indices ok P s = (Some I, s1)"
    and len: "length (PF P) \<le> 65536" "length (AD P) \<le> 65536"
  shows "\<forall>i. i < I_n I \<longrightarrow>
           unat (snd (I_F I) ! i) \<in> {k. k < length (PF P) \<and> pf_learnable (PF P ! k)}"
    and "\<forall>i. i < I_m I \<longrightarrow>
           unat (snd (I_A I) ! i) \<in> {k. k < length (AD P) \<and> ad_learnable (AD P ! k)}"
proof -
  note wf = init_indices_wf [OF ii len]
  from wf have F: "map unat (snd (I_F I)) =
      filter (\<lambda>i. pf_learnable (PF P ! i)) [0..<length (PF P)]"
    and A: "map unat (snd (I_A I)) =
      filter (\<lambda>i. ad_learnable (AD P ! i)) [0..<length (AD P)]"
    and n: "I_n I = length (snd (I_F I))" and m: "I_m I = length (snd (I_A I))"
    by blast+
  show "\<forall>i. i < I_n I \<longrightarrow>
           unat (snd (I_F I) ! i) \<in> {k. k < length (PF P) \<and> pf_learnable (PF P ! k)}"
    using index_in_filter [OF F] n by simp
  show "\<forall>i. i < I_m I \<longrightarrow>
           unat (snd (I_A I) ! i) \<in> {k. k < length (AD P) \<and> ad_learnable (AD P ! k)}"
    using index_in_filter [OF A] m by simp
qed

lemma self_of_learnable_pf:
  assumes L: "\<forall>i. i < n \<longrightarrow> unat (ks ! i) \<in> {k. k < length (PF P) \<and> pf_learnable (PF P ! k)}"
    and fr: "frame KF KA P P'"
    and h: "\<forall>k. k < length (PF P) \<and> pf_learnable (PF P ! k) \<longrightarrow> pf_self (PF P ! k) \<noteq> h"
  shows "\<forall>i. i < n \<longrightarrow> pf_self (PF P' ! unat (ks ! i)) \<noteq> h"
  using L h fr by (simp add: frame_def)

lemma self_of_learnable_ad:
  assumes L: "\<forall>i. i < n \<longrightarrow> unat (ks ! i) \<in> {k. k < length (AD P) \<and> ad_learnable (AD P ! k)}"
    and fr: "frame KF KA P P'"
    and h: "\<forall>k. k < length (AD P) \<and> ad_learnable (AD P ! k) \<longrightarrow> ad_self (AD P ! k) \<noteq> h"
  shows "\<forall>i. i < n \<longrightarrow> ad_self (AD P' ! unat (ks ! i)) \<noteq> h"
  using L h fr by (simp add: frame_def)

lemma learn_fixpoint_frame_aux:
  assumes run: "learn_fixpoint E P obs obs_counts atoms niters lst s = (r, P', s')"
    and len: "length (PF P) \<le> 65536" "length (AD P) \<le> 65536"
  shows "frame {k. k < length (PF P) \<and> pf_learnable (PF P ! k)}
               {k. k < length (AD P) \<and> ad_learnable (AD P ! k)} P P' \<and>
         ((\<forall>k. k < length (PF P) \<and> pf_learnable (PF P ! k) \<longrightarrow> pf_self (PF P ! k) \<noteq> hp)
            \<longrightarrow> py_p s' hp = py_p s hp) \<and>
         ((\<forall>k. k < length (AD P) \<and> ad_learnable (AD P ! k) \<longrightarrow> ad_self (AD P ! k) \<noteq> hP)
            \<longrightarrow> py_P s' hP = py_P s hP)"
  using run
proof (cases rule: learn_fixpoint_cases)
  case import_failed
  then show ?thesis by (simp add: frame_refl)
next
  case shape
  then show ?thesis by (simp add: frame_refl)
next
  case observations
  then show ?thesis by (simp add: frame_refl)
next
  case (indices s1)
  with init_indices_fields [OF indices(2)] show ?thesis by (simp add: frame_refl)
next
  case (not_learnable I s1)
  with init_indices_fields [OF not_learnable(2)] show ?thesis by (simp add: frame_refl)
next
  case (storage I s1)
  with init_indices_fields [OF storage(2)] show ?thesis by (simp add: frame_refl)
next
  case (solver Obs I s1 Q s2)
  note L = init_indices_learnable [OF solver(2) len]
  from frame_iterations [OF L solver(3)] iterations_world [OF solver(3)]
    init_indices_fields [OF solver(2)] solver(5)
  show ?thesis by simp
next
  case (publish Obs I s1 Q s2 s3)
  note L = init_indices_learnable [OF publish(2) len]
  note fr = frame_iterations [OF L publish(3)]
  have base: "py_p (s2\<lparr>trace := trace s2 @ [Publish]\<rparr>) = py_p s"
    "py_P (s2\<lparr>trace := trace s2 @ [Publish]\<rparr>) = py_P s"
    using iterations_world [OF publish(3)] init_indices_fields [OF publish(2)] by simp_all
  have 1: "py_p s' hp = py_p s hp"
    if "\<forall>k. k < length (PF P) \<and> pf_learnable (PF P ! k) \<longrightarrow> pf_self (PF P ! k) \<noteq> hp"
    using update_program_parameters_py_p [OF publish(4) self_of_learnable_pf [OF L(1) fr that]]
      base publish(6) by simp
  have 2: "py_P s' hP = py_P s hP"
    if "\<forall>k. k < length (AD P) \<and> ad_learnable (AD P ! k) \<longrightarrow> ad_self (AD P ! k) \<noteq> hP"
    using update_program_parameters_py_P [OF publish(4) self_of_learnable_ad [OF L(2) fr that]]
      base publish(6) by simp
  from fr 1 2 show ?thesis by blast
next
  case (completed Obs I s1 Q s2)
  note L = init_indices_learnable [OF completed(2) len]
  note fr = frame_iterations [OF L completed(3)]
  have base: "py_p (s2\<lparr>trace := trace s2 @ [Publish]\<rparr>) = py_p s"
    "py_P (s2\<lparr>trace := trace s2 @ [Publish]\<rparr>) = py_P s"
    using iterations_world [OF completed(3)] init_indices_fields [OF completed(2)] by simp_all
  have 1: "py_p s' hp = py_p s hp"
    if "\<forall>k. k < length (PF P) \<and> pf_learnable (PF P ! k) \<longrightarrow> pf_self (PF P ! k) \<noteq> hp"
    using update_program_parameters_py_p [OF completed(4) self_of_learnable_pf [OF L(1) fr that]]
      base by simp
  have 2: "py_P s' hP = py_P s hP"
    if "\<forall>k. k < length (AD P) \<and> ad_learnable (AD P ! k) \<longrightarrow> ad_self (AD P ! k) \<noteq> hP"
    using update_program_parameters_py_P [OF completed(4) self_of_learnable_ad [OF L(2) fr that]]
      base by simp
  from fr 1 2 show ?thesis by blast
qed

text \<open>
  C10 (as amended). For a program with at most 65536 facts and at most 65536
  disjunctions, whatever \<^verbatim>\<open>learn_fixpoint\<close> returns: the two collections keep their
  lengths; every fact whose learnable flag is unset and every disjunction whose
  learnable flag is unset is exactly what it was before the call; and every Python
  object that is not the \<^verbatim>\<open>self\<close> of a learnable fact keeps its attribute \<^verbatim>\<open>p\<close>,
  every Python object that is not the \<^verbatim>\<open>self\<close> of a learnable disjunction keeps its
  list \<^verbatim>\<open>P\<close>.
\<close>

theorem learn_fixpoint_frame:
  assumes "learn_fixpoint E P obs obs_counts atoms niters lstable_sat s = (r, P', s')"
    and "length (PF P) \<le> 65536" and "length (AD P) \<le> 65536"
  shows "length (PF P') = length (PF P) \<and> length (AD P') = length (AD P) \<and>
         (\<forall>k. k < length (PF P) \<and> \<not> pf_learnable (PF P ! k) \<longrightarrow> PF P' ! k = PF P ! k) \<and>
         (\<forall>k. k < length (AD P) \<and> \<not> ad_learnable (AD P ! k) \<longrightarrow> AD P' ! k = AD P ! k) \<and>
         (\<forall>h. (\<forall>k. k < length (PF P) \<and> pf_learnable (PF P ! k) \<longrightarrow> pf_self (PF P ! k) \<noteq> h)
               \<longrightarrow> py_p s' h = py_p s h) \<and>
         (\<forall>h. (\<forall>k. k < length (AD P) \<and> ad_learnable (AD P ! k) \<longrightarrow> ad_self (AD P ! k) \<noteq> h)
               \<longrightarrow> py_P s' h = py_P s h)"
proof -
  note aux = learn_fixpoint_frame_aux [OF assms]
  from aux [of 0 0] have fr: "frame {k. k < length (PF P) \<and> pf_learnable (PF P ! k)}
               {k. k < length (AD P) \<and> ad_learnable (AD P ! k)} P P'"
    by (rule conjunct1)
  have p: "\<forall>h. (\<forall>k. k < length (PF P) \<and> pf_learnable (PF P ! k) \<longrightarrow> pf_self (PF P ! k) \<noteq> h)
               \<longrightarrow> py_p s' h = py_p s h"
  proof
    fix h
    show "(\<forall>k. k < length (PF P) \<and> pf_learnable (PF P ! k) \<longrightarrow> pf_self (PF P ! k) \<noteq> h)
               \<longrightarrow> py_p s' h = py_p s h"
      using aux [of h 0] by (rule conjunct2 [THEN conjunct1])
  qed
  have q: "\<forall>h. (\<forall>k. k < length (AD P) \<and> ad_learnable (AD P ! k) \<longrightarrow> ad_self (AD P ! k) \<noteq> h)
               \<longrightarrow> py_P s' h = py_P s h"
  proof
    fix h
    show "(\<forall>k. k < length (AD P) \<and> ad_learnable (AD P ! k) \<longrightarrow> ad_self (AD P ! k) \<noteq> h)
               \<longrightarrow> py_P s' h = py_P s h"
      using aux [of 0 h] by (rule conjunct2 [THEN conjunct2])
  qed
  have l: "length (PF P') = length (PF P)" "length (AD P') = length (AD P)"
    using fr by (simp_all add: frame_def)
  have f: "\<forall>k. k < length (PF P) \<and> \<not> pf_learnable (PF P ! k) \<longrightarrow> PF P' ! k = PF P ! k"
    using fr by (simp add: frame_def)
  have a: "\<forall>k. k < length (AD P) \<and> \<not> ad_learnable (AD P ! k) \<longrightarrow> AD P' ! k = AD P ! k"
    using fr by (simp add: frame_def)
  from l f a p q show ?thesis by (intro conjI)
qed

section \<open>The scenario of the specification, evaluated\<close>

lemma upt_0_2: "[0..<2] = [0, 1]"
  by (simp add: numeral_2_eq_2)

lemma unat_4: "unat (4 :: 64 word) = 4"
  by simp

lemma init_indices_scenario:
  "init_indices always scenario_program s =
     (Some \<lparr>I_n = Suc 0, I_m = 0, I_F = (Some (nmalloc s), [0]), I_A = (None, [])\<rparr>,
      s\<lparr>live := (live s)(nmalloc s \<mapsto> 2), nmalloc := Suc (nmalloc s)\<rparr>)"
  by (simp add: init_indices_def build_index_def malloc_def always_def scenario_program_def
      sizeof_uint16_def)

lemma compute_N_scenario: "compute_N scenario_counts \<lparr>O_n = 2\<rparr> = 4"
  by (simp add: compute_N_def scenario_counts_def GETPTR1_int_def upt_0_2)

lemma learning_rule_scenario:
  "learning_rule scenario_env \<lparr>I_n = Suc 0, I_m = 0, I_F = (a, [0]), I_A = (None, [])\<rparr>
     \<lparr>O_n = 2\<rparr> scenario_counts 4 scenario_storage \<lparr>PF = [pf], AD = []\<rparr> =
   \<lparr>PF = [pf\<lparr>pf_p := 7/10\<rparr>], AD = []\<rparr>"
  by (simp add: learning_rule_def divide_parameters_def update_parameters_def
      update_observation_def reset_parameters_def for_facts_def for_disjs_def modify_pf_def
      scenario_env_def scenario_counts_def scenario_storage_def
      GETPTR1_int_def upt_0_2 unat_4)

lemma learning_rule_scenario_program:
  "learning_rule scenario_env \<lparr>I_n = Suc 0, I_m = 0, I_F = (a, [0]), I_A = (None, [])\<rparr>
     \<lparr>O_n = 2\<rparr> scenario_counts 4 scenario_storage scenario_program =
   \<lparr>PF = [\<lparr>pf_p = 7/10, pf_learnable = True, pf_self = 0\<rparr>], AD = []\<rparr>"
  by (simp add: scenario_program_def learning_rule_scenario)

lemma learn_fixpoint_scenario:
  "fst (learn_fixpoint scenario_env scenario_program scenario_obs scenario_counts scenario_atoms
          1 False world0) = True"
  "fst (snd (learn_fixpoint scenario_env scenario_program scenario_obs scenario_counts
          scenario_atoms 1 False world0)) =
     \<lparr>PF = [\<lparr>pf_p = 7/10, pf_learnable = True, pf_self = 0\<rparr>], AD = []\<rparr>"
  "py_p (snd (snd (learn_fixpoint scenario_env scenario_program scenario_obs scenario_counts
          scenario_atoms 1 False world0))) 0 = 7/10"
  "trace (snd (snd (learn_fixpoint scenario_env scenario_program scenario_obs scenario_counts
          scenario_atoms 1 False world0))) = [Solve, Reset, Accumulate, Normalize, Publish]"
proof -
  have E: "import_array_ok scenario_env" "malloc_ok scenario_env = always"
    "py_ok scenario_env = always"
    "init_observations scenario_env scenario_obs scenario_atoms = Some \<lparr>O_n = 2\<rparr>"
    "init_prob_storage_seq scenario_env = empty_storage"
    "prob_obs_reuse scenario_env = scenario_solver"
    by (simp_all add: scenario_env_def rows_of_def scenario_obs_def)
  have v: "\<not> (PyArray_NDIM scenario_obs \<noteq> 2 \<or> PyArray_NDIM scenario_counts \<noteq> 1 \<or>
       PyArray_NDIM scenario_atoms \<noteq> 1 \<or> PyArray_SIZE scenario_atoms \<noteq> dims scenario_obs ! 1 \<or>
       PyArray_SIZE scenario_counts \<noteq> dims scenario_obs ! 0)"
    by (simp add: PyArray_NDIM_def PyArray_SIZE_def scenario_obs_def scenario_counts_def
        scenario_atoms_def)
  note eq = learn_fixpoint_valid [OF E(1) v, of scenario_program 1 False world0]
  show "fst (learn_fixpoint scenario_env scenario_program scenario_obs scenario_counts scenario_atoms
          1 False world0) = True"
  "fst (snd (learn_fixpoint scenario_env scenario_program scenario_obs scenario_counts
          scenario_atoms 1 False world0)) =
     \<lparr>PF = [\<lparr>pf_p = 7/10, pf_learnable = True, pf_self = 0\<rparr>], AD = []\<rparr>"
  "py_p (snd (snd (learn_fixpoint scenario_env scenario_program scenario_obs scenario_counts
          scenario_atoms 1 False world0))) 0 = 7/10"
  "trace (snd (snd (learn_fixpoint scenario_env scenario_program scenario_obs scenario_counts
          scenario_atoms 1 False world0))) = [Solve, Reset, Accumulate, Normalize, Publish]"
    unfolding eq
    by (simp_all add: E init_indices_scenario empty_storage_def compute_N_scenario
        scenario_solver_def learning_rule_scenario_program update_program_parameters_def
        publish_fact_def py_call_def always_def world0_def)
qed



lemma learning_rule_halving:
  "learning_rule halving_env \<lparr>I_n = Suc 0, I_m = 0, I_F = (a, [0]), I_A = (None, [])\<rparr>
     \<lparr>O_n = 2\<rparr> scenario_counts 4
     [\<lparr>po_F = [(x, y)], po_A = [], po_o = 1\<rparr>, \<lparr>po_F = [(x, y)], po_A = [], po_o = 1\<rparr>]
     \<lparr>PF = [pf], AD = []\<rparr> =
   \<lparr>PF = [pf\<lparr>pf_p := y\<rparr>], AD = []\<rparr>"
  by (simp add: learning_rule_def divide_parameters_def update_parameters_def
      update_observation_def reset_parameters_def for_facts_def for_disjs_def modify_pf_def
      halving_env_def scenario_env_def scenario_counts_def
      GETPTR1_int_def upt_0_2 unat_4)

lemma halving_env_fields:
  "import_array_ok halving_env" "malloc_ok halving_env = always"
  "py_ok halving_env = always"
  "init_observations halving_env scenario_obs scenario_atoms = Some \<lparr>O_n = 2\<rparr>"
  "init_prob_storage_seq halving_env = empty_storage"
  "prob_obs_reuse halving_env = halving_solver"
  by (simp_all add: halving_env_def scenario_env_def rows_of_def scenario_obs_def)

lemma learn_fixpoint_halving:
  "fst (learn_fixpoint halving_env scenario_program scenario_obs scenario_counts scenario_atoms
          3 False world0) = True"
proof -
  note E = halving_env_fields
  have v: "\<not> (PyArray_NDIM scenario_obs \<noteq> 2 \<or> PyArray_NDIM scenario_counts \<noteq> 1 \<or>
       PyArray_NDIM scenario_atoms \<noteq> 1 \<or> PyArray_SIZE scenario_atoms \<noteq> dims scenario_obs ! 1 \<or>
       PyArray_SIZE scenario_counts \<noteq> dims scenario_obs ! 0)"
    by (simp add: PyArray_NDIM_def PyArray_SIZE_def scenario_obs_def scenario_counts_def
        scenario_atoms_def)
  note eq = learn_fixpoint_valid [OF E(1) v, of scenario_program 3 False world0]
  show ?thesis
    unfolding eq
    apply (simp only: E init_indices_scenario)
    apply (simp add: E empty_storage_def compute_N_scenario scenario_program_def
        halving_solver_def learning_rule_halving
        update_program_parameters_def publish_fact_def py_call_def always_def world0_def
        numeral_3_eq_3)
    done
qed

theorem learn_fixpoint_passes_witness:
  "fst (learn_fixpoint halving_env scenario_program scenario_obs scenario_counts scenario_atoms
          3 False world0) = True \<and>
   fst (snd (learn_fixpoint halving_env scenario_program scenario_obs scenario_counts
          scenario_atoms 3 False world0)) =
     \<lparr>PF = [\<lparr>pf_p = 1/16, pf_learnable = True, pf_self = 0\<rparr>], AD = []\<rparr> \<and>
   trace (snd (snd (learn_fixpoint halving_env scenario_program scenario_obs scenario_counts
          scenario_atoms 3 False world0))) =
     [Solve, Reset, Accumulate, Normalize, Solve, Reset, Accumulate, Normalize,
      Solve, Reset, Accumulate, Normalize, Publish] \<and>
   nsolve (snd (snd (learn_fixpoint halving_env scenario_program scenario_obs scenario_counts
          scenario_atoms 3 False world0))) = 3"
proof -
  let ?r = "learn_fixpoint halving_env scenario_program scenario_obs scenario_counts
      scenario_atoms 3 False world0"
  let ?I = "\<lparr>I_n = Suc 0, I_m = 0, I_F = (Some 0, [0]), I_A = (None, [])\<rparr>"
  have run: "?r = (True, fst (snd ?r), snd (snd ?r))"
    using learn_fixpoint_halving by (simp add: prod_eq_iff)
  note th = learn_fixpoint_passes [OF run]
  from th obtain I s1 Obs Ps Qs where
    ii: "init_indices (malloc_ok halving_env) scenario_program world0 = (Some I, s1)" and
    ob: "init_observations halving_env scenario_obs scenario_atoms = Some Obs" and
    p0: "Ps ! 0 = scenario_program" and
    fp: "full_passes halving_env I Obs scenario_counts False (compute_N scenario_counts Obs) 3
           (nsolve world0) Ps Qs" and
    res: "fst (snd ?r) = Ps ! 3"
    by blast
  from ii have I: "I = ?I"
    by (simp add: halving_env_fields init_indices_scenario world0_def)
  from ob have Obs: "Obs = \<lparr>O_n = 2\<rparr>"
    by (simp add: halving_env_fields)
  from fp have step: "\<And>j. j < 3 \<Longrightarrow>
       halving_solver j (Ps ! j) \<lparr>O_n = 2\<rparr> False (Qs ! j) = Some (Qs ! Suc j) \<and>
       Ps ! Suc j = learning_rule halving_env ?I \<lparr>O_n = 2\<rparr> scenario_counts 4 (Qs ! Suc j) (Ps ! j)"
    by (simp add: full_passes_def I Obs compute_N_scenario halving_env_fields learning_rule_def
        world0_def)
  from step [of 0] p0 have q1: "Qs ! Suc 0 =
      [\<lparr>po_F = [(3/4, 1/4)], po_A = [], po_o = 1\<rparr>, \<lparr>po_F = [(3/4, 1/4)], po_A = [], po_o = 1\<rparr>]"
    by (auto simp add: halving_solver_def scenario_program_def)
  from step [of 0] p0 have p1:
    "Ps ! Suc 0 = \<lparr>PF = [\<lparr>pf_p = 1/4, pf_learnable = True, pf_self = 0\<rparr>], AD = []\<rparr>"
    unfolding q1 by (simp add: scenario_program_def learning_rule_halving)
  from step [of "Suc 0"] p1 have q2: "Qs ! Suc (Suc 0) =
      [\<lparr>po_F = [(7/8, 1/8)], po_A = [], po_o = 1\<rparr>, \<lparr>po_F = [(7/8, 1/8)], po_A = [], po_o = 1\<rparr>]"
    by (auto simp add: halving_solver_def)
  from step [of "Suc 0"] p1 have p2:
    "Ps ! Suc (Suc 0) = \<lparr>PF = [\<lparr>pf_p = 1/8, pf_learnable = True, pf_self = 0\<rparr>], AD = []\<rparr>"
    unfolding q2 by (simp add: learning_rule_halving)
  from step [of "Suc (Suc 0)"] p2 have q3: "Qs ! Suc (Suc (Suc 0)) =
      [\<lparr>po_F = [(15/16, 1/16)], po_A = [], po_o = 1\<rparr>, \<lparr>po_F = [(15/16, 1/16)], po_A = [], po_o = 1\<rparr>]"
    by (auto simp add: halving_solver_def numeral_3_eq_3)
  from step [of "Suc (Suc 0)"] p2 have p3:
    "Ps ! 3 = \<lparr>PF = [\<lparr>pf_p = 1/16, pf_learnable = True, pf_self = 0\<rparr>], AD = []\<rparr>"
    unfolding q3 by (simp add: learning_rule_halving numeral_3_eq_3)
  from th have tr: "nsolve (snd (snd ?r)) = 3"
    "trace (snd (snd ?r)) =
       [Solve, Reset, Accumulate, Normalize, Solve, Reset, Accumulate, Normalize,
        Solve, Reset, Accumulate, Normalize, Publish]"
    by (simp_all add: world0_def numeral_3_eq_3)
  from learn_fixpoint_halving res p3 tr show ?thesis by simp
qed

section \<open>Failure and the published values\<close>

lemma learn_fixpoint_failure_py:
  assumes run: "learn_fixpoint E P obs obs_counts atoms niters lst s = (False, P', s')"
    and np: "\<nexists>r. raised s' = r @ [(PyExc_AttributeError, ''could not update program parameters!'')]"
  shows "py_p s' = py_p s \<and> py_P s' = py_P s"
  using run
proof (cases rule: learn_fixpoint_cases)
  case import_failed
  then show ?thesis by simp
next
  case shape
  then show ?thesis by simp
next
  case observations
  then show ?thesis by simp
next
  case (indices s1)
  with init_indices_fields [OF indices(2)] show ?thesis by simp
next
  case (not_learnable I s1)
  with init_indices_fields [OF not_learnable(2)] show ?thesis by simp
next
  case (storage I s1)
  with init_indices_fields [OF storage(2)] show ?thesis by simp
next
  case (solver Obs I s1 Q s2)
  with iterations_world [OF solver(3)] init_indices_fields [OF solver(2)]
  show ?thesis by simp
next
  case (publish Obs I s1 Q s2 s3)
  from publish(6) have
    "raised s' = raised s3 @ [(PyExc_AttributeError, ''could not update program parameters!'')]"
    by simp
  with np show ?thesis by blast
next
  case (completed Obs I s1 Q s2)
  then show ?thesis by simp
qed

text \<open>
  C4 (as amended). Whenever \<^verbatim>\<open>learn_fixpoint\<close> returns false and the failure is not
  that of the publishing step (the last error raised is not "could not update program
  parameters!": the failure came from the validation, the initialization or the
  inference primitive), no Python-side value has been changed: the attribute \<^verbatim>\<open>p\<close> of
  every fact object and the list \<^verbatim>\<open>P\<close> of every disjunction object are what they
  were before the call.
\<close>

theorem failure_before_publish:
  assumes "learn_fixpoint E P obs obs_counts atoms niters lstable_sat s = (False, P', s')"
    and "\<nexists>r. raised s' = r @ [(PyExc_AttributeError, ''could not update program parameters!'')]"
  shows "py_p s' = py_p s \<and> py_P s' = py_P s"
  using learn_fixpoint_failure_py [OF assms] .

lemma scenario_valid:
  "\<not> (PyArray_NDIM scenario_obs \<noteq> 2 \<or> PyArray_NDIM scenario_counts \<noteq> 1 \<or>
       PyArray_NDIM scenario_atoms \<noteq> 1 \<or> PyArray_SIZE scenario_atoms \<noteq> dims scenario_obs ! 1 \<or>
       PyArray_SIZE scenario_counts \<noteq> dims scenario_obs ! 0)"
  by (simp add: PyArray_NDIM_def PyArray_SIZE_def scenario_obs_def scenario_counts_def
      scenario_atoms_def)

lemma learn_fixpoint_stalled:
  "fst (learn_fixpoint stalled_env scenario_program scenario_obs scenario_counts scenario_atoms
          1 False world0) = False"
  "raised (snd (snd (learn_fixpoint stalled_env scenario_program scenario_obs scenario_counts
          scenario_atoms 1 False world0))) = []"
proof -
  have E: "import_array_ok stalled_env" "malloc_ok stalled_env = always"
    "init_observations stalled_env scenario_obs scenario_atoms = Some \<lparr>O_n = 2\<rparr>"
    "init_prob_storage_seq stalled_env = empty_storage"
    "prob_obs_reuse stalled_env = no_solver"
    by (simp_all add: stalled_env_def scenario_env_def rows_of_def scenario_obs_def)
  note eq = learn_fixpoint_valid [OF E(1) scenario_valid, of scenario_program 1 False world0]
  show "fst (learn_fixpoint stalled_env scenario_program scenario_obs scenario_counts scenario_atoms
          1 False world0) = False"
    "raised (snd (snd (learn_fixpoint stalled_env scenario_program scenario_obs scenario_counts
          scenario_atoms 1 False world0))) = []"
    unfolding eq
    by (simp_all add: E init_indices_scenario empty_storage_def no_solver_def
        learn_fixpoint_cleanup_def world0_def)
qed

theorem failure_before_publish_witness:
  "fst (learn_fixpoint stalled_env scenario_program scenario_obs scenario_counts scenario_atoms
          1 False world0) = False \<and>
   raised (snd (snd (learn_fixpoint stalled_env scenario_program scenario_obs scenario_counts
          scenario_atoms 1 False world0))) = [] \<and>
   py_p (snd (snd (learn_fixpoint stalled_env scenario_program scenario_obs scenario_counts
          scenario_atoms 1 False world0))) = py_p world0 \<and>
   py_P (snd (snd (learn_fixpoint stalled_env scenario_program scenario_obs scenario_counts
          scenario_atoms 1 False world0))) = py_P world0"
proof -
  have run: "learn_fixpoint stalled_env scenario_program scenario_obs scenario_counts
      scenario_atoms 1 False world0 =
    (False, fst (snd (learn_fixpoint stalled_env scenario_program scenario_obs scenario_counts
          scenario_atoms 1 False world0)),
     snd (snd (learn_fixpoint stalled_env scenario_program scenario_obs scenario_counts
          scenario_atoms 1 False world0)))"
    using learn_fixpoint_stalled(1) by (simp add: prod_eq_iff)
  have np: "\<nexists>r. raised (snd (snd (learn_fixpoint stalled_env scenario_program scenario_obs
      scenario_counts scenario_atoms 1 False world0))) =
        r @ [(PyExc_AttributeError, ''could not update program parameters!'')]"
    unfolding learn_fixpoint_stalled(2) by simp
  from failure_before_publish [OF run np] have
    "py_p (snd (snd (learn_fixpoint stalled_env scenario_program scenario_obs scenario_counts
          scenario_atoms 1 False world0))) = py_p world0 \<and>
     py_P (snd (snd (learn_fixpoint stalled_env scenario_program scenario_obs scenario_counts
          scenario_atoms 1 False world0))) = py_P world0" .
  with learn_fixpoint_stalled show ?thesis by (intro conjI) blast+
qed

lemma init_indices_two_fact:
  "init_indices always two_fact_program s =
     (Some \<lparr>I_n = Suc (Suc 0), I_m = 0, I_F = (Some (nmalloc s), [0, 1]), I_A = (None, [])\<rparr>,
      s\<lparr>live := (live s)(nmalloc s \<mapsto> 4), nmalloc := Suc (nmalloc s)\<rparr>)"
  by (simp add: init_indices_def build_index_def malloc_def always_def two_fact_program_def
      sizeof_uint16_def)

lemma learning_rule_two_fact:
  "learning_rule E0 \<lparr>I_n = Suc (Suc 0), I_m = 0, I_F = (a, [0, 1]), I_A = (None, [])\<rparr>
     \<lparr>O_n = 2\<rparr> scenario_counts 4 two_fact_storage two_fact_program =
   \<lparr>PF = [\<lparr>pf_p = 7/10, pf_learnable = True, pf_self = 0\<rparr>,
          \<lparr>pf_p = 1/2, pf_learnable = True, pf_self = 1\<rparr>], AD = []\<rparr>"
  if "double_of_int E0 = of_int" "double_of_size E0 = of_nat"
  using that
  by (simp add: learning_rule_def divide_parameters_def update_parameters_def
      update_observation_def reset_parameters_def for_facts_def for_disjs_def modify_pf_def
      scenario_counts_def two_fact_storage_def two_fact_program_def
      GETPTR1_int_def upt_0_2 unat_4)

text \<open>
  C4 as stated fails when the publishing step fails after its first write: with two
  learnable facts and a failure of \<^verbatim>\<open>PyObject_SetAttrString\<close> for the second one,
  \<^verbatim>\<open>learn_fixpoint\<close> returns false, and the Python-side probability of the first fact,
  0 before the call, is 0.7 after it.
\<close>

theorem failure_before_publish_counterexample:
  "fst (learn_fixpoint publish_failing_env two_fact_program scenario_obs scenario_counts
          scenario_atoms 1 False world0) = False \<and>
   py_p world0 0 = 0 \<and>
   py_p (snd (snd (learn_fixpoint publish_failing_env two_fact_program scenario_obs
          scenario_counts scenario_atoms 1 False world0))) 0 = 7/10"
proof -
  have E: "import_array_ok publish_failing_env" "malloc_ok publish_failing_env = always"
    "py_ok publish_failing_env = all_but 3"
    "init_observations publish_failing_env scenario_obs scenario_atoms = Some \<lparr>O_n = 2\<rparr>"
    "init_prob_storage_seq publish_failing_env = empty_storage"
    "prob_obs_reuse publish_failing_env = two_fact_solver"
    "double_of_int publish_failing_env = of_int" "double_of_size publish_failing_env = of_nat"
    by (simp_all add: publish_failing_env_def scenario_env_def rows_of_def scenario_obs_def)
  note eq = learn_fixpoint_valid [OF E(1) scenario_valid, of two_fact_program 1 False world0]
  note lr = learning_rule_two_fact [OF E(7,8)]
  have "fst (learn_fixpoint publish_failing_env two_fact_program scenario_obs scenario_counts
          scenario_atoms 1 False world0) = False"
    and "py_p (snd (snd (learn_fixpoint publish_failing_env two_fact_program scenario_obs
          scenario_counts scenario_atoms 1 False world0))) 0 = 7/10"
    unfolding eq
    by (simp_all add: E init_indices_two_fact empty_storage_def compute_N_scenario
        two_fact_solver_def lr update_program_parameters_def upt_0_2
        publish_fact_def py_call_def all_but_def world0_def learn_fixpoint_cleanup_def
        free_indices_contents_def free_def PyErr_SetString_def)
  then show ?thesis by (simp add: world0_def)
qed

section \<open>The value written by one pass\<close>

lemma modify_pf_AD [simp]: "AD (modify_pf k f P) = AD P"
  by (simp add: modify_pf_def)

lemma modify_pf_length [simp]: "length (PF (modify_pf k f P)) = length (PF P)"
  by (simp add: modify_pf_def)

lemma modify_pf_other: "j \<noteq> k \<Longrightarrow> PF (modify_pf k f P) ! j = PF P ! j"
  by (simp add: modify_pf_def)

lemma modify_pf_same:
  "k < length (PF P) \<Longrightarrow> pf_p (PF (modify_pf k f P) ! k) = f (pf_p (PF P ! k))"
  by (simp add: modify_pf_def)

lemma modify_ad_PF [simp]: "PF (modify_ad k j f P) = PF P"
  by (simp add: modify_ad_def)

lemma fold_PF:
  assumes "\<And>i P. PF (step i P) = PF P"
  shows "PF (fold step is P) = PF P"
  by (induction "is" arbitrary: P) (simp_all add: assms)

lemma for_disjs_PF [simp]: "PF (for_disjs I g P) = PF P"
  unfolding for_disjs_def Let_def
  by (rule fold_PF) (rule fold_PF, simp)

text \<open>The loop over the fact index array, cut after \<open>n\<close> rounds.\<close>

lemma facts_loop_Suc:
  "fold (\<lambda>i P. modify_pf (unat (ks ! i)) (g i) P) [0..<Suc n] P =
     modify_pf (unat (ks ! n)) (g n) (fold (\<lambda>i P. modify_pf (unat (ks ! i)) (g i) P) [0..<n] P)"
  by simp

lemma facts_loop_length:
  "length (PF (fold (\<lambda>i P. modify_pf (unat (ks ! i)) (g i) P) [0..<n] P)) = length (PF P)"
  by (induction n) (simp_all del: upt_Suc add: facts_loop_Suc)

lemma facts_loop_other:
  assumes "\<forall>j. j < n \<longrightarrow> unat (ks ! j) \<noteq> k"
  shows "PF (fold (\<lambda>i P. modify_pf (unat (ks ! i)) (g i) P) [0..<n] P) ! k = PF P ! k"
  using assms
proof (induction n)
  case 0
  then show ?case by simp
next
  case (Suc n)
  from Suc.prems have ne: "k \<noteq> unat (ks ! n)" by auto
  from Suc.prems have "\<forall>j. j < n \<longrightarrow> unat (ks ! j) \<noteq> k" by simp
  from Suc.IH [OF this] ne show ?case
    by (simp del: upt_Suc add: facts_loop_Suc modify_pf_other)
qed

lemma facts_loop_same:
  assumes d: "distinct (map unat ks)" and n: "n \<le> length ks" and i: "i < n"
    and r: "unat (ks ! i) < length (PF P)"
  shows "pf_p (PF (fold (\<lambda>i P. modify_pf (unat (ks ! i)) (g i) P) [0..<n] P) ! unat (ks ! i)) =
           g i (pf_p (PF P ! unat (ks ! i)))"
  using n i
proof (induction n)
  case 0
  then show ?case by simp
next
  case (Suc n)
  have neq: "unat (ks ! a) \<noteq> unat (ks ! b)" if "a < length ks" "b < length ks" "a \<noteq> b" for a b
  proof -
    have "(map unat ks ! a = map unat ks ! b) = (a = b)"
      using d that by (intro nth_eq_iff_index_eq) simp_all
    with that show ?thesis by simp
  qed
  show ?case
  proof (cases "i = n")
    case True
    have "\<forall>j. j < n \<longrightarrow> unat (ks ! j) \<noteq> unat (ks ! n)"
      using neq Suc.prems(1) by auto
    from facts_loop_other [OF this, of g P]
    have same: "PF (fold (\<lambda>i P. modify_pf (unat (ks ! i)) (g i) P) [0..<n] P) ! unat (ks ! n) =
                PF P ! unat (ks ! n)" .
    have len: "unat (ks ! n) <
        length (PF (fold (\<lambda>i P. modify_pf (unat (ks ! i)) (g i) P) [0..<n] P))"
      using r True by (simp add: facts_loop_length)
    show ?thesis
      unfolding facts_loop_Suc True
      by (simp only: modify_pf_same [OF len] same)
  next
    case False
    with Suc.prems have i: "i < n" and n: "n \<le> length ks" by simp_all
    from neq [of i n] i Suc.prems(1) have "unat (ks ! i) \<noteq> unat (ks ! n)" by simp
    with Suc.IH [OF n i] show ?thesis
      by (simp del: upt_Suc add: facts_loop_Suc modify_pf_other)
  qed
qed

text \<open>An index set as \<^verbatim>\<open>init_indices\<close> builds it for a program with \<open>len\<close> facts.\<close>

lemma for_facts_same:
  assumes "distinct (map unat (snd (I_F I)))" and "I_n I = length (snd (I_F I))"
    and "i < I_n I" and "unat (snd (I_F I) ! i) < length (PF P)"
  shows "pf_p (PF (for_facts I g P) ! unat (snd (I_F I) ! i)) =
           g i (pf_p (PF P ! unat (snd (I_F I) ! i)))"
  unfolding for_facts_def
  using facts_loop_same [OF assms(1) _ assms(3,4), of g] assms(2) by simp

lemma for_facts_length [simp]: "length (PF (for_facts I g P)) = length (PF P)"
  unfolding for_facts_def by (rule facts_loop_length)

lemma update_parameters_Suc:
  "update_parameters E I \<lparr>O_n = Suc n\<rparr> obs_counts Q P =
     update_observation E I obs_counts Q n (update_parameters E I \<lparr>O_n = n\<rparr> obs_counts Q P)"
  by (simp add: update_parameters_def)

lemma update_observation_length [simp]:
  "length (PF (update_observation E I obs_counts Q i_o P)) = length (PF P)"
  by (simp add: update_observation_def Let_def)

lemma update_parameters_length:
  "length (PF (update_parameters E I \<lparr>O_n = n\<rparr> obs_counts Q P)) = length (PF P)"
  by (induction n) (simp_all add: update_parameters_Suc, simp add: update_parameters_def)

lemma update_parameters_same:
  fixes E :: "'a::{plus,times,inverse} env"
  assumes d: "distinct (map unat (snd (I_F I)))" and l: "I_n I = length (snd (I_F I))"
    and i: "i < I_n I" and r: "unat (snd (I_F I) ! i) < length (PF P)"
  shows "pf_p (PF (update_parameters E I \<lparr>O_n = n\<rparr> obs_counts Q P) ! unat (snd (I_F I) ! i)) =
           fold (\<lambda>i_o acc. acc + double_of_int E (sint (GETPTR1_int obs_counts i_o)) *
                                   (snd (po_F (Q ! i_o) ! i) / po_o (Q ! i_o)))
             [0..<n] (pf_p (PF P ! unat (snd (I_F I) ! i)))"
proof (induction n)
  case 0
  show ?case by (simp add: update_parameters_def)
next
  case (Suc n)
  let ?P = "update_parameters E I \<lparr>O_n = n\<rparr> obs_counts Q P"
  have r': "unat (snd (I_F I) ! i) < length (PF ?P)"
    using r by (simp add: update_parameters_length)
  have "pf_p (PF (update_observation E I obs_counts Q n ?P) ! unat (snd (I_F I) ! i)) =
          pf_p (PF ?P ! unat (snd (I_F I) ! i)) +
          double_of_int E (sint (GETPTR1_int obs_counts n)) *
            (snd (po_F (Q ! n) ! i) / po_o (Q ! n))"
    unfolding update_observation_def Let_def for_disjs_PF
    by (rule for_facts_same [OF d l i r'])
  then show ?case
    by (simp only: update_parameters_Suc Suc.IH upt_Suc_append [OF le0] fold_append o_apply
        fold_simps)
qed

lemma init_indices_facts:
  assumes ii: "init_indices ok P s = (Some I, s')" and len: "length (PF P) \<le> 65536"
  shows "map unat (snd (I_F I)) = filter (\<lambda>i. pf_learnable (PF P ! i)) [0..<length (PF P)]"
    and "I_n I = length (snd (I_F I))"
    and "distinct (map unat (snd (I_F I)))"
proof -
  note S = init_indices_Some [OF ii]
  show F: "map unat (snd (I_F I)) = filter (\<lambda>i. pf_learnable (PF P ! i)) [0..<length (PF P)]"
    using S unat_u16_positions [OF len, of pf_learnable] by (simp add: positions_filter)
  show "I_n I = length (snd (I_F I))"
    using S by (simp add: length_positions)
  show "distinct (map unat (snd (I_F I)))"
    unfolding F by simp
qed

lemma compute_N_sum:
  "compute_N obs_counts Obs = word_of_int (\<Sum>i_o<O_n Obs. sint (GETPTR1_int obs_counts i_o))"
proof -
  have "fold (\<lambda>i N. N + word_of_int (c i)) [0..<n] (0 :: 64 word) = word_of_int (\<Sum>i<n. c i)"
    for c :: "nat \<Rightarrow> int" and n
    by (induction n) simp_all
  then show ?thesis unfolding compute_N_def .
qed

lemma learning_rule_same:
  fixes E :: "'a::{zero,plus,times,inverse} env"
  assumes d: "distinct (map unat (snd (I_F I)))" and l: "I_n I = length (snd (I_F I))"
    and i: "i < I_n I" and r: "unat (snd (I_F I) ! i) < length (PF P)"
  shows "pf_p (PF (learning_rule E I Obs obs_counts N Q P) ! unat (snd (I_F I) ! i)) =
           fold (\<lambda>i_o acc. acc + double_of_int E (sint (GETPTR1_int obs_counts i_o)) *
                                   (snd (po_F (Q ! i_o) ! i) / po_o (Q ! i_o)))
             [0..<O_n Obs] 0
           / double_of_size E (unat N)"
proof -
  let ?k = "unat (snd (I_F I) ! i)"
  let ?R = "reset_parameters I P"
  let ?U = "update_parameters E I \<lparr>O_n = O_n Obs\<rparr> obs_counts Q ?R"
  have U: "update_parameters E I Obs obs_counts Q ?R = ?U"
    by (simp add: update_parameters_def)
  have lenR: "length (PF ?R) = length (PF P)"
    by (simp add: reset_parameters_def)
  have valR: "pf_p (PF ?R ! ?k) = 0"
    unfolding reset_parameters_def for_disjs_PF
    by (rule for_facts_same [OF d l i r])
  have rR: "?k < length (PF ?R)" using r lenR by simp
  have lenU: "length (PF ?U) = length (PF P)"
    by (simp add: update_parameters_length lenR)
  have valU: "pf_p (PF ?U ! ?k) =
           fold (\<lambda>i_o acc. acc + double_of_int E (sint (GETPTR1_int obs_counts i_o)) *
                                   (snd (po_F (Q ! i_o) ! i) / po_o (Q ! i_o)))
             [0..<O_n Obs] 0"
    using update_parameters_same [OF d l i rR, of E "O_n Obs" obs_counts Q] valR
    by (simp only:)
  have rU: "?k < length (PF ?U)" using r lenU by simp
  have "pf_p (PF (divide_parameters E I N ?U) ! ?k) = pf_p (PF ?U ! ?k) / double_of_size E (unat N)"
    unfolding divide_parameters_def for_disjs_PF
    by (rule for_facts_same [OF d l i rU])
  then show ?thesis
    by (simp only: learning_rule_def U valU)
qed

text \<open>
  C1 (as amended). In a program with at most 65536 facts, every learnable fact has a
  position \<open>i\<close> in the fact index array, and one pass of the loop body (reset,
  accumulation over the observations, division) leaves in its probability the sum,
  taken over the observations \<open>o\<close> in order and starting from 0, of
  \<open>c\<^sub>o * (P(t=i,O) / P(O))\<close>, divided by \<open>N\<close>; \<open>N\<close> is the sum of the repeat counts
  as a 64-bit unsigned integer. The arithmetic is that of the parameter type: nothing is
  assumed about \<open>+\<close>, \<open>*\<close> and \<open>/\<close>. In the scenario of the specification (counts 3
  and 1, \<open>P(t=1,O)\<close> 0.9 and 0.1, \<open>P(O) = 1\<close>) and with exact arithmetic the value is
  \<open>(3 * 0.9 + 1 * 0.1) / 4 = 0.7\<close>.
\<close>

theorem learning_rule_fact:
  fixes E :: "'a::{zero,plus,times,inverse} env"
  assumes "init_indices ok P s = (Some I, s')"
    and "length (PF P) \<le> 65536"
    and "length (PF P0) = length (PF P)"
    and "k < length (PF P)" and "pf_learnable (PF P ! k)"
  shows "(\<exists>i. i < I_n I \<and> unat (snd (I_F I) ! i) = k \<and>
            pf_p (PF (learning_rule E I Obs obs_counts (compute_N obs_counts Obs) Q P0) ! k) =
              fold (\<lambda>i_o acc. acc + double_of_int E (sint (GETPTR1_int obs_counts i_o)) *
                                      (snd (po_F (Q ! i_o) ! i) / po_o (Q ! i_o)))
                [0..<O_n Obs] 0
              / double_of_size E (unat (compute_N obs_counts Obs))) \<and>
         compute_N obs_counts Obs =
           word_of_int (\<Sum>i_o<O_n Obs. sint (GETPTR1_int obs_counts i_o))"
proof -
  note F = init_indices_facts [OF assms(1,2)]
  from assms(4,5) have "k \<in> set (map unat (snd (I_F I)))"
    unfolding F(1) by simp
  then obtain i where i: "i < length (map unat (snd (I_F I)))"
    and ki: "map unat (snd (I_F I)) ! i = k"
    by (auto simp: in_set_conv_nth)
  from i have i': "i < I_n I" by (simp add: F(2))
  from i ki have k: "unat (snd (I_F I) ! i) = k" by simp
  have r: "unat (snd (I_F I) ! i) < length (PF P0)"
    using k assms(3,4) by simp
  from learning_rule_same [OF F(3) F(2) i' r, of E Obs obs_counts "compute_N obs_counts Obs" Q]
  have "pf_p (PF (learning_rule E I Obs obs_counts (compute_N obs_counts Obs) Q P0) ! k) =
              fold (\<lambda>i_o acc. acc + double_of_int E (sint (GETPTR1_int obs_counts i_o)) *
                                      (snd (po_F (Q ! i_o) ! i) / po_o (Q ! i_o)))
                [0..<O_n Obs] 0
              / double_of_size E (unat (compute_N obs_counts Obs))"
    by (simp only: k)
  with i' k compute_N_sum [of obs_counts Obs] show ?thesis by blast
qed

section \<open>The scenario in longer programs\<close>

theorem learning_rule_fact_witness:
  "fst (init_indices always scenario_program world0) =
     Some \<lparr>I_n = 1, I_m = 0, I_F = (Some 0, [0]), I_A = (None, [])\<rparr> \<and>
   length (PF scenario_program) \<le> 65536 \<and>
   pf_learnable (PF scenario_program ! 0) \<and>
   compute_N scenario_counts \<lparr>O_n = 2\<rparr> = 4 \<and>
   pf_p (PF (learning_rule scenario_env \<lparr>I_n = 1, I_m = 0, I_F = (Some 0, [0]), I_A = (None, [])\<rparr>
               \<lparr>O_n = 2\<rparr> scenario_counts (compute_N scenario_counts \<lparr>O_n = 2\<rparr>)
               scenario_storage scenario_program) ! 0) = 7/10"
proof -
  let ?I = "\<lparr>I_n = 1, I_m = 0, I_F = (Some 0, [0]), I_A = (None, [])\<rparr>"
  have f: "fst (init_indices always scenario_program world0) = Some ?I"
    by (simp add: init_indices_scenario world0_def)
  then have run: "init_indices always scenario_program world0 =
      (Some ?I, snd (init_indices always scenario_program world0))"
    by (simp add: prod_eq_iff)
  have len: "length (PF scenario_program) \<le> 65536" and k: "0 < length (PF scenario_program)"
    and l: "pf_learnable (PF scenario_program ! 0)"
    by (simp_all add: scenario_program_def)
  from learning_rule_fact [OF run len refl k l, of scenario_env "\<lparr>O_n = 2\<rparr>" scenario_counts
      scenario_storage]
  obtain i where i: "i < I_n ?I"
    and v: "pf_p (PF (learning_rule scenario_env ?I \<lparr>O_n = 2\<rparr> scenario_counts
                 (compute_N scenario_counts \<lparr>O_n = 2\<rparr>) scenario_storage scenario_program) ! 0) =
              fold (\<lambda>i_o acc. acc + double_of_int scenario_env (sint (GETPTR1_int scenario_counts i_o)) *
                      (snd (po_F (scenario_storage ! i_o) ! i) / po_o (scenario_storage ! i_o)))
                [0..<O_n \<lparr>O_n = 2\<rparr>] 0
              / double_of_size scenario_env (unat (compute_N scenario_counts \<lparr>O_n = 2\<rparr>))"
    by blast
  from i have i0: "i = 0" by simp
  have "fold (\<lambda>i_o acc. acc + double_of_int scenario_env (sint (GETPTR1_int scenario_counts i_o)) *
                      (snd (po_F (scenario_storage ! i_o) ! 0) / po_o (scenario_storage ! i_o)))
                [0..<O_n \<lparr>O_n = 2\<rparr>] 0
              / double_of_size scenario_env (unat (compute_N scenario_counts \<lparr>O_n = 2\<rparr>)) = 7/10"
    unfolding compute_N_scenario
    by (simp add: unat_4 upt_0_2 scenario_env_def scenario_counts_def
        scenario_storage_def GETPTR1_int_def)
  with v i0 have "pf_p (PF (learning_rule scenario_env ?I \<lparr>O_n = 2\<rparr> scenario_counts
                 (compute_N scenario_counts \<lparr>O_n = 2\<rparr>) scenario_storage scenario_program) ! 0) = 7/10"
    by (simp only:)
  with f len l compute_N_scenario show ?thesis by (intro conjI)
qed

lemma long_program_0: "0 < k \<Longrightarrow> PF (long_program k) ! 0 = fixed_fact"
  by (simp add: long_program_def nth_append)

lemma long_program_last: "PF (long_program k) ! k = free_fact"
  by (simp add: long_program_def nth_append)

lemma learning_rule_long:
  assumes "0 < k"
  shows "learning_rule scenario_env \<lparr>I_n = Suc 0, I_m = 0, I_F = (a, [0]), I_A = (None, [])\<rparr>
     \<lparr>O_n = 2\<rparr> scenario_counts 4 scenario_storage (long_program k) =
   \<lparr>PF = (replicate k fixed_fact)[0 := fixed_fact\<lparr>pf_p := 7/10\<rparr>] @ [free_fact], AD = []\<rparr>"
  using assms
  by (simp add: learning_rule_def divide_parameters_def update_parameters_def
      update_observation_def reset_parameters_def for_facts_def for_disjs_def modify_pf_def
      scenario_env_def scenario_counts_def scenario_storage_def long_program_def
      GETPTR1_int_def upt_0_2 unat_4 nth_append list_update_append)

text \<open>
  C1 as stated fails for a program with 65537 facts of which only the last one, at
  position 65536, is learnable: one pass in the scenario of the specification leaves
  the probability of that fact at 0.5, where the learning rule gives
  \<open>(3 * 0.9 + 1 * 0.1) / 4 = 0.7\<close>.
\<close>

theorem learning_rule_fact_counterexample:
  "fst (init_indices always (long_program 65536) world0) =
     Some \<lparr>I_n = 1, I_m = 0, I_F = (Some 0, [0]), I_A = (None, [])\<rparr> \<and>
   pf_learnable (PF (long_program 65536) ! 65536) \<and>
   compute_N scenario_counts \<lparr>O_n = 2\<rparr> = 4 \<and>
   pf_p (PF (learning_rule scenario_env \<lparr>I_n = 1, I_m = 0, I_F = (Some 0, [0]), I_A = (None, [])\<rparr>
               \<lparr>O_n = 2\<rparr> scenario_counts (compute_N scenario_counts \<lparr>O_n = 2\<rparr>)
               scenario_storage (long_program 65536)) ! 65536) = 1/2 \<and>
   (0 + 3 * (9/10 / 1) + 1 * (1/10 / 1)) / 4 = (7/10 :: real)"
proof -
  have w: "(of_nat 65536 :: u16) = 0" by simp
  have f: "fst (init_indices always (long_program 65536) world0) =
     Some \<lparr>I_n = 1, I_m = 0, I_F = (Some 0, [0]), I_A = (None, [])\<rparr>"
    using init_indices_long_program [of 65536 world0] w by (simp add: world0_def)
  have l: "pf_learnable (PF (long_program 65536) ! 65536)"
    using long_program_nth [of 65536] by simp
  have lr: "learning_rule scenario_env \<lparr>I_n = 1, I_m = 0, I_F = (Some 0, [0]), I_A = (None, [])\<rparr>
               \<lparr>O_n = 2\<rparr> scenario_counts (compute_N scenario_counts \<lparr>O_n = 2\<rparr>)
               scenario_storage (long_program 65536) =
     \<lparr>PF = (replicate 65536 fixed_fact)[0 := fixed_fact\<lparr>pf_p := 7/10\<rparr>] @ [free_fact], AD = []\<rparr>"
    using learning_rule_long [of 65536 "Some 0"] by (simp add: compute_N_scenario)
  have v: "pf_p (PF (learning_rule scenario_env \<lparr>I_n = 1, I_m = 0, I_F = (Some 0, [0]), I_A = (None, [])\<rparr>
               \<lparr>O_n = 2\<rparr> scenario_counts (compute_N scenario_counts \<lparr>O_n = 2\<rparr>)
               scenario_storage (long_program 65536)) ! 65536) = 1/2"
    unfolding lr by (simp add: nth_append free_fact_def)
  from f l compute_N_scenario v show ?thesis by simp
qed

lemma scenario_env_fields:
  "import_array_ok scenario_env" "malloc_ok scenario_env = always"
  "py_ok scenario_env = always"
  "init_observations scenario_env scenario_obs scenario_atoms = Some \<lparr>O_n = 2\<rparr>"
  "init_prob_storage_seq scenario_env = empty_storage"
  "prob_obs_reuse scenario_env = scenario_solver"
  by (simp_all add: scenario_env_def rows_of_def scenario_obs_def)

lemma learn_fixpoint_long:
  assumes k: "0 < k" and w: "(of_nat k :: u16) = 0"
  shows "fst (learn_fixpoint scenario_env (long_program k) scenario_obs scenario_counts
            scenario_atoms 1 False world0) = True"
    and "fst (snd (learn_fixpoint scenario_env (long_program k) scenario_obs scenario_counts
            scenario_atoms 1 False world0)) =
          \<lparr>PF = (replicate k fixed_fact)[0 := fixed_fact\<lparr>pf_p := 7/10\<rparr>] @ [free_fact], AD = []\<rparr>"
proof -
  note E = scenario_env_fields
  note eq = learn_fixpoint_valid [OF E(1) scenario_valid, of "long_program k" 1 False world0]
  show "fst (learn_fixpoint scenario_env (long_program k) scenario_obs scenario_counts
            scenario_atoms 1 False world0) = True"
    and "fst (snd (learn_fixpoint scenario_env (long_program k) scenario_obs scenario_counts
            scenario_atoms 1 False world0)) =
          \<lparr>PF = (replicate k fixed_fact)[0 := fixed_fact\<lparr>pf_p := 7/10\<rparr>] @ [free_fact], AD = []\<rparr>"
    unfolding eq
    using k
    by (simp_all add: E init_indices_long_program w empty_storage_def compute_N_scenario
        scenario_solver_def learning_rule_long update_program_parameters_def
        publish_fact_def py_call_def always_def nth_append)
qed

text \<open>
  C10 as stated fails for the program with 65537 facts of which only the last one is
  learnable: in the scenario of the specification \<^verbatim>\<open>learn_fixpoint\<close> returns true, and
  the probability of the fact at position 0, whose learnable flag is unset, has changed
  from 0.5 to 0.7.
\<close>

theorem learn_fixpoint_frame_counterexample:
  "fst (learn_fixpoint scenario_env (long_program 65536) scenario_obs scenario_counts
          scenario_atoms 1 False world0) = True \<and>
   length (PF (long_program 65536)) = 65537 \<and>
   \<not> pf_learnable (PF (long_program 65536) ! 0) \<and>
   pf_p (PF (long_program 65536) ! 0) = 1/2 \<and>
   pf_p (PF (fst (snd (learn_fixpoint scenario_env (long_program 65536) scenario_obs
          scenario_counts scenario_atoms 1 False world0))) ! 0) = 7/10"
proof -
  have k: "(0::nat) < 65536" and w: "(of_nat 65536 :: u16) = 0" by simp_all
  note run = learn_fixpoint_long [OF k w]
  have p: "pf_p (PF (long_program 65536) ! 0) = 1/2"
    using long_program_0 [OF k] by (simp add: fixed_fact_def)
  have q: "pf_p (PF (fst (snd (learn_fixpoint scenario_env (long_program 65536) scenario_obs
          scenario_counts scenario_atoms 1 False world0))) ! 0) = 7/10"
    unfolding run(2) by (simp add: nth_append)
  from run(1) long_program_nth [of 65536] p q show ?thesis by simp
qed

lemma learning_rule_long_1:
  "learning_rule scenario_env \<lparr>I_n = Suc 0, I_m = 0, I_F = (a, [1]), I_A = (None, [])\<rparr>
     \<lparr>O_n = 2\<rparr> scenario_counts 4 scenario_storage (long_program (Suc 0)) =
   \<lparr>PF = [fixed_fact, free_fact\<lparr>pf_p := 7/10\<rparr>], AD = []\<rparr>"
  by (simp add: learning_rule_def divide_parameters_def update_parameters_def
      update_observation_def reset_parameters_def for_facts_def for_disjs_def modify_pf_def
      scenario_env_def scenario_counts_def scenario_storage_def long_program_def
      GETPTR1_int_def upt_0_2 unat_4)

lemma learn_fixpoint_long_1:
  "fst (learn_fixpoint scenario_env (long_program 1) scenario_obs scenario_counts
            scenario_atoms 1 False world0) = True"
  "fst (snd (learn_fixpoint scenario_env (long_program 1) scenario_obs scenario_counts
            scenario_atoms 1 False world0)) =
          \<lparr>PF = [fixed_fact, free_fact\<lparr>pf_p := 7/10\<rparr>], AD = []\<rparr>"
  "py_p (snd (snd (learn_fixpoint scenario_env (long_program 1) scenario_obs scenario_counts
            scenario_atoms 1 False world0))) 1 = 7/10"
proof -
  note E = scenario_env_fields
  note eq = learn_fixpoint_valid [OF E(1) scenario_valid, of "long_program 1" 1 False world0]
  show "fst (learn_fixpoint scenario_env (long_program 1) scenario_obs scenario_counts
            scenario_atoms 1 False world0) = True"
  "fst (snd (learn_fixpoint scenario_env (long_program 1) scenario_obs scenario_counts
            scenario_atoms 1 False world0)) =
          \<lparr>PF = [fixed_fact, free_fact\<lparr>pf_p := 7/10\<rparr>], AD = []\<rparr>"
  "py_p (snd (snd (learn_fixpoint scenario_env (long_program 1) scenario_obs scenario_counts
            scenario_atoms 1 False world0))) 1 = 7/10"
    unfolding eq
    by (simp_all add: E init_indices_long_program empty_storage_def compute_N_scenario
        scenario_solver_def learning_rule_long_1 update_program_parameters_def
        publish_fact_def py_call_def always_def free_fact_def)
qed

theorem learn_fixpoint_frame_witness:
  "length (PF (long_program 1)) \<le> 65536 \<and> length (AD (long_program 1)) \<le> 65536 \<and>
   fst (learn_fixpoint scenario_env (long_program 1) scenario_obs scenario_counts
          scenario_atoms 1 False world0) = True \<and>
   \<not> pf_learnable (PF (long_program 1) ! 0) \<and>
   PF (fst (snd (learn_fixpoint scenario_env (long_program 1) scenario_obs scenario_counts
          scenario_atoms 1 False world0))) ! 0 = PF (long_program 1) ! 0 \<and>
   pf_p (PF (fst (snd (learn_fixpoint scenario_env (long_program 1) scenario_obs scenario_counts
          scenario_atoms 1 False world0))) ! 1) = 7/10 \<and>
   py_p (snd (snd (learn_fixpoint scenario_env (long_program 1) scenario_obs scenario_counts
          scenario_atoms 1 False world0))) 0 = py_p world0 0 \<and>
   py_p (snd (snd (learn_fixpoint scenario_env (long_program 1) scenario_obs scenario_counts
          scenario_atoms 1 False world0))) 1 = 7/10"
proof -
  let ?r = "learn_fixpoint scenario_env (long_program 1) scenario_obs scenario_counts
          scenario_atoms 1 False world0"
  have run: "?r = (fst ?r, fst (snd ?r), snd (snd ?r))" by simp
  have len: "length (PF (long_program 1)) \<le> 65536" "length (AD (long_program 1)) \<le> 65536"
    by (simp_all add: long_program_def)
  note T = learn_fixpoint_frame [OF run len]
  have n0: "0 < length (PF (long_program 1)) \<and> \<not> pf_learnable (PF (long_program 1) ! 0)"
    using long_program_nth [of 1] by simp
  from T have "\<forall>k. k < length (PF (long_program 1)) \<and> \<not> pf_learnable (PF (long_program 1) ! k)
      \<longrightarrow> PF (fst (snd ?r)) ! k = PF (long_program 1) ! k"
    by blast
  with n0 have a: "PF (fst (snd ?r)) ! 0 = PF (long_program 1) ! 0" by blast
  have h0: "\<forall>k. k < length (PF (long_program 1)) \<and> pf_learnable (PF (long_program 1) ! k)
      \<longrightarrow> pf_self (PF (long_program 1) ! k) \<noteq> 0"
    by (simp add: long_program_def fixed_fact_def free_fact_def nth_Cons' less_Suc_eq)
  from T have "\<forall>h. (\<forall>k. k < length (PF (long_program 1)) \<and> pf_learnable (PF (long_program 1) ! k)
      \<longrightarrow> pf_self (PF (long_program 1) ! k) \<noteq> h) \<longrightarrow> py_p (snd (snd ?r)) h = py_p world0 h"
    by blast
  with h0 have b: "py_p (snd (snd ?r)) 0 = py_p world0 0" by blast
  have c: "pf_p (PF (fst (snd ?r)) ! 1) = 7/10"
    unfolding learn_fixpoint_long_1(2) by simp
  from len learn_fixpoint_long_1(1) n0 a c b learn_fixpoint_long_1(3)
  show ?thesis by (intro conjI) blast+
qed

section \<open>The values written to a disjunction by one pass\<close>

lemma modify_ad_length [simp]: "length (AD (modify_ad k j f P)) = length (AD P)"
  by (simp add: modify_ad_def)

lemma modify_ad_other: "k' \<noteq> k \<Longrightarrow> AD (modify_ad k j f P) ! k' = AD P ! k'"
  by (simp add: modify_ad_def)

lemma fold_AD:
  assumes "\<And>i P. AD (step i P) = AD P"
  shows "AD (fold step is P) = AD P"
  by (induction "is" arbitrary: P) (simp_all add: assms)

lemma fold_AD_length:
  assumes "\<And>i P. length (AD (step i P)) = length (AD P)"
  shows "length (AD (fold step is P)) = length (AD P)"
  by (induction "is" arbitrary: P) (simp_all add: assms)

lemma fold_AD_other:
  assumes "\<And>i P. AD (step i P) ! k = AD P ! k"
  shows "AD (fold step is P) ! k = AD P ! k"
  by (induction "is" arbitrary: P) (simp_all add: assms)

lemma for_facts_AD [simp]: "AD (for_facts I g P) = AD P"
  unfolding for_facts_def by (rule fold_AD) simp

text \<open>The loop over the outcomes of the disjunction \<open>k\<close>, cut after \<open>n\<close> rounds.\<close>

lemma outcomes_loop:
  assumes k: "k < length (AD P)" and n: "n \<le> length (ad_P (AD P ! k))"
  shows "ad_P (AD (fold (\<lambda>j P. modify_ad k j (g j) P) [0..<n] P) ! k) =
           map (\<lambda>j. g j (ad_P (AD P ! k) ! j)) [0..<n] @ drop n (ad_P (AD P ! k))"
  using n
proof (induction n)
  case 0
  then show ?case by simp
next
  case (Suc n)
  let ?xs = "ad_P (AD P ! k)"
  let ?P = "fold (\<lambda>j P. modify_ad k j (g j) P) [0..<n] P"
  from Suc.prems have n: "n < length ?xs" by simp
  then have IH: "ad_P (AD ?P ! k) = map (\<lambda>j. g j (?xs ! j)) [0..<n] @ drop n ?xs"
    using Suc.IH by simp
  have len: "k < length (AD ?P)"
    using k by (simp add: fold_AD_length)
  have d: "drop n ?xs = ?xs ! n # drop (Suc n) ?xs"
    using n by (simp add: Cons_nth_drop_Suc)
  have "ad_P (AD (modify_ad k n (g n) ?P) ! k) = (ad_P (AD ?P ! k))[n := g n (ad_P (AD ?P ! k) ! n)]"
    using len by (simp add: modify_ad_def)
  also have "\<dots> = map (\<lambda>j. g j (?xs ! j)) [0..<n] @ g n (?xs ! n) # drop (Suc n) ?xs"
    unfolding IH d by (simp add: list_update_append nth_append)
  finally show ?case by simp
qed

lemma outcomes_loop_all:
  assumes "k < length (AD P)"
  shows "ad_P (AD (fold (\<lambda>j P. modify_ad k j (g j) P) [0..<length (ad_P (AD P ! k))] P) ! k) =
           map (\<lambda>j. g j (ad_P (AD P ! k) ! j)) [0..<length (ad_P (AD P ! k))]"
  using outcomes_loop [OF assms order_refl, of g] by simp

text \<open>The loop over the disjunction index array, cut after \<open>n\<close> rounds.\<close>

lemma disjs_loop_Suc:
  "fold (\<lambda>i P. fold (\<lambda>j P. modify_ad (unat (ks ! i)) j (g i j) P)
                        [0..<length (ad_P (AD P ! unat (ks ! i)))] P)
        [0..<Suc n] P =
   (let P' = fold (\<lambda>i P. fold (\<lambda>j P. modify_ad (unat (ks ! i)) j (g i j) P)
                        [0..<length (ad_P (AD P ! unat (ks ! i)))] P)
        [0..<n] P
    in fold (\<lambda>j P. modify_ad (unat (ks ! n)) j (g n j) P)
         [0..<length (ad_P (AD P' ! unat (ks ! n)))] P')"
  by (simp add: Let_def)

lemma disjs_loop_length:
  "length (AD (fold (\<lambda>i P. fold (\<lambda>j P. modify_ad (unat (ks ! i)) j (g i j) P)
                        [0..<length (ad_P (AD P ! unat (ks ! i)))] P)
        [0..<n] P)) = length (AD P)"
  by (rule fold_AD_length) (rule fold_AD_length, simp)

lemma disjs_loop_other:
  assumes "\<forall>j. j < n \<longrightarrow> unat (ks ! j) \<noteq> k"
  shows "AD (fold (\<lambda>i P. fold (\<lambda>j P. modify_ad (unat (ks ! i)) j (g i j) P)
                        [0..<length (ad_P (AD P ! unat (ks ! i)))] P)
        [0..<n] P) ! k = AD P ! k"
  using assms
proof (induction n)
  case 0
  then show ?case by simp
next
  case (Suc n)
  from Suc.prems have ne: "k \<noteq> unat (ks ! n)" by auto
  from Suc.prems have "\<forall>j. j < n \<longrightarrow> unat (ks ! j) \<noteq> k" by simp
  note IH = Suc.IH [OF this]
  show ?case
    unfolding disjs_loop_Suc Let_def
    by (subst fold_AD_other) (simp_all only: modify_ad_other [OF ne] IH)
qed

lemma disjs_loop_same:
  assumes d: "distinct (map unat ks)" and n: "n \<le> length ks" and i: "i < n"
    and r: "unat (ks ! i) < length (AD P)"
  shows "ad_P (AD (fold (\<lambda>i P. fold (\<lambda>j P. modify_ad (unat (ks ! i)) j (g i j) P)
                        [0..<length (ad_P (AD P ! unat (ks ! i)))] P)
        [0..<n] P) ! unat (ks ! i)) =
         map (\<lambda>j. g i j (ad_P (AD P ! unat (ks ! i)) ! j))
           [0..<length (ad_P (AD P ! unat (ks ! i)))]"
  using n i
proof (induction n)
  case 0
  then show ?case by simp
next
  case (Suc n)
  let ?P = "fold (\<lambda>i P. fold (\<lambda>j P. modify_ad (unat (ks ! i)) j (g i j) P)
                        [0..<length (ad_P (AD P ! unat (ks ! i)))] P)
        [0..<n] P"
  have neq: "unat (ks ! a) \<noteq> unat (ks ! b)" if "a < length ks" "b < length ks" "a \<noteq> b" for a b
  proof -
    have "(map unat ks ! a = map unat ks ! b) = (a = b)"
      using d that by (intro nth_eq_iff_index_eq) simp_all
    with that show ?thesis by simp
  qed
  show ?case
  proof (cases "i = n")
    case True
    have "\<forall>j. j < n \<longrightarrow> unat (ks ! j) \<noteq> unat (ks ! n)"
      using neq Suc.prems(1) by auto
    from disjs_loop_other [OF this, of g P]
    have same: "AD ?P ! unat (ks ! n) = AD P ! unat (ks ! n)" .
    have len: "unat (ks ! n) < length (AD ?P)"
      using r True by (simp add: disjs_loop_length)
    note all = outcomes_loop_all [OF len, of "g n"]
    show ?thesis
      unfolding disjs_loop_Suc True Let_def
      using all by (simp only: same)
  next
    case False
    with Suc.prems have i: "i < n" and n: "n \<le> length ks" by simp_all
    from neq [of i n] i Suc.prems(1) have ne: "unat (ks ! i) \<noteq> unat (ks ! n)" by simp
    have "AD (fold (\<lambda>j P. modify_ad (unat (ks ! n)) j (g n j) P)
         [0..<length (ad_P (AD ?P ! unat (ks ! n)))] ?P) ! unat (ks ! i) = AD ?P ! unat (ks ! i)"
      by (rule fold_AD_other) (simp add: modify_ad_other [OF ne])
    with Suc.IH [OF n i] show ?thesis
      unfolding disjs_loop_Suc Let_def by simp
  qed
qed

lemma for_disjs_same:
  assumes "distinct (map unat (snd (I_A I)))" and "I_m I = length (snd (I_A I))"
    and "i < I_m I" and "unat (snd (I_A I) ! i) < length (AD P)"
  shows "ad_P (AD (for_disjs I g P) ! unat (snd (I_A I) ! i)) =
           map (\<lambda>j. g i j (ad_P (AD P ! unat (snd (I_A I) ! i)) ! j))
             [0..<length (ad_P (AD P ! unat (snd (I_A I) ! i)))]"
  unfolding for_disjs_def Let_def
  using disjs_loop_same [OF assms(1) _ assms(3,4), of g] assms(2) by simp

lemma for_disjs_length [simp]: "length (AD (for_disjs I g P)) = length (AD P)"
  unfolding for_disjs_def Let_def by (rule disjs_loop_length)

lemma update_observation_AD_length [simp]:
  "length (AD (update_observation E I obs_counts Q i_o P)) = length (AD P)"
  by (simp add: update_observation_def Let_def)

lemma update_parameters_AD_length:
  "length (AD (update_parameters E I \<lparr>O_n = n\<rparr> obs_counts Q P)) = length (AD P)"
  by (induction n) (simp_all add: update_parameters_Suc, simp add: update_parameters_def)

lemma update_parameters_disj:
  fixes E :: "'a::{plus,times,inverse} env"
  assumes d: "distinct (map unat (snd (I_A I)))" and l: "I_m I = length (snd (I_A I))"
    and i: "i < I_m I" and r: "unat (snd (I_A I) ! i) < length (AD P)"
  shows "ad_P (AD (update_parameters E I \<lparr>O_n = n\<rparr> obs_counts Q P) ! unat (snd (I_A I) ! i)) =
           map (\<lambda>j. fold (\<lambda>i_o acc. acc + double_of_int E (sint (GETPTR1_int obs_counts i_o)) *
                                          (po_A (Q ! i_o) ! i ! j / po_o (Q ! i_o)))
                       [0..<n] (ad_P (AD P ! unat (snd (I_A I) ! i)) ! j))
             [0..<length (ad_P (AD P ! unat (snd (I_A I) ! i)))]"
proof (induction n)
  case 0
  show ?case by (simp add: update_parameters_def map_nth)
next
  case (Suc n)
  let ?k = "unat (snd (I_A I) ! i)"
  let ?P = "update_parameters E I \<lparr>O_n = n\<rparr> obs_counts Q P"
  let ?F = "for_facts I (\<lambda>i_pf p. p + double_of_int E (sint (GETPTR1_int obs_counts n)) *
                                       (snd (po_F (Q ! n) ! i_pf) / po_o (Q ! n))) ?P"
  have r': "?k < length (AD ?F)"
    using r by (simp add: update_parameters_AD_length)
  have "ad_P (AD (update_observation E I obs_counts Q n ?P) ! ?k) =
          map (\<lambda>j. ad_P (AD ?F ! ?k) ! j +
                    double_of_int E (sint (GETPTR1_int obs_counts n)) *
                      (po_A (Q ! n) ! i ! j / po_o (Q ! n)))
            [0..<length (ad_P (AD ?F ! ?k))]"
    unfolding update_observation_def Let_def
    by (rule for_disjs_same [OF d l i r'])
  then show ?case
    by (simp add: update_parameters_Suc Suc.IH)
qed

lemma learning_rule_disj:
  fixes E :: "'a::{zero,plus,times,inverse} env"
  assumes d: "distinct (map unat (snd (I_A I)))" and l: "I_m I = length (snd (I_A I))"
    and i: "i < I_m I" and r: "unat (snd (I_A I) ! i) < length (AD P)"
  shows "ad_P (AD (learning_rule E I Obs obs_counts N Q P) ! unat (snd (I_A I) ! i)) =
           map (\<lambda>j. fold (\<lambda>i_o acc. acc + double_of_int E (sint (GETPTR1_int obs_counts i_o)) *
                                          (po_A (Q ! i_o) ! i ! j / po_o (Q ! i_o)))
                       [0..<O_n Obs] 0
                     / double_of_size E (unat N))
             [0..<length (ad_P (AD P ! unat (snd (I_A I) ! i)))]"
proof -
  let ?k = "unat (snd (I_A I) ! i)"
  let ?n = "length (ad_P (AD P ! ?k))"
  let ?R = "reset_parameters I P"
  let ?U = "update_parameters E I \<lparr>O_n = O_n Obs\<rparr> obs_counts Q ?R"
  have U: "update_parameters E I Obs obs_counts Q ?R = ?U"
    by (simp add: update_parameters_def)
  have r0: "?k < length (AD (for_facts I (\<lambda>i_pf p. 0 :: 'a) P))"
    using r by simp
  have valR: "ad_P (AD ?R ! ?k) = map (\<lambda>j. 0) [0..<?n]"
    unfolding reset_parameters_def
    using for_disjs_same [OF d l i r0, of "\<lambda>i_ad j p. 0"] by simp
  have rR: "?k < length (AD ?R)"
    using r by (simp add: reset_parameters_def)
  have valU: "ad_P (AD ?U ! ?k) =
           map (\<lambda>j. fold (\<lambda>i_o acc. acc + double_of_int E (sint (GETPTR1_int obs_counts i_o)) *
                                          (po_A (Q ! i_o) ! i ! j / po_o (Q ! i_o)))
                       [0..<O_n Obs] 0) [0..<?n]"
    using update_parameters_disj [OF d l i rR, of E "O_n Obs" obs_counts Q]
    by (simp add: valR)
  let ?F = "for_facts I (\<lambda>i_pf p. p / double_of_size E (unat N)) ?U"
  have rU: "?k < length (AD ?F)"
    using rR by (simp add: update_parameters_AD_length)
  have "ad_P (AD (divide_parameters E I N ?U) ! ?k) =
          map (\<lambda>j. ad_P (AD ?F ! ?k) ! j / double_of_size E (unat N))
            [0..<length (ad_P (AD ?F ! ?k))]"
    unfolding divide_parameters_def
    by (rule for_disjs_same [OF d l i rU])
  then show ?thesis
    by (simp add: learning_rule_def U valU)
qed

lemma init_indices_disjs:
  assumes ii: "init_indices ok P s = (Some I, s')" and len: "length (AD P) \<le> 65536"
  shows "map unat (snd (I_A I)) = filter (\<lambda>i. ad_learnable (AD P ! i)) [0..<length (AD P)]"
    and "I_m I = length (snd (I_A I))"
    and "distinct (map unat (snd (I_A I)))"
proof -
  note S = init_indices_Some [OF ii]
  show F: "map unat (snd (I_A I)) = filter (\<lambda>i. ad_learnable (AD P ! i)) [0..<length (AD P)]"
    using S unat_u16_positions [OF len, of ad_learnable] by (simp add: positions_filter)
  show "I_m I = length (snd (I_A I))"
    using S by (simp add: length_positions)
  show "distinct (map unat (snd (I_A I)))"
    unfolding F by simp
qed

lemma fold_plus_sum:
  "fold (\<lambda>i acc. acc + f i) [0..<n] (0 :: real) = (\<Sum>i<n. f i)"
  by (induction n) simp_all

lemma unat_word_of_int_64:
  assumes "0 \<le> S" and "S < 2 ^ 64"
  shows "unat (word_of_int S :: 64 word) = nat S"
proof -
  have "uint (word_of_int S :: 64 word) = S"
    using assms by (simp add: uint_word_of_int take_bit_int_eq_self)
  then show ?thesis by (simp add: unat_eq_nat_uint)
qed

lemma mass_sum:
  fixes c :: "nat \<Rightarrow> real" and a :: "nat \<Rightarrow> nat \<Rightarrow> real" and p :: "nat \<Rightarrow> real"
  assumes p: "\<And>o'. o' < m \<Longrightarrow> p o' \<noteq> 0"
    and a: "\<And>o'. o' < m \<Longrightarrow> (\<Sum>j<n. a o' j) = p o'"
    and N: "(\<Sum>o'<m. c o') = N" "N \<noteq> 0"
  shows "(\<Sum>j<n. (\<Sum>o'<m. c o' * (a o' j / p o')) / N) = 1"
proof -
  have "(\<Sum>j<n. (\<Sum>o'<m. c o' * (a o' j / p o')) / N) =
        (\<Sum>j<n. \<Sum>o'<m. c o' * (a o' j / p o')) / N"
    by (simp add: sum_divide_distrib)
  also have "(\<Sum>j<n. \<Sum>o'<m. c o' * (a o' j / p o')) = (\<Sum>o'<m. \<Sum>j<n. c o' * (a o' j / p o'))"
    by (rule sum.swap)
  also have "\<dots> = (\<Sum>o'<m. c o' * ((\<Sum>j<n. a o' j) / p o'))"
    by (simp add: sum_distrib_left sum_divide_distrib)
  also have "\<dots> = (\<Sum>o'<m. c o')"
    by (rule sum.cong) (simp_all add: a p)
  finally show ?thesis using N by simp
qed

text \<open>
  C3 (as amended). In a program with at most 65536 disjunctions, with the arithmetic of
  the reals, repeat counts whose sum is positive and below \<open>2\<^sup>6\<^sup>4\<close>, every \<open>P(O)\<close>
  different from 0, and the values that the inference primitive left for the outcomes
  of every indexed disjunction summing to \<open>P(O)\<close> for every observation, one pass of the
  loop body (reset, accumulation over the observations, division by \<open>N\<close>) leaves in
  every learnable disjunction outcome probabilities that sum to 1. Nothing is said
  about floating-point rounding: the sum is exact because the arithmetic is.
\<close>

theorem learning_rule_mass:
  fixes E :: "real env"
  assumes "double_of_int E = of_int" and "double_of_size E = of_nat"
    and "init_indices ok P s = (Some I, s')"
    and "length (AD P) \<le> 65536"
    and "length (AD P0) = length (AD P)"
    and "k < length (AD P)" and "ad_learnable (AD P ! k)"
    and "0 < (\<Sum>i_o<O_n Obs. sint (GETPTR1_int obs_counts i_o))"
    and "(\<Sum>i_o<O_n Obs. sint (GETPTR1_int obs_counts i_o)) < 2 ^ 64"
    and "\<forall>i_o. i_o < O_n Obs \<longrightarrow> po_o (Q ! i_o) \<noteq> 0"
    and "\<forall>i i_o. i < I_m I \<and> i_o < O_n Obs \<longrightarrow>
           (\<Sum>j<length (ad_P (AD P0 ! unat (snd (I_A I) ! i))). po_A (Q ! i_o) ! i ! j) =
             po_o (Q ! i_o)"
  shows "sum_list (ad_P (AD (learning_rule E I Obs obs_counts (compute_N obs_counts Obs) Q P0) ! k))
           = 1"
proof -
  let ?S = "\<Sum>i_o<O_n Obs. sint (GETPTR1_int obs_counts i_o)"
  note A = init_indices_disjs [OF assms(3,4)]
  from assms(6,7) have "k \<in> set (map unat (snd (I_A I)))"
    unfolding A(1) by simp
  then obtain i where i: "i < length (map unat (snd (I_A I)))"
    and ki: "map unat (snd (I_A I)) ! i = k"
    by (auto simp: in_set_conv_nth)
  from i have i': "i < I_m I" by (simp add: A(2))
  from i ki have k: "unat (snd (I_A I) ! i) = k" by simp
  have r: "unat (snd (I_A I) ! i) < length (AD P0)"
    using k assms(5,6) by simp
  let ?n = "length (ad_P (AD P0 ! k))"
  have N: "unat (compute_N obs_counts Obs) = nat ?S"
    unfolding compute_N_sum using assms(8,9) by (intro unat_word_of_int_64) simp_all
  have val: "ad_P (AD (learning_rule E I Obs obs_counts (compute_N obs_counts Obs) Q P0) ! k) =
      map (\<lambda>j. (\<Sum>i_o<O_n Obs. of_int (sint (GETPTR1_int obs_counts i_o)) *
                                    (po_A (Q ! i_o) ! i ! j / po_o (Q ! i_o)))
                / of_nat (nat ?S)) [0..<?n]"
    using learning_rule_disj [OF A(3) A(2) i' r, of E Obs obs_counts
        "compute_N obs_counts Obs" Q]
    by (simp only: k N assms(1,2) fold_plus_sum)
  have p: "po_o (Q ! i_o) \<noteq> 0" if "i_o < O_n Obs" for i_o
    using assms(10) that by simp
  have a: "(\<Sum>j<?n. po_A (Q ! i_o) ! i ! j) = po_o (Q ! i_o)" if "i_o < O_n Obs" for i_o
    using assms(11) that i' k by auto
  have c: "(\<Sum>i_o<O_n Obs. real_of_int (sint (GETPTR1_int obs_counts i_o))) = of_nat (nat ?S)"
    using assms(8) by simp
  have nz: "(of_nat (nat ?S) :: real) \<noteq> 0"
  proof -
    from assms(8) have "0 < nat ?S" by (simp only: zero_less_nat_eq)
    then show ?thesis by (simp only: of_nat_eq_0_iff)
  qed
  have "sum_list (map (\<lambda>j. (\<Sum>i_o<O_n Obs. of_int (sint (GETPTR1_int obs_counts i_o)) *
                                    (po_A (Q ! i_o) ! i ! j / po_o (Q ! i_o)))
                / of_nat (nat ?S)) [0..<?n]) =
        (\<Sum>j<?n. (\<Sum>i_o<O_n Obs. of_int (sint (GETPTR1_int obs_counts i_o)) *
                                    (po_A (Q ! i_o) ! i ! j / po_o (Q ! i_o)))
                / of_nat (nat ?S))"
    by (simp add: interv_sum_list_conv_sum_set_nat atLeast0LessThan)
  also have "\<dots> = 1"
    by (rule mass_sum [OF p a c nz])
  finally show ?thesis unfolding val .
qed

section \<open>The probability mass of a disjunction, evaluated\<close>

lemma init_indices_disj:
  "init_indices always disj_program s =
     (Some \<lparr>I_n = 0, I_m = Suc 0, I_F = (None, []), I_A = (Some (nmalloc s), [1])\<rparr>,
      s\<lparr>live := (live s)(nmalloc s \<mapsto> 2), nmalloc := Suc (nmalloc s)\<rparr>)"
  by (simp add: init_indices_def build_index_def malloc_def always_def disj_program_def
      sizeof_uint16_def)

lemma upt_0_3: "[0..<3] = [0, 1, 2]"
  by (simp add: numeral_3_eq_3)

lemma disj_env_fields:
  "import_array_ok disj_env" "malloc_ok disj_env = always" "py_ok disj_env = always"
  "init_observations disj_env scenario_obs scenario_atoms = Some \<lparr>O_n = 2\<rparr>"
  "init_prob_storage_seq disj_env = empty_storage"
  "prob_obs_reuse disj_env = disj_solver"
  "double_of_int disj_env = of_int" "double_of_size disj_env = of_nat"
  by (simp_all add: disj_env_def scenario_env_def rows_of_def scenario_obs_def)

lemma learning_rule_disj_program:
  "learning_rule disj_env \<lparr>I_n = 0, I_m = Suc 0, I_F = (None, []), I_A = (a, [1])\<rparr>
     \<lparr>O_n = 2\<rparr> scenario_counts 4 disj_storage disj_program =
   \<lparr>PF = [],
    AD = [\<lparr>ad_P = [1], ad_learnable = False, ad_self = 0\<rparr>,
          \<lparr>ad_P = [2/5, 17/80, 31/80], ad_learnable = True, ad_self = 1\<rparr>]\<rparr>"
  by (simp add: learning_rule_def divide_parameters_def update_parameters_def
      update_observation_def reset_parameters_def for_facts_def for_disjs_def modify_ad_def
      disj_env_fields scenario_counts_def disj_storage_def disj_program_def
      GETPTR1_int_def upt_0_2 upt_0_3 unat_4)

lemma compute_N_zero: "compute_N zero_counts \<lparr>O_n = 2\<rparr> = 0"
  by (simp add: compute_N_def zero_counts_def GETPTR1_int_def upt_0_2)

lemma update_parameters_zero:
  "update_parameters disj_env \<lparr>I_n = 0, I_m = Suc 0, I_F = (None, []), I_A = (a, [1])\<rparr>
     \<lparr>O_n = 2\<rparr> zero_counts disj_storage
     (reset_parameters \<lparr>I_n = 0, I_m = Suc 0, I_F = (None, []), I_A = (a, [1])\<rparr> disj_program) =
   \<lparr>PF = [],
    AD = [\<lparr>ad_P = [1], ad_learnable = False, ad_self = 0\<rparr>,
          \<lparr>ad_P = [0, 0, 0], ad_learnable = True, ad_self = 1\<rparr>]\<rparr>"
  by (simp add: update_parameters_def
      update_observation_def reset_parameters_def for_facts_def for_disjs_def modify_ad_def
      disj_env_fields zero_counts_def disj_storage_def disj_program_def
      GETPTR1_int_def upt_0_2 upt_0_3)

lemma learning_rule_zero:
  "learning_rule disj_env \<lparr>I_n = 0, I_m = Suc 0, I_F = (None, []), I_A = (a, [1])\<rparr>
     \<lparr>O_n = 2\<rparr> zero_counts 0 disj_storage disj_program =
   \<lparr>PF = [],
    AD = [\<lparr>ad_P = [1], ad_learnable = False, ad_self = 0\<rparr>,
          \<lparr>ad_P = [0, 0, 0], ad_learnable = True, ad_self = 1\<rparr>]\<rparr>"
  unfolding learning_rule_def update_parameters_zero
  by (simp add: divide_parameters_def for_facts_def for_disjs_def modify_ad_def
      disj_env_fields upt_0_3)

lemma sum_counts_scenario: "(\<Sum>i_o<2. sint (GETPTR1_int scenario_counts i_o)) = 4"
  by (simp add: scenario_counts_def GETPTR1_int_def numeral_2_eq_2)

lemma disj_storage_mass:
  "i_o < 2 \<Longrightarrow> po_o (disj_storage ! i_o) \<noteq> 0"
  "i_o < 2 \<Longrightarrow>
     po_A (disj_storage ! i_o) ! 0 ! 0 + po_A (disj_storage ! i_o) ! 0 ! Suc 0 +
     po_A (disj_storage ! i_o) ! 0 ! Suc (Suc 0) = po_o (disj_storage ! i_o)"
  by (auto simp add: less_2_cases_iff disj_storage_def)

theorem learning_rule_mass_witness:
  "fst (init_indices always disj_program world0) =
     Some \<lparr>I_n = 0, I_m = 1, I_F = (None, []), I_A = (Some 0, [1])\<rparr> \<and>
   ad_P (AD (learning_rule disj_env \<lparr>I_n = 0, I_m = 1, I_F = (None, []), I_A = (Some 0, [1])\<rparr>
               \<lparr>O_n = 2\<rparr> scenario_counts (compute_N scenario_counts \<lparr>O_n = 2\<rparr>)
               disj_storage disj_program) ! 1) = [2/5, 17/80, 31/80] \<and>
   sum_list (ad_P (AD (learning_rule disj_env
               \<lparr>I_n = 0, I_m = 1, I_F = (None, []), I_A = (Some 0, [1])\<rparr>
               \<lparr>O_n = 2\<rparr> scenario_counts (compute_N scenario_counts \<lparr>O_n = 2\<rparr>)
               disj_storage disj_program) ! 1)) = 1"
proof -
  let ?I = "\<lparr>I_n = 0, I_m = 1, I_F = (None, []), I_A = (Some 0, [1 :: u16])\<rparr>"
  let ?s = "world0\<lparr>live := (live world0)(nmalloc world0 \<mapsto> 2), nmalloc := Suc (nmalloc world0)\<rparr>"
  have ii: "init_indices always disj_program world0 = (Some ?I, ?s)"
    using init_indices_disj [of world0] by (simp add: world0_def)
  have len: "length (AD disj_program) \<le> 65536" "length (AD disj_program) = length (AD disj_program)"
    "1 < length (AD disj_program)" "ad_learnable (AD disj_program ! 1)"
    by (simp_all add: disj_program_def)
  have c: "0 < (\<Sum>i_o<O_n \<lparr>O_n = 2\<rparr>. sint (GETPTR1_int scenario_counts i_o))"
    "(\<Sum>i_o<O_n \<lparr>O_n = 2\<rparr>. sint (GETPTR1_int scenario_counts i_o)) < 2 ^ 64"
    by (simp_all add: sum_counts_scenario)
  have p: "\<forall>i_o. i_o < O_n \<lparr>O_n = 2\<rparr> \<longrightarrow> po_o (disj_storage ! i_o) \<noteq> 0"
    by (simp add: disj_storage_mass)
  have a: "\<forall>i i_o. i < I_m ?I \<and> i_o < O_n \<lparr>O_n = 2\<rparr> \<longrightarrow>
      (\<Sum>j<length (ad_P (AD disj_program ! unat (snd (I_A ?I) ! i))). po_A (disj_storage ! i_o) ! i ! j) =
        po_o (disj_storage ! i_o)"
    by (simp add: disj_storage_mass disj_program_def numeral_3_eq_3)
  have f: "fst (init_indices always disj_program world0) = Some ?I"
    by (simp add: ii)
  have v: "ad_P (AD (learning_rule disj_env ?I \<lparr>O_n = 2\<rparr> scenario_counts
               (compute_N scenario_counts \<lparr>O_n = 2\<rparr>) disj_storage disj_program) ! 1) =
           [2/5, 17/80, 31/80]"
    using learning_rule_disj_program [of "Some 0"] by (simp add: compute_N_scenario)
  from f v learning_rule_mass [OF disj_env_fields(7,8) ii len c p a]
  show ?thesis by (intro conjI)
qed

text \<open>
  With repeat counts that are all zero \<open>N\<close> is 0 and so is every accumulated value: the
  division of the source is \<^verbatim>\<open>0.0 / 0.0\<close>, which is not a number in IEEE arithmetic
  and 0 here. In both readings the outcome probabilities do not sum to 1, although the
  values of the inference primitive sum to \<open>P(O)\<close> for both observations, and the call of
  \<^verbatim>\<open>learn_fixpoint\<close> returns true and publishes these values.
\<close>

lemma learn_fixpoint_zero:
  "fst (learn_fixpoint disj_env disj_program scenario_obs zero_counts scenario_atoms
          1 False disj_world) = True"
  "AD (fst (snd (learn_fixpoint disj_env disj_program scenario_obs zero_counts
          scenario_atoms 1 False disj_world))) ! 1 =
     \<lparr>ad_P = [0, 0, 0], ad_learnable = True, ad_self = 1\<rparr>"
  "py_P (snd (snd (learn_fixpoint disj_env disj_program scenario_obs zero_counts
          scenario_atoms 1 False disj_world))) 1 = [0, 0, 0]"
proof -
  note E = disj_env_fields
  have v: "\<not> (PyArray_NDIM scenario_obs \<noteq> 2 \<or> PyArray_NDIM zero_counts \<noteq> 1 \<or>
       PyArray_NDIM scenario_atoms \<noteq> 1 \<or> PyArray_SIZE scenario_atoms \<noteq> dims scenario_obs ! 1 \<or>
       PyArray_SIZE zero_counts \<noteq> dims scenario_obs ! 0)"
    by (simp add: PyArray_NDIM_def PyArray_SIZE_def scenario_obs_def zero_counts_def
        scenario_atoms_def)
  note eq = learn_fixpoint_valid [OF E(1) v, of disj_program 1 False disj_world]
  show "fst (learn_fixpoint disj_env disj_program scenario_obs zero_counts scenario_atoms
          1 False disj_world) = True"
  "AD (fst (snd (learn_fixpoint disj_env disj_program scenario_obs zero_counts
          scenario_atoms 1 False disj_world))) ! 1 =
     \<lparr>ad_P = [0, 0, 0], ad_learnable = True, ad_self = 1\<rparr>"
  "py_P (snd (snd (learn_fixpoint disj_env disj_program scenario_obs zero_counts
          scenario_atoms 1 False disj_world))) 1 = [0, 0, 0]"
    unfolding eq
    by (simp_all add: E init_indices_disj empty_storage_def compute_N_zero
        disj_solver_def learning_rule_zero update_program_parameters_def
        publish_disj_def publish_outcome_def py_call_def always_def disj_world_def world0_def
        upt_0_3)
qed

theorem learning_rule_mass_counterexample:
  "sum_list (po_A (disj_storage ! 0) ! 0) = po_o (disj_storage ! 0) \<and>
   sum_list (po_A (disj_storage ! 1) ! 0) = po_o (disj_storage ! 1) \<and>
   po_o (disj_storage ! 0) \<noteq> 0 \<and> po_o (disj_storage ! 1) \<noteq> 0 \<and>
   ad_learnable (AD disj_program ! 1) \<and>
   fst (init_indices always disj_program world0) =
     Some \<lparr>I_n = 0, I_m = 1, I_F = (None, []), I_A = (Some 0, [1])\<rparr> \<and>
   compute_N zero_counts \<lparr>O_n = 2\<rparr> = 0 \<and>
   ad_P (AD (update_parameters disj_env
               \<lparr>I_n = 0, I_m = 1, I_F = (None, []), I_A = (Some 0, [1])\<rparr>
               \<lparr>O_n = 2\<rparr> zero_counts disj_storage
               (reset_parameters \<lparr>I_n = 0, I_m = 1, I_F = (None, []), I_A = (Some 0, [1])\<rparr>
                  disj_program)) ! 1) = [0, 0, 0] \<and>
   sum_list (ad_P (AD (learning_rule disj_env
               \<lparr>I_n = 0, I_m = 1, I_F = (None, []), I_A = (Some 0, [1])\<rparr>
               \<lparr>O_n = 2\<rparr> zero_counts (compute_N zero_counts \<lparr>O_n = 2\<rparr>)
               disj_storage disj_program) ! 1)) \<noteq> 1 \<and>
   fst (learn_fixpoint disj_env disj_program scenario_obs zero_counts scenario_atoms
          1 False disj_world) = True \<and>
   sum_list (ad_P (AD (fst (snd (learn_fixpoint disj_env disj_program scenario_obs zero_counts
          scenario_atoms 1 False disj_world))) ! 1)) \<noteq> 1 \<and>
   py_P (snd (snd (learn_fixpoint disj_env disj_program scenario_obs zero_counts
          scenario_atoms 1 False disj_world))) 1 = [0, 0, 0]"
proof -
  have 1: "sum_list (po_A (disj_storage ! 0) ! 0) = po_o (disj_storage ! 0)"
    "sum_list (po_A (disj_storage ! 1) ! 0) = po_o (disj_storage ! 1)"
    "po_o (disj_storage ! 0) \<noteq> 0" "po_o (disj_storage ! 1) \<noteq> 0"
    "ad_learnable (AD disj_program ! 1)"
    by (simp_all add: disj_storage_def disj_program_def)
  have 2: "fst (init_indices always disj_program world0) =
     Some \<lparr>I_n = 0, I_m = 1, I_F = (None, []), I_A = (Some 0, [1])\<rparr>"
    using init_indices_disj [of world0] by (simp add: world0_def)
  have 3: "ad_P (AD (update_parameters disj_env
               \<lparr>I_n = 0, I_m = 1, I_F = (None, []), I_A = (Some 0, [1])\<rparr>
               \<lparr>O_n = 2\<rparr> zero_counts disj_storage
               (reset_parameters \<lparr>I_n = 0, I_m = 1, I_F = (None, []), I_A = (Some 0, [1])\<rparr>
                  disj_program)) ! 1) = [0, 0, 0]"
    using update_parameters_zero [of "Some 0"] by simp
  have 4: "sum_list (ad_P (AD (learning_rule disj_env
               \<lparr>I_n = 0, I_m = 1, I_F = (None, []), I_A = (Some 0, [1])\<rparr>
               \<lparr>O_n = 2\<rparr> zero_counts (compute_N zero_counts \<lparr>O_n = 2\<rparr>)
               disj_storage disj_program) ! 1)) \<noteq> 1"
    using learning_rule_zero [of "Some 0"] by (simp add: compute_N_zero)
  have 5: "sum_list (ad_P (AD (fst (snd (learn_fixpoint disj_env disj_program scenario_obs
          zero_counts scenario_atoms 1 False disj_world))) ! 1)) \<noteq> 1"
    unfolding learn_fixpoint_zero(2) by simp
  from 1 2 compute_N_zero 3 4 learn_fixpoint_zero(1) 5 learn_fixpoint_zero(3)
  show ?thesis by (intro conjI)
qed

end
